(* ===== verification/Prelude.thy ===== *)
theory Prelude
  imports Main "HOL-Library.AList" "HOL-Library.Sublist" "HOL-Library.Word"
begin

text \<open>
  Shared vocabulary of the development: the Python exceptions the migration
  script can raise or catch, and the Python string and list primitives that
  \<open>src/main.py\<close> builds its SQL text and its CSV rows with (\<open>str.join\<close>,
  \<open>str.replace\<close>, \<open>str.strip\<close>, \<open>str.split\<close>, \<open>str.lower\<close>, negative
  slicing, \<open>str(int)\<close>).  Characters are Isabelle \<open>char\<close>s, read as the
  code points 0--255 (Latin-1); the predicates below follow CPython on that
  range.  The collection \<open>py_eval\<close> gathers the rules needed to evaluate
  these primitives on literals with \<open>simp\<close>.
\<close>

named_theorems py_eval "rules that evaluate the Python primitives on literals"
named_theorems conn_reachable "the script's operations keep a target connection reachable"

declare char_of_eq_iff [py_eval]

type_synonym byte = "8 word"

section \<open>Exceptions\<close>

text \<open>
  The exceptions that cross a function boundary of the script: a database
  error (any \<open>psycopg2\<close> or \<open>mysql.connector\<close> error, with its message), an
  I/O error of the file system, \<open>StopIteration\<close> from \<open>next()\<close> on an
  exhausted CSV reader, and the error PostgreSQL raises for every statement
  sent inside a transaction that has already failed.
\<close>

datatype exn =
    DbError string
  | IoError string
  | StopIteration
  | TypeError string
  | InFailedSqlTransaction

section \<open>Characters\<close>

definition dquote :: char where
  "dquote = CHR 0x22"

definition squote :: char where
  "squote = CHR 0x27"

definition newline :: char where
  "newline = CHR 0x0A"

text \<open>CPython's \<open>str.isspace\<close> on the code points below 256.\<close>

definition py_isspace :: "char \<Rightarrow> bool" where
  "py_isspace c =
     (let n = (of_char c :: nat)
      in (9 \<le> n \<and> n \<le> 13) \<or> (28 \<le> n \<and> n \<le> 32) \<or> n = 133 \<or> n = 160)"

text \<open>CPython's \<open>str.lower\<close> on the code points below 256: ASCII and
  Latin-1 capitals move up by 32, everything else is unchanged.\<close>

definition py_lower_char :: "char \<Rightarrow> char" where
  "py_lower_char c =
     (let n = (of_char c :: nat)
      in if (65 \<le> n \<and> n \<le> 90) \<or> (192 \<le> n \<and> n \<le> 222 \<and> n \<noteq> 215)
         then char_of (n + 32) else c)"

definition py_lower :: "string \<Rightarrow> string" where
  "py_lower s = map py_lower_char s"

declare py_isspace_def [py_eval] py_lower_char_def [py_eval] py_lower_def [py_eval]
  dquote_def [py_eval] squote_def [py_eval] newline_def [py_eval]

section \<open>String primitives\<close>

text \<open>\<open>sep.join(xs)\<close>.\<close>

fun py_join :: "string \<Rightarrow> string list \<Rightarrow> string" where
  "py_join sep [] = []"
| "py_join sep [x] = x"
| "py_join sep (x # y # zs) = x @ sep @ py_join sep (y # zs)"

text \<open>\<open>s.strip()\<close>: whitespace removed at both ends.\<close>

definition py_strip :: "string \<Rightarrow> string" where
  "py_strip s = rev (dropWhile py_isspace (rev (dropWhile py_isspace s)))"

text \<open>\<open>s[-n:]\<close>: the last \<open>n\<close> characters, the whole string if shorter.\<close>

definition py_suffix :: "nat \<Rightarrow> 'a list \<Rightarrow> 'a list" where
  "py_suffix n s = drop (length s - n) s"

text \<open>
  \<open>s.replace(old, new)\<close>: every non-overlapping occurrence of \<open>old\<close>,
  scanning left to right, is replaced by \<open>new\<close>.  For an empty \<open>old\<close> CPython
  inserts \<open>new\<close> before every character and at the end.
\<close>

function replace_from :: "string \<Rightarrow> string \<Rightarrow> string \<Rightarrow> string" where
  "replace_from old new [] = []"
| "replace_from old new (c # cs) =
     (if old \<noteq> [] \<and> take (length old) (c # cs) = old
      then new @ replace_from old new (drop (length old) (c # cs))
      else c # replace_from old new cs)"
  by pat_completeness auto
termination
  by (relation "measure (\<lambda>(_, _, s). length s)") auto

definition py_replace :: "string \<Rightarrow> string \<Rightarrow> string \<Rightarrow> string" where
  "py_replace old new s =
     (if old = [] then new @ concat (map (\<lambda>c. c # new) s)
      else replace_from old new s)"

text \<open>\<open>s.split(c)\<close> for a one-character separator: always at least one piece.\<close>

fun py_split_char :: "char \<Rightarrow> string \<Rightarrow> string list" where
  "py_split_char c [] = [[]]"
| "py_split_char c (d # ds) =
     (case py_split_char c ds of
        [] \<Rightarrow> [[d]]
      | r # rs \<Rightarrow> (if d = c then [] # r # rs else (d # r) # rs))"

text \<open>\<open>str(n)\<close> for Python integers: decimal digits, a minus sign if negative.\<close>

fun nat_str :: "nat \<Rightarrow> string" where
  "nat_str n =
     (if n < 10 then [char_of (48 + n)]
      else nat_str (n div 10) @ [char_of (48 + n mod 10)])"

declare nat_str.simps [simp del]

definition py_str_int :: "int \<Rightarrow> string" where
  "py_str_int i = (if i < 0 then CHR ''-'' # nat_str (nat (- i)) else nat_str (nat i))"

text \<open>\<open>f'"{name}"'\<close>: the double-quoted identifier the script writes.\<close>

definition quote_ident :: "string \<Rightarrow> string" where
  "quote_ident s = dquote # s @ [dquote]"

text \<open>Fixed-size batches of a list, the reference for the batching loops.\<close>

function chunks :: "nat \<Rightarrow> 'a list \<Rightarrow> 'a list list" where
  "chunks n xs = (if xs = [] \<or> n = 0 then [] else take n xs # chunks n (drop n xs))"
  by pat_completeness auto
termination
  by (relation "measure (\<lambda>(n, xs). length xs)") auto

declare chunks.simps [simp del]

section \<open>Insertion-ordered dictionaries\<close>

text \<open>
  A Python \<open>dict\<close> keeps its keys in insertion order; \<open>d[k] = v\<close> replaces
  the value in place when \<open>k\<close> is present and appends \<open>(k, v)\<close> otherwise,
  which is \<open>AList.update\<close>.  The grouping loops of the introspector build
  such dictionaries; their results are described as \<open>keyed ks f\<close>, the
  dictionary with keys \<open>ks\<close> in this order and values \<open>f\<close>.
\<close>

definition keyed :: "'k list \<Rightarrow> ('k \<Rightarrow> 'v) \<Rightarrow> ('k \<times> 'v) list" where
  "keyed ks f = map (\<lambda>k. (k, f k)) ks"

text \<open>The distinct elements of a list in the order of their first
  occurrence (Isabelle's \<open>remdups\<close> keeps the last occurrence).\<close>

definition first_occurrences :: "'a list \<Rightarrow> 'a list" where
  "first_occurrences xs = rev (remdups (rev xs))"

section \<open>Lemmas on the primitives\<close>

text \<open>The two branches of \<open>replace_from\<close>, used instead of its equation.\<close>

lemma replace_from_match:
  "old \<noteq> [] \<and> take (length old) (c # cs) = old \<Longrightarrow>
   replace_from old new (c # cs) = new @ replace_from old new (drop (length old) (c # cs))"
  unfolding replace_from.simps(2) by (rule if_P)

lemma replace_from_skip:
  "\<not> (old \<noteq> [] \<and> take (length old) (c # cs) = old) \<Longrightarrow>
   replace_from old new (c # cs) = c # replace_from old new cs"
  unfolding replace_from.simps(2) by (rule if_not_P)

declare replace_from.simps(2) [simp del]

lemma py_join_map_append:
  "py_join sep (map f (x # xs)) = f x @ concat (map (\<lambda>y. sep @ f y) xs)"
  by (induction xs arbitrary: x) auto

lemma py_split_char_nonempty [simp]: "py_split_char c s \<noteq> []"
  by (induction s) (auto split: list.splits)

lemma py_split_char_no_sep:
  "c \<notin> set s \<Longrightarrow> py_split_char c s = [s]"
  by (induction s) auto

lemma py_split_char_append_sep:
  "c \<notin> set s \<Longrightarrow> py_split_char c (s @ c # t) = s # py_split_char c t"
proof (induction s)
  case Nil
  then show ?case by (cases "py_split_char c t") auto
next
  case (Cons d s)
  then show ?case by auto
qed

text \<open>Splitting a joined list on a separator none of its pieces contains
  gives the pieces back.\<close>

lemma py_split_char_join:
  "xs \<noteq> [] \<Longrightarrow> \<forall>x \<in> set xs. c \<notin> set x \<Longrightarrow> py_split_char c (py_join [c] xs) = xs"
proof (induction "[c]" xs rule: py_join.induct)
  case (2 x)
  then show ?case by (simp add: py_split_char_no_sep)
next
  case (3 x y zs)
  then show ?case by (simp add: py_split_char_append_sep)
qed simp

lemma replace_from_same: "old = new \<Longrightarrow> replace_from old new t = t"
proof (induction old new t rule: replace_from.induct)
  case (2 old new c cs)
  show ?case
  proof (cases "old \<noteq> [] \<and> take (length old) (c # cs) = old")
    case True
    have "replace_from old new (c # cs) = new @ drop (length old) (c # cs)"
      using replace_from_match[OF True] "2.IH"(1)[OF True] "2.prems" by simp
    also have "\<dots> = c # cs" using True "2.prems" by (metis append_take_drop_id)
    finally show ?thesis .
  next
    case False
    show ?thesis using replace_from_skip[OF False] "2.IH"(2)[OF False "2.prems"] by simp
  qed
qed simp

text \<open>Replacing a string by itself changes nothing.\<close>

lemma py_replace_same: "s \<noteq> [] \<Longrightarrow> py_replace s s t = t"
  by (simp add: py_replace_def replace_from_same)

lemma replace_from_no_match:
  "\<not> sublist old s \<Longrightarrow> replace_from old new s = s"
proof (induction old new s rule: replace_from.induct)
  case (2 old new c cs)
  have "\<not> (take (length old) (c # cs) = old)"
  proof
    assume "take (length old) (c # cs) = old"
    then have "prefix old (c # cs)" by (metis prefix_def append_take_drop_id)
    with "2.prems" show False by (simp add: prefix_imp_sublist)
  qed
  moreover have "\<not> sublist old cs" using "2.prems" by (auto simp: sublist_Cons_right)
  ultimately show ?case using "2.IH"(2) by (simp add: replace_from_skip)
qed simp

lemma py_replace_no_match:
  "old \<noteq> [] \<Longrightarrow> \<not> sublist old s \<Longrightarrow> py_replace old new s = s"
  by (simp add: py_replace_def replace_from_no_match)

text \<open>
  A prefix of the replaced text that avoids the first character of the
  replacement was already a prefix of the original.
\<close>

lemma prefix_replace_from:
  assumes "new \<noteq> []" and "hd new \<notin> set q" and "prefix q (replace_from old new s)"
  shows "prefix q s"
  using assms
proof (induction old new s arbitrary: q rule: replace_from.induct)
  case (2 old new c cs)
  show ?case
  proof (cases "old \<noteq> [] \<and> take (length old) (c # cs) = old")
    case True
    with "2.prems" have "prefix q (new @ replace_from old new (drop (length old) (c # cs)))"
      by (simp add: replace_from_match)
    with "2.prems"(1,2) have "q = []"
      by (cases q; cases new) auto
    then show ?thesis by simp
  next
    case False
    show ?thesis
    proof (cases q)
      case (Cons d q')
      with False "2.prems" have "d = c" and "prefix q' (replace_from old new cs)"
        by (auto simp: replace_from_skip)
      with Cons "2.prems"(1,2) "2.IH"(2)[OF False] show ?thesis by auto
    qed simp
  qed
qed simp

text \<open>
  After \<open>s.replace(old, new)\<close> the text contains no occurrence of \<open>old\<close>,
  provided the replacement cannot itself produce one: \<open>new\<close> does not contain
  \<open>old\<close>, no proper prefix of \<open>old\<close> ends \<open>new\<close>, and the first character
  of \<open>new\<close> does not occur in \<open>old\<close>.
\<close>

lemma replace_from_no_occurrence:
  assumes "old \<noteq> []" and "new \<noteq> []" and "hd new \<notin> set old"
    and "\<not> sublist old new"
    and "\<forall>k \<in> set [1..<length old]. \<not> suffix (take k old) new"
  shows "\<not> sublist old (replace_from old new s)"
  using assms
proof (induction old new s rule: replace_from.induct)
  case (1 old new)
  then show ?case by simp
next
  case (2 old new c cs)
  show ?case
  proof (cases "old \<noteq> [] \<and> take (length old) (c # cs) = old")
    case True
    let ?r = "replace_from old new (drop (length old) (c # cs))"
    have IH: "\<not> sublist old ?r" using "2.IH"(1)[OF True] "2.prems" by blast
    have "\<not> (\<exists>xs1 xs2. old = xs1 @ xs2 \<and> suffix xs1 new \<and> prefix xs2 ?r)"
    proof
      assume "\<exists>xs1 xs2. old = xs1 @ xs2 \<and> suffix xs1 new \<and> prefix xs2 ?r"
      then obtain xs1 xs2 where split: "old = xs1 @ xs2" and sf: "suffix xs1 new"
        and pf: "prefix xs2 ?r" by blast
      show False
      proof (cases "xs1 = [] \<or> xs2 = []")
        case True
        with split sf pf IH "2.prems"(4) show False
          by (auto dest: prefix_imp_sublist suffix_imp_sublist)
      next
        case False
        then have "0 < length xs1" and "0 < length xs2" by auto
        then have "length xs1 \<in> set [1..<length old]" using split by (simp add: Suc_le_eq)
        moreover have "take (length xs1) old = xs1" using split by simp
        ultimately show False using sf "2.prems"(5) by metis
      qed
    qed
    with True IH "2.prems"(4) show ?thesis by (simp add: sublist_append replace_from_match)
  next
    case False
    have IH: "\<not> sublist old (replace_from old new cs)"
      using "2.IH"(2)[OF False] "2.prems" by blast
    have "\<not> prefix old (c # replace_from old new cs)"
    proof
      assume pre: "prefix old (c # replace_from old new cs)"
      with "2.prems"(1) obtain q where old: "old = c # q" and "prefix q (replace_from old new cs)"
        by (cases old) auto
      moreover have "hd new \<notin> set q" using "2.prems"(3) old by simp
      ultimately have "prefix old (c # cs)"
        using prefix_replace_from "2.prems"(2) by fastforce
      then have "take (length old) (c # cs) = old" by (metis prefix_def append_eq_conv_conj)
      with False "2.prems"(1) show False by simp
    qed
    with False IH show ?thesis by (simp add: sublist_Cons_right replace_from_skip)
  qed
qed

lemma py_replace_no_occurrence:
  assumes "old \<noteq> []" and "new \<noteq> []" and "hd new \<notin> set old"
    and "\<not> sublist old new"
    and "\<forall>k \<in> set [1..<length old]. \<not> suffix (take k old) new"
  shows "\<not> sublist old (py_replace old new s)"
  using assms replace_from_no_occurrence by (simp add: py_replace_def)

lemma py_suffix_length [simp]: "length (py_suffix n s) = min n (length s)"
  by (simp add: py_suffix_def)

lemma py_suffix_is_suffix: "suffix (py_suffix n s) s"
  by (simp add: py_suffix_def suffix_drop)

lemma concat_chunks: "0 < n \<Longrightarrow> concat (chunks n xs) = xs"
  by (induction n xs rule: chunks.induct) (subst chunks.simps, simp)

lemma chunks_bounded: "c \<in> set (chunks n xs) \<Longrightarrow> c \<noteq> [] \<and> length c \<le> n"
  by (induction n xs rule: chunks.induct) (subst (asm) chunks.simps, auto split: if_splits)

lemma chunks_Cons:
  "xs \<noteq> [] \<Longrightarrow> 0 < n \<Longrightarrow> chunks n xs = take n xs # chunks n (drop n xs)"
  by (subst chunks.simps) simp

lemma chunks_Nil [simp]: "chunks n [] = []"
  by (subst chunks.simps) simp

lemma nat_str_nonempty [simp]: "nat_str n \<noteq> []"
  by (subst nat_str.simps) simp

lemma keyed_update_present:
  "distinct ks \<Longrightarrow> k \<in> set ks \<Longrightarrow>
   AList.update k v (keyed ks f) = keyed ks (f(k := v))"
  by (induction ks) (auto simp: keyed_def)

lemma keyed_update_absent:
  "k \<notin> set ks \<Longrightarrow> AList.update k v (keyed ks f) = keyed (ks @ [k]) (f(k := v))"
  by (induction ks) (auto simp: keyed_def)

lemma map_of_keyed:
  "map_of (keyed ks f) k = (if k \<in> set ks then Some (f k) else None)"
  by (induction ks) (auto simp: keyed_def)

lemma keyed_cong:
  "\<forall>k \<in> set ks. f k = g k \<Longrightarrow> keyed ks f = keyed ks g"
  by (simp add: keyed_def)

lemma first_occurrences_snoc:
  "first_occurrences (xs @ [x]) =
     (if x \<in> set xs then first_occurrences xs else first_occurrences xs @ [x])"
  by (simp add: first_occurrences_def)

lemma first_occurrences_Nil [simp]: "first_occurrences [] = []"
  by (simp add: first_occurrences_def)

lemma set_first_occurrences [simp]: "set (first_occurrences xs) = set xs"
  by (simp add: first_occurrences_def)

lemma distinct_first_occurrences [simp]: "distinct (first_occurrences xs)"
  by (simp add: first_occurrences_def)

lemmas keyed_simps = keyed_update_present keyed_update_absent map_of_keyed first_occurrences_snoc

end
