(* ===== verification/TypeMapper.thy ===== *)
theory TypeMapper
  imports Prelude
begin

text \<open>
  The Type Mapper, \<open>mysql_to_postgresql_type\<close> (\<open>src/main.py\<close> lines
  67--107): a pure function from a MySQL \<open>DATA_TYPE\<close> and its
  \<open>CHARACTER_MAXIMUM_LENGTH\<close> to the text of a PostgreSQL column type.  The
  Python dictionary literal is the association list \<open>type_mapping\<close>, in the
  source's order; \<open>dict.get(k, 'TEXT')\<close> is \<open>map_of\<close> with the default.
  The length is a Python \<open>int\<close> or \<open>None\<close>, read with Python's truth
  test (\<open>0\<close> is false).  The datatype \<open>pg_type\<close> is the enumeration of target
  types of the specification; the lemmas show every result is one of them,
  the special \<open>tinyint(1)\<close> rule, the \<open>TEXT\<close> fallback, and the documented
  value for every entry of the table.
\<close>

section \<open>The mapping\<close>

text \<open>\<open>f'CHAR({max_length})' if max_length else 'CHAR'\<close>.\<close>

definition sized_type :: "string \<Rightarrow> int option \<Rightarrow> string" where
  "sized_type base max_length =
     (case max_length of
        None \<Rightarrow> base
      | Some n \<Rightarrow> (if n \<noteq> 0 then base @ ''('' @ py_str_int n @ '')'' else base))"

definition type_mapping :: "int option \<Rightarrow> (string \<times> string) list" where
  "type_mapping max_length =
     [(''int'', ''INTEGER''),
      (''tinyint'', ''SMALLINT''),
      (''smallint'', ''SMALLINT''),
      (''mediumint'', ''INTEGER''),
      (''bigint'', ''BIGINT''),
      (''float'', ''REAL''),
      (''double'', ''DOUBLE PRECISION''),
      (''decimal'', ''DECIMAL''),
      (''numeric'', ''NUMERIC''),
      (''date'', ''DATE''),
      (''datetime'', ''TIMESTAMP''),
      (''timestamp'', ''TIMESTAMP''),
      (''time'', ''TIME''),
      (''year'', ''INTEGER''),
      (''char'', sized_type ''CHAR'' max_length),
      (''varchar'', sized_type ''VARCHAR'' max_length),
      (''binary'', ''BYTEA''),
      (''varbinary'', ''BYTEA''),
      (''tinyblob'', ''BYTEA''),
      (''tinytext'', ''TEXT''),
      (''blob'', ''BYTEA''),
      (''text'', ''TEXT''),
      (''mediumblob'', ''BYTEA''),
      (''mediumtext'', ''TEXT''),
      (''longblob'', ''BYTEA''),
      (''longtext'', ''TEXT''),
      (''enum'', ''TEXT''),
      (''set'', ''TEXT''),
      (''boolean'', ''BOOLEAN''),
      (''bool'', ''BOOLEAN''),
      (''json'', ''JSONB'')]"

definition mysql_to_postgresql_type :: "string \<Rightarrow> int option \<Rightarrow> string" where
  "mysql_to_postgresql_type mysql_type max_length =
     (if py_lower mysql_type = ''tinyint'' \<and> max_length = Some 1 then ''BOOLEAN''
      else (case map_of (type_mapping max_length) (py_lower mysql_type) of
              Some t \<Rightarrow> t
            | None \<Rightarrow> ''TEXT''))"

section \<open>The target types of the specification\<close>

datatype pg_type =
    PgInteger | PgSmallint | PgBigint | PgReal | PgDoublePrecision
  | PgDecimal | PgNumeric | PgDate | PgTimestamp | PgTime
  | PgChar "int option" | PgVarchar "int option"
  | PgBytea | PgText | PgBoolean | PgJsonb

fun render_pg_type :: "pg_type \<Rightarrow> string" where
  "render_pg_type PgInteger = ''INTEGER''"
| "render_pg_type PgSmallint = ''SMALLINT''"
| "render_pg_type PgBigint = ''BIGINT''"
| "render_pg_type PgReal = ''REAL''"
| "render_pg_type PgDoublePrecision = ''DOUBLE PRECISION''"
| "render_pg_type PgDecimal = ''DECIMAL''"
| "render_pg_type PgNumeric = ''NUMERIC''"
| "render_pg_type PgDate = ''DATE''"
| "render_pg_type PgTimestamp = ''TIMESTAMP''"
| "render_pg_type PgTime = ''TIME''"
| "render_pg_type (PgChar None) = ''CHAR''"
| "render_pg_type (PgChar (Some n)) = ''CHAR('' @ py_str_int n @ '')''"
| "render_pg_type (PgVarchar None) = ''VARCHAR''"
| "render_pg_type (PgVarchar (Some n)) = ''VARCHAR('' @ py_str_int n @ '')''"
| "render_pg_type PgBytea = ''BYTEA''"
| "render_pg_type PgText = ''TEXT''"
| "render_pg_type PgBoolean = ''BOOLEAN''"
| "render_pg_type PgJsonb = ''JSONB''"

text \<open>The source types the table knows, in its order.\<close>

definition known_mysql_types :: "string list" where
  "known_mysql_types = map fst (type_mapping None)"

section \<open>Lemmas\<close>

lemma type_mapping_keys: "map fst (type_mapping m) = known_mysql_types"
  by (simp add: type_mapping_def known_mysql_types_def)

lemma known_mysql_types_distinct: "distinct known_mysql_types"
  by (simp add: known_mysql_types_def type_mapping_def)

lemma sized_type_render:
  "sized_type ''CHAR'' m \<in> range render_pg_type"
  "sized_type ''VARCHAR'' m \<in> range render_pg_type"
proof -
  have "sized_type ''CHAR'' m = render_pg_type (PgChar (if m = Some 0 then None else m))"
    by (cases m) (simp_all add: sized_type_def)
  then show "sized_type ''CHAR'' m \<in> range render_pg_type" by (metis rangeI)
  have "sized_type ''VARCHAR'' m = render_pg_type (PgVarchar (if m = Some 0 then None else m))"
    by (cases m) (simp_all add: sized_type_def)
  then show "sized_type ''VARCHAR'' m \<in> range render_pg_type" by (metis rangeI)
qed

lemma type_mapping_values_render:
  "\<forall>v \<in> snd ` set (type_mapping m). v \<in> range render_pg_type"
proof -
  have base: "\<And>t. t \<in> {PgInteger, PgSmallint, PgBigint, PgReal, PgDoublePrecision,
      PgDecimal, PgNumeric, PgDate, PgTimestamp, PgTime, PgBytea, PgText, PgBoolean, PgJsonb}
      \<Longrightarrow> render_pg_type t \<in> range render_pg_type"
    by blast
  have "''INTEGER'' \<in> range render_pg_type" "''SMALLINT'' \<in> range render_pg_type"
    "''BIGINT'' \<in> range render_pg_type" "''REAL'' \<in> range render_pg_type"
    "''DOUBLE PRECISION'' \<in> range render_pg_type" "''DECIMAL'' \<in> range render_pg_type"
    "''NUMERIC'' \<in> range render_pg_type" "''DATE'' \<in> range render_pg_type"
    "''TIMESTAMP'' \<in> range render_pg_type" "''TIME'' \<in> range render_pg_type"
    "''BYTEA'' \<in> range render_pg_type" "''TEXT'' \<in> range render_pg_type"
    "''BOOLEAN'' \<in> range render_pg_type" "''JSONB'' \<in> range render_pg_type"
    using base [of PgInteger] base [of PgSmallint] base [of PgBigint] base [of PgReal]
      base [of PgDoublePrecision] base [of PgDecimal] base [of PgNumeric] base [of PgDate]
      base [of PgTimestamp] base [of PgTime] base [of PgBytea] base [of PgText]
      base [of PgBoolean] base [of PgJsonb]
    by simp_all
  with sized_type_render show ?thesis
    by (simp add: type_mapping_def)
qed

lemma lookup_type_mapping_None:
  "py_lower t \<notin> set known_mysql_types \<Longrightarrow> map_of (type_mapping m) (py_lower t) = None"
  by (simp add: map_of_eq_None_iff type_mapping_keys [of m, symmetric])

section \<open>Properties\<close>

text \<open>
  C17. The mapper is total and its result is always one of the target
  types of the specification's enumeration: \<open>INTEGER\<close>, \<dots>,
  \<open>CHAR\<close>/\<open>CHAR(n)\<close>, \<open>VARCHAR\<close>/\<open>VARCHAR(n)\<close>, \<dots>, \<open>TEXT\<close>,
  \<open>BOOLEAN\<close>, \<open>JSONB\<close>, whatever the source type and length.
\<close>

theorem mysql_to_postgresql_type_enumerated:
  "mysql_to_postgresql_type t m \<in> range render_pg_type"
proof -
  have tt: "''TEXT'' \<in> range render_pg_type"
    using rangeI [of render_pg_type PgText] by simp
  have tb: "''BOOLEAN'' \<in> range render_pg_type"
    using rangeI [of render_pg_type PgBoolean] by simp
  have "\<And>v. map_of (type_mapping m) (py_lower t) = Some v \<Longrightarrow> v \<in> range render_pg_type"
    using type_mapping_values_render by (force dest: map_of_SomeD)
  with tt tb show ?thesis
    by (auto simp: mysql_to_postgresql_type_def split: option.split)
qed

text \<open>
  A \<open>tinyint\<close> column of length 1, in any capitalisation, maps to
  \<open>BOOLEAN\<close>; the rule is checked before the general table, which maps
  \<open>tinyint\<close> to \<open>SMALLINT\<close>.
\<close>

theorem tinyint_one_is_boolean:
  "py_lower t = ''tinyint'' \<Longrightarrow> mysql_to_postgresql_type t (Some 1) = ''BOOLEAN''"
  by (simp add: mysql_to_postgresql_type_def)

theorem tinyint_one_is_boolean_witness:
  "py_lower ''TinyInt'' = ''tinyint'' \<and> mysql_to_postgresql_type ''TinyInt'' (Some 1) = ''BOOLEAN''"
proof -
  have h: "py_lower ''TinyInt'' = ''tinyint''" by (simp add: py_eval)
  show ?thesis using h tinyint_one_is_boolean [OF h] by simp
qed

text \<open>
  C25. Any other length of a \<open>tinyint\<close>, \<open>NULL\<close> included, gives the
  general rule \<open>SMALLINT\<close>.
\<close>

theorem tinyint_other_is_smallint:
  "py_lower t = ''tinyint'' \<Longrightarrow> m \<noteq> Some 1 \<Longrightarrow> mysql_to_postgresql_type t m = ''SMALLINT''"
  by (simp add: mysql_to_postgresql_type_def type_mapping_def)

theorem tinyint_other_is_smallint_witness:
  "py_lower ''tinyint'' = ''tinyint'' \<and> (None :: int option) \<noteq> Some 1
   \<and> mysql_to_postgresql_type ''tinyint'' None = ''SMALLINT''"
proof -
  have h: "py_lower ''tinyint'' = ''tinyint''" by (simp add: py_eval)
  show ?thesis using h tinyint_other_is_smallint [OF h, of None] by simp
qed

text \<open>
  C26. A source type the table does not know (compared in lower case)
  degrades to \<open>TEXT\<close>, never to a failure.
\<close>

theorem unknown_type_is_text:
  "py_lower t \<notin> set known_mysql_types \<Longrightarrow> mysql_to_postgresql_type t m = ''TEXT''"
proof -
  assume unknown: "py_lower t \<notin> set known_mysql_types"
  then have "py_lower t \<noteq> ''tinyint''" by (auto simp: known_mysql_types_def type_mapping_def)
  with unknown show ?thesis
    by (simp add: mysql_to_postgresql_type_def lookup_type_mapping_None)
qed

theorem unknown_type_is_text_witness:
  "py_lower ''totally_unknown_type'' \<notin> set known_mysql_types
   \<and> mysql_to_postgresql_type ''totally_unknown_type'' None = ''TEXT''"
proof -
  have h: "py_lower ''totally_unknown_type'' \<notin> set known_mysql_types"
    by (simp add: py_eval known_mysql_types_def type_mapping_def)
  show ?thesis using h unknown_type_is_text [OF h, of None] by simp
qed

text \<open>
  Every entry of the fixed table gives its documented target type,
  for lower- and upper-case source names, and \<open>char\<close>/\<open>varchar\<close> carry their
  length only when it is given and non-zero.
\<close>

theorem type_table_documented:
  "map (\<lambda>t. mysql_to_postgresql_type t None)
     [''int'', ''TINYINT'', ''smallint'', ''MEDIUMINT'', ''bigint'', ''float'', ''DOUBLE'',
      ''decimal'', ''numeric'', ''date'', ''DateTime'', ''timestamp'', ''time'', ''year'',
      ''char'', ''varchar'', ''binary'', ''varbinary'', ''tinyblob'', ''tinytext'', ''blob'',
      ''Text'', ''mediumblob'', ''mediumtext'', ''longblob'', ''longtext'', ''enum'', ''set'',
      ''boolean'', ''bool'', ''JSON'']
   = [''INTEGER'', ''SMALLINT'', ''SMALLINT'', ''INTEGER'', ''BIGINT'', ''REAL'',
      ''DOUBLE PRECISION'', ''DECIMAL'', ''NUMERIC'', ''DATE'', ''TIMESTAMP'', ''TIMESTAMP'',
      ''TIME'', ''INTEGER'', ''CHAR'', ''VARCHAR'', ''BYTEA'', ''BYTEA'', ''BYTEA'', ''TEXT'',
      ''BYTEA'', ''TEXT'', ''BYTEA'', ''TEXT'', ''BYTEA'', ''TEXT'', ''TEXT'', ''TEXT'',
      ''BOOLEAN'', ''BOOLEAN'', ''JSONB'']
   \<and> mysql_to_postgresql_type ''VARCHAR'' (Some 50) = ''VARCHAR(50)''
   \<and> mysql_to_postgresql_type ''char'' (Some 3) = ''CHAR(3)''
   \<and> mysql_to_postgresql_type ''varchar'' (Some 0) = ''VARCHAR''"
  by (simp add: mysql_to_postgresql_type_def type_mapping_def sized_type_def
      py_str_int_def nat_str.simps py_eval)

end
