(* ===== verification/Introspect.thy ===== *)
theory Introspect
  imports Prelude
begin

text \<open>
  The Schema Introspector: \<open>get_tables\<close>, \<open>get_table_schema\<close>,
  \<open>get_primary_keys\<close>, \<open>get_foreign_keys\<close> and \<open>get_indexes\<close>
  (\<open>src/main.py\<close> lines 40--65, 268--282, 312--347, 387--418).  The MySQL
  connection is the record \<open>mysql_src\<close>: for each catalog query of the
  script, the rows the server returns (already filtered by the query's
  \<open>WHERE\<close> and ordered by its \<open>ORDER BY\<close>, except the index query, whose
  \<open>INDEX_NAME != 'PRIMARY'\<close> filter the model applies itself), or the
  exception \<open>cursor.execute\<close> raises.  The script catches none of these
  exceptions: they reach the caller.  The two grouping loops build
  insertion-ordered dictionaries; the theorems show they equal the declarative
  grouping "one entry per constraint (index) name, in order of first
  appearance, with the columns of its rows in row order".
\<close>

section \<open>Catalog rows and source values\<close>

text \<open>A row of \<open>INFORMATION_SCHEMA.COLUMNS\<close> as \<open>get_table_schema\<close> selects it.\<close>

record col_row =
  column_name :: string
  data_type :: string
  char_max_len :: "int option"
  is_nullable :: string
  column_default :: "string option"

text \<open>A row of the foreign-key query of \<open>get_foreign_keys\<close>.\<close>

record fk_row =
  fkr_table :: string
  fkr_column :: string
  fkr_constraint :: string
  fkr_ref_table :: string
  fkr_ref_column :: string

text \<open>The dictionary value \<open>{'table_name', 'columns', 'ref_table_name', 'ref_columns'}\<close>.\<close>

record fk_info =
  fk_table_name :: string
  fk_columns :: "string list"
  fk_ref_table_name :: string
  fk_ref_columns :: "string list"

text \<open>A row of \<open>INFORMATION_SCHEMA.STATISTICS\<close>, and the dictionary value
  \<open>{'columns', 'is_unique'}\<close> of \<open>get_indexes\<close>.\<close>

record idx_row =
  ixr_index :: string
  ixr_column :: string
  ixr_non_unique :: int

record idx_info =
  idx_columns :: "string list"
  idx_is_unique :: bool

text \<open>
  A value of a MySQL row as \<open>mysql.connector\<close> returns it: \<open>None\<close>, an
  \<open>int\<close>, \<open>bytes\<close>, a \<open>str\<close>, or any other Python object (a date, a
  \<open>Decimal\<close>, a float), represented by the text \<open>str()\<close> gives for it.
\<close>

datatype sqlval = VNull | VInt int | VBytes "byte list" | VStr string | VOther string

text \<open>The source connection: the result of each catalog and data query.\<close>

record mysql_src =
  src_show_tables :: "exn + string list"
  src_columns :: "string \<Rightarrow> exn + col_row list"
  src_primary_key :: "string \<Rightarrow> exn + string list"
  src_key_usage :: "string \<Rightarrow> exn + fk_row list"
  src_statistics :: "string \<Rightarrow> exn + idx_row list"
  src_select_all :: "string \<Rightarrow> exn + (string list \<times> sqlval list list)"

section \<open>Queries\<close>

definition get_tables :: "mysql_src \<Rightarrow> exn + string list" where
  "get_tables src = src_show_tables src"

definition get_table_schema :: "mysql_src \<Rightarrow> string \<Rightarrow> exn + col_row list" where
  "get_table_schema src table_name = src_columns src table_name"

definition get_primary_keys :: "mysql_src \<Rightarrow> string \<Rightarrow> exn + string list" where
  "get_primary_keys src table_name = src_primary_key src table_name"

text \<open>One iteration of the loop of \<open>get_foreign_keys\<close> (lines 333--345).\<close>

definition add_fk_row :: "(string \<times> fk_info) list \<Rightarrow> fk_row \<Rightarrow> (string \<times> fk_info) list" where
  "add_fk_row fks r =
     (let c = fkr_constraint r;
          info = (case map_of fks c of
                    None \<Rightarrow> \<lparr>fk_table_name = fkr_table r, fk_columns = [],
                             fk_ref_table_name = fkr_ref_table r, fk_ref_columns = []\<rparr>
                  | Some i \<Rightarrow> i)
      in AList.update c (info\<lparr>fk_columns := fk_columns info @ [fkr_column r],
                             fk_ref_columns := fk_ref_columns info @ [fkr_ref_column r]\<rparr>) fks)"

fun group_foreign_keys :: "(string \<times> fk_info) list \<Rightarrow> fk_row list \<Rightarrow> (string \<times> fk_info) list" where
  "group_foreign_keys fks [] = fks"
| "group_foreign_keys fks (r # rs) = group_foreign_keys (add_fk_row fks r) rs"

definition get_foreign_keys :: "mysql_src \<Rightarrow> string \<Rightarrow> exn + (string \<times> fk_info) list" where
  "get_foreign_keys src database =
     (case src_key_usage src database of
        Inl e \<Rightarrow> Inl e
      | Inr result \<Rightarrow> Inr (group_foreign_keys [] result))"

text \<open>One iteration of the loop of \<open>get_indexes\<close> (lines 407--416).\<close>

definition add_idx_row :: "(string \<times> idx_info) list \<Rightarrow> idx_row \<Rightarrow> (string \<times> idx_info) list" where
  "add_idx_row ixs r =
     (let n = ixr_index r;
          info = (case map_of ixs n of
                    None \<Rightarrow> \<lparr>idx_columns = [], idx_is_unique = (ixr_non_unique r = 0)\<rparr>
                  | Some i \<Rightarrow> i)
      in AList.update n (info\<lparr>idx_columns := idx_columns info @ [ixr_column r]\<rparr>) ixs)"

fun group_indexes :: "(string \<times> idx_info) list \<Rightarrow> idx_row list \<Rightarrow> (string \<times> idx_info) list" where
  "group_indexes ixs [] = ixs"
| "group_indexes ixs (r # rs) = group_indexes (add_idx_row ixs r) rs"

definition get_indexes :: "mysql_src \<Rightarrow> string \<Rightarrow> exn + (string \<times> idx_info) list" where
  "get_indexes src table_name =
     (case src_statistics src table_name of
        Inl e \<Rightarrow> Inl e
      | Inr result \<Rightarrow>
          Inr (group_indexes [] (filter (\<lambda>r. ixr_index r \<noteq> ''PRIMARY'') result)))"

section \<open>The declarative grouping\<close>

text \<open>
  What the grouping promises: the entry of a constraint is made from its rows
  in row order, the table names from its first row.
\<close>

definition fk_group :: "fk_row list \<Rightarrow> string \<Rightarrow> fk_info" where
  "fk_group rows c =
     (let rs = filter (\<lambda>r. fkr_constraint r = c) rows
      in \<lparr>fk_table_name = fkr_table (hd rs), fk_columns = map fkr_column rs,
          fk_ref_table_name = fkr_ref_table (hd rs), fk_ref_columns = map fkr_ref_column rs\<rparr>)"

definition fk_grouping :: "fk_row list \<Rightarrow> (string \<times> fk_info) list" where
  "fk_grouping rows = keyed (first_occurrences (map fkr_constraint rows)) (fk_group rows)"

definition idx_group :: "idx_row list \<Rightarrow> string \<Rightarrow> idx_info" where
  "idx_group rows n =
     (let rs = filter (\<lambda>r. ixr_index r = n) rows
      in \<lparr>idx_columns = map ixr_column rs, idx_is_unique = (ixr_non_unique (hd rs) = 0)\<rparr>)"

definition idx_grouping :: "idx_row list \<Rightarrow> (string \<times> idx_info) list" where
  "idx_grouping rows = keyed (first_occurrences (map ixr_index rows)) (idx_group rows)"

section \<open>Lemmas\<close>

lemma fk_group_snoc_other:
  "fkr_constraint r \<noteq> c \<Longrightarrow> fk_group (rows @ [r]) c = fk_group rows c"
  by (simp add: fk_group_def)

lemma add_fk_row_grouping:
  "add_fk_row (fk_grouping rows) r = fk_grouping (rows @ [r])"
proof (cases "fkr_constraint r \<in> set (map fkr_constraint rows)")
  case True
  then have ne: "filter (\<lambda>x. fkr_constraint x = fkr_constraint r) rows \<noteq> []"
    by (auto simp: filter_empty_conv)
  have "fk_group (rows @ [r]) = (fk_group rows)(fkr_constraint r :=
      (fk_group rows (fkr_constraint r))\<lparr>
         fk_columns := fk_columns (fk_group rows (fkr_constraint r)) @ [fkr_column r],
         fk_ref_columns := fk_ref_columns (fk_group rows (fkr_constraint r)) @ [fkr_ref_column r]\<rparr>)"
    using ne by (auto simp: fun_eq_iff fk_group_def Let_def)
  with True show ?thesis
    by (simp add: add_fk_row_def fk_grouping_def keyed_simps Let_def)
next
  case False
  then have none: "filter (\<lambda>x. fkr_constraint x = fkr_constraint r) rows = []"
    by (auto simp: filter_empty_conv image_iff)
  then have "fk_group (rows @ [r]) = (fk_group rows)(fkr_constraint r :=
      \<lparr>fk_table_name = fkr_table r, fk_columns = [fkr_column r],
       fk_ref_table_name = fkr_ref_table r, fk_ref_columns = [fkr_ref_column r]\<rparr>)"
    by (auto simp: fun_eq_iff fk_group_def Let_def)
  moreover have "fkr_constraint r \<notin> set (first_occurrences (map fkr_constraint rows))"
    using False by simp
  ultimately show ?thesis using False
    by (simp add: add_fk_row_def fk_grouping_def map_of_keyed first_occurrences_snoc Let_def
        keyed_update_absent)
qed

lemma group_foreign_keys_grouping:
  "group_foreign_keys (fk_grouping prev) rows = fk_grouping (prev @ rows)"
  by (induction rows arbitrary: prev) (simp_all add: add_fk_row_grouping)

lemma add_idx_row_grouping:
  "add_idx_row (idx_grouping rows) r = idx_grouping (rows @ [r])"
proof (cases "ixr_index r \<in> set (map ixr_index rows)")
  case True
  then have ne: "filter (\<lambda>x. ixr_index x = ixr_index r) rows \<noteq> []"
    by (auto simp: filter_empty_conv)
  have "idx_group (rows @ [r]) = (idx_group rows)(ixr_index r :=
      (idx_group rows (ixr_index r))\<lparr>
         idx_columns := idx_columns (idx_group rows (ixr_index r)) @ [ixr_column r]\<rparr>)"
    using ne by (auto simp: fun_eq_iff idx_group_def Let_def)
  with True show ?thesis
    by (simp add: add_idx_row_def idx_grouping_def keyed_simps Let_def)
next
  case False
  then have none: "filter (\<lambda>x. ixr_index x = ixr_index r) rows = []"
    by (auto simp: filter_empty_conv image_iff)
  then have "idx_group (rows @ [r]) = (idx_group rows)(ixr_index r :=
      \<lparr>idx_columns = [ixr_column r], idx_is_unique = (ixr_non_unique r = 0)\<rparr>)"
    by (auto simp: fun_eq_iff idx_group_def Let_def)
  moreover have "ixr_index r \<notin> set (first_occurrences (map ixr_index rows))"
    using False by simp
  ultimately show ?thesis using False
    by (simp add: add_idx_row_def idx_grouping_def map_of_keyed first_occurrences_snoc Let_def
        keyed_update_absent)
qed

lemma group_indexes_grouping:
  "group_indexes (idx_grouping prev) rows = idx_grouping (prev @ rows)"
  by (induction rows arbitrary: prev) (simp_all add: add_idx_row_grouping)

lemma fk_grouping_Nil: "fk_grouping [] = []"
  by (simp add: fk_grouping_def keyed_def)

lemma idx_grouping_Nil: "idx_grouping [] = []"
  by (simp add: idx_grouping_def keyed_def)

section \<open>Properties\<close>

text \<open>
  C18. Foreign-key grouping is correct: the dictionary \<open>get_foreign_keys\<close>
  builds has one entry per constraint name, in order of first appearance,
  whose \<open>columns\<close> and \<open>ref_columns\<close> are the columns of that
  constraint's rows in row order (so the pairing of column and referenced
  column is kept), and whose table names are those of its first row.
\<close>

theorem group_foreign_keys_correct:
  "group_foreign_keys [] rows = fk_grouping rows"
  using group_foreign_keys_grouping [of "[]" rows] by (simp add: fk_grouping_Nil)

text \<open>
  C23. Index grouping is correct: one entry per index name in order of first
  appearance, its columns in row order, unique exactly when the first row's
  \<open>NON_UNIQUE\<close> flag is 0.
\<close>

theorem group_indexes_correct:
  "group_indexes [] rows = idx_grouping rows"
  using group_indexes_grouping [of "[]" rows] by (simp add: idx_grouping_Nil)

text \<open>
  \<open>get_indexes\<close> never returns the primary-key index, and every index it
  returns has at least one column.
\<close>

theorem get_indexes_no_primary:
  "get_indexes src t = Inr ixs \<Longrightarrow>
   ''PRIMARY'' \<notin> fst ` set ixs \<and> (\<forall>(n, i) \<in> set ixs. idx_columns i \<noteq> [])"
proof -
  assume ok: "get_indexes src t = Inr ixs"
  then obtain result where res: "src_statistics src t = Inr result"
    and ixs: "ixs = idx_grouping (filter (\<lambda>r. ixr_index r \<noteq> ''PRIMARY'') result)"
    by (auto simp: get_indexes_def group_indexes_correct split: sum.splits)
  let ?rows = "filter (\<lambda>r. ixr_index r \<noteq> ''PRIMARY'') result"
  have "fst ` set ixs = ixr_index ` set ?rows"
    by (simp add: ixs idx_grouping_def keyed_def image_image)
  moreover have "\<forall>(n, i) \<in> set ixs. idx_columns i \<noteq> []"
    by (auto simp: ixs idx_grouping_def keyed_def idx_group_def Let_def filter_empty_conv)
  ultimately show ?thesis by auto
qed

theorem get_indexes_no_primary_witness:
  "get_indexes \<lparr>src_show_tables = Inr [], src_columns = (\<lambda>_. Inr []),
      src_primary_key = (\<lambda>_. Inr []), src_key_usage = (\<lambda>_. Inr []),
      src_statistics = (\<lambda>_. Inr [\<lparr>ixr_index = ''PRIMARY'', ixr_column = ''id'', ixr_non_unique = 0\<rparr>,
                                  \<lparr>ixr_index = ''ix_name'', ixr_column = ''name'', ixr_non_unique = 1\<rparr>]),
      src_select_all = (\<lambda>_. Inr ([], []))\<rparr> ''users''
     = Inr [(''ix_name'', \<lparr>idx_columns = [''name''], idx_is_unique = False\<rparr>)]
   \<and> ''PRIMARY'' \<notin> fst ` set [(''ix_name'', \<lparr>idx_columns = [''name''], idx_is_unique = False\<rparr>)]"
proof -
  let ?src = "\<lparr>src_show_tables = Inr [], src_columns = (\<lambda>_. Inr []),
      src_primary_key = (\<lambda>_. Inr []), src_key_usage = (\<lambda>_. Inr []),
      src_statistics = (\<lambda>_. Inr [\<lparr>ixr_index = ''PRIMARY'', ixr_column = ''id'', ixr_non_unique = 0\<rparr>,
                                  \<lparr>ixr_index = ''ix_name'', ixr_column = ''name'', ixr_non_unique = 1\<rparr>]),
      src_select_all = (\<lambda>_. Inr ([], []))\<rparr>"
  have h: "get_indexes ?src ''users''
     = Inr [(''ix_name'', \<lparr>idx_columns = [''name''], idx_is_unique = False\<rparr>)]"
    by (simp add: get_indexes_def add_idx_row_def)
  show ?thesis using h get_indexes_no_primary [OF h] by simp
qed

text \<open>
  The specification's multi-column example: two catalog rows of the
  constraint \<open>fk_orders_customers\<close> merge into one entry with
  \<open>columns = [customer_id, region_id]\<close> and \<open>ref_columns = [id, region_id]\<close>
  in the same order.  The entry keeps the referenced table of the first row
  only (\<open>customers\<close>): the second row's \<open>regions\<close> is dropped.
\<close>

theorem foreign_key_merge_example:
  "group_foreign_keys []
     [\<lparr>fkr_table = ''orders'', fkr_column = ''customer_id'', fkr_constraint = ''fk_orders_customers'',
       fkr_ref_table = ''customers'', fkr_ref_column = ''id''\<rparr>,
      \<lparr>fkr_table = ''orders'', fkr_column = ''region_id'', fkr_constraint = ''fk_orders_customers'',
       fkr_ref_table = ''regions'', fkr_ref_column = ''region_id''\<rparr>]
   = [(''fk_orders_customers'',
       \<lparr>fk_table_name = ''orders'', fk_columns = [''customer_id'', ''region_id''],
        fk_ref_table_name = ''customers'', fk_ref_columns = [''id'', ''region_id'']\<rparr>)]"
  by (simp add: add_fk_row_def)

text \<open>
  Uniqueness of an index comes from the catalog's \<open>NON_UNIQUE\<close> flag:
  rows with flag 0 give a unique index, rows with flag 1 a non-unique one.
\<close>

theorem index_uniqueness_from_flag:
  "group_indexes [] [\<lparr>ixr_index = ''u_email'', ixr_column = ''email'', ixr_non_unique = 0\<rparr>,
                     \<lparr>ixr_index = ''ix_city'', ixr_column = ''city'', ixr_non_unique = 1\<rparr>,
                     \<lparr>ixr_index = ''ix_city'', ixr_column = ''zip'', ixr_non_unique = 1\<rparr>]
   = [(''u_email'', \<lparr>idx_columns = [''email''], idx_is_unique = True\<rparr>),
      (''ix_city'', \<lparr>idx_columns = [''city'', ''zip''], idx_is_unique = False\<rparr>)]"
  by (simp add: add_idx_row_def)

end
