(* ===== verification/DDL.thy ===== *)
theory DDL
  imports TypeMapper Introspect
begin

text \<open>
  The DDL Generator: the SQL text the script builds before it executes it.
  \<open>column_def\<close> and \<open>create_table_sql\<close> are the loop and the string of
  \<open>create_postgresql_table\<close> (lines 113--131); \<open>pk_sql\<close> is the statement of
  \<open>migrate_constraints\<close> (lines 293--295); \<open>fk_sql\<close> and \<open>pg_fk_name\<close> the
  statement of \<open>migrate_foreign_keys\<close> (lines 359--371); \<open>idx_sql\<close> and
  \<open>pg_index_name\<close> that of \<open>migrate_indexes\<close> (lines 430--438).  Python
  f-strings become list concatenation; the triple-quoted statements keep their
  newlines and their twelve spaces of indentation.  The lemmas give the exact
  shape of a column clause, show that the text \<open>NOW()\<close> never survives in a
  default clause, bound the generated constraint names and recover the column
  clauses from the statement.
\<close>

section \<open>CREATE TABLE\<close>

text \<open>\<open>"NULL" if col[3] == 'YES' else "NOT NULL"\<close>.\<close>

definition nullable_clause :: "string \<Rightarrow> string" where
  "nullable_clause is_null = (if is_null = ''YES'' then ''NULL'' else ''NOT NULL'')"

text \<open>
  \<open>f"DEFAULT {col[4]}" if col[4] else ""\<close>, then, when non-empty, the two
  replacements of lines 124--125 in their order.
\<close>

definition default_clause :: "string option \<Rightarrow> string" where
  "default_clause col_default =
     (case col_default of
        None \<Rightarrow> []
      | Some d \<Rightarrow>
          (if d = [] then []
           else py_replace ''NOW()'' ''CURRENT_TIMESTAMP''
                  (py_replace ''CURRENT_TIMESTAMP'' ''CURRENT_TIMESTAMP'' (''DEFAULT '' @ d))))"

definition column_def :: "col_row \<Rightarrow> string" where
  "column_def col =
     py_strip (''    '' @ column_name col @ '' ''
               @ mysql_to_postgresql_type (data_type col) (char_max_len col) @ '' ''
               @ nullable_clause (is_nullable col) @ '' '' @ default_clause (column_default col))"

definition create_table_sql :: "string \<Rightarrow> col_row list \<Rightarrow> string" where
  "create_table_sql table_name columns =
     ''CREATE TABLE IF NOT EXISTS '' @ table_name @ '' ('' @ [newline]
     @ py_join ('','' @ [newline]) (map column_def columns)
     @ [newline] @ '');''"

section \<open>Constraints and indexes\<close>

definition pk_sql :: "string \<Rightarrow> string list \<Rightarrow> string" where
  "pk_sql table_name pk_columns =
     ''ALTER TABLE '' @ quote_ident table_name @ '' ADD CONSTRAINT '' @ ''pk_'' @ table_name
     @ '' PRIMARY KEY ('' @ py_join '', '' (map quote_ident pk_columns) @ '')''"

text \<open>A line of a triple-quoted statement: a newline and twelve spaces.\<close>

definition sql_line :: "string \<Rightarrow> string" where
  "sql_line s = newline # replicate 12 (CHR '' '') @ s"

definition pg_fk_name :: "string \<Rightarrow> string \<Rightarrow> string \<Rightarrow> string" where
  "pg_fk_name table_name ref_table_name fk_name =
     ''fk_'' @ table_name @ ''_'' @ ref_table_name @ ''_'' @ py_suffix 10 fk_name"

definition fk_sql :: "string \<Rightarrow> fk_info \<Rightarrow> string" where
  "fk_sql fk_name fk =
     sql_line (''ALTER TABLE '' @ quote_ident (fk_table_name fk))
     @ sql_line (''ADD CONSTRAINT '' @ pg_fk_name (fk_table_name fk) (fk_ref_table_name fk) fk_name
                 @ '' FOREIGN KEY ('' @ py_join '', '' (map quote_ident (fk_columns fk)) @ '')'')
     @ sql_line (''REFERENCES '' @ quote_ident (fk_ref_table_name fk)
                 @ '' ('' @ py_join '', '' (map quote_ident (fk_ref_columns fk)) @ '')'')
     @ sql_line []"

definition pg_index_name :: "string \<Rightarrow> string \<Rightarrow> string" where
  "pg_index_name table_name index_name = ''idx_'' @ table_name @ ''_'' @ index_name"

definition idx_sql :: "string \<Rightarrow> string \<Rightarrow> idx_info \<Rightarrow> string" where
  "idx_sql table_name index_name info =
     sql_line (''CREATE '' @ (if idx_is_unique info then ''UNIQUE'' else []) @ '' INDEX ''
               @ pg_index_name table_name index_name @ '' ON '' @ quote_ident table_name
               @ '' ('' @ py_join '', '' (map quote_ident (idx_columns info)) @ '')'')
     @ sql_line []"

section \<open>Lemmas\<close>

lemma dropWhile_space_prefix:
  "\<forall>c \<in> set p. py_isspace c \<Longrightarrow> s \<noteq> [] \<Longrightarrow> \<not> py_isspace (hd s) \<Longrightarrow>
   dropWhile py_isspace (p @ s) = s"
  by (induction p) (auto simp: neq_Nil_conv)

lemma py_strip_exact:
  assumes "\<forall>c \<in> set p. py_isspace c" and "\<forall>c \<in> set q. py_isspace c"
    and "s \<noteq> []" and "\<not> py_isspace (hd s)" and "\<not> py_isspace (last s)"
  shows "py_strip (p @ s @ q) = s"
proof -
  have "dropWhile py_isspace (p @ s @ q) = s @ q"
    using assms(1,3,4) dropWhile_space_prefix [of p "s @ q"] by simp
  moreover have "dropWhile py_isspace (rev q @ rev s) = rev s"
    using assms(2,3,5) dropWhile_space_prefix [of "rev q" "rev s"] by (simp add: hd_rev)
  ultimately show ?thesis by (simp add: py_strip_def)
qed

lemma space_isspace [simp]: "py_isspace (CHR '' '')"
  by (simp add: py_isspace_def)

lemma nullable_clause_last: "\<not> py_isspace (last (nullable_clause x))"
  by (simp add: nullable_clause_def py_eval)

lemma py_split_char_join_clauses:
  assumes "sep = '','' @ [newline]" and "ds \<noteq> []" and "\<forall>d \<in> set ds. newline \<notin> set d"
  shows "py_split_char newline (py_join sep ds @ newline # rest)
         = map (\<lambda>d. d @ '','') (butlast ds) @ [last ds] @ py_split_char newline rest"
  using assms
proof (induction sep ds rule: py_join.induct)
  case (2 sep x)
  then show ?case by (simp add: py_split_char_append_sep)
next
  case (3 sep x y zs)
  have "newline \<notin> set (x @ '','')" using "3.prems" by (simp add: newline_def)
  then have "py_split_char newline ((x @ '','') @ newline # py_join sep (y # zs) @ newline # rest)
      = (x @ '','') # py_split_char newline (py_join sep (y # zs) @ newline # rest)"
    by (rule py_split_char_append_sep)
  with "3.IH" "3.prems" show ?case by simp
qed simp

lemma newline_not_in_header: "newline \<notin> set t \<Longrightarrow> newline \<notin> set (''CREATE TABLE IF NOT EXISTS '' @ t @ '' ('')"
  by (simp add: newline_def)

section \<open>Properties\<close>

text \<open>
  The column clause has the documented shape \<open>name type NULL|NOT NULL
  [DEFAULT expr]\<close>: the name, the mapped type, \<open>NULL\<close> exactly when
  \<open>IS_NULLABLE\<close> is \<open>YES\<close>, and the default clause only when the catalog gives
  a non-empty default (the \<open>strip()\<close> removes the indentation and the
  trailing space of a column without default).
\<close>

theorem column_def_shape:
  assumes "column_name col \<noteq> []" and "\<not> py_isspace (hd (column_name col))"
    and "default_clause (column_default col) = [] \<or>
         \<not> py_isspace (last (default_clause (column_default col)))"
  shows "column_def col =
           column_name col @ '' '' @ mysql_to_postgresql_type (data_type col) (char_max_len col)
           @ '' '' @ nullable_clause (is_nullable col)
           @ (if default_clause (column_default col) = [] then []
              else '' '' @ default_clause (column_default col))"
proof (cases "default_clause (column_default col) = []")
  case True
  let ?s = "column_name col @ '' '' @ mysql_to_postgresql_type (data_type col) (char_max_len col)
           @ '' '' @ nullable_clause (is_nullable col)"
  have "py_strip (''    '' @ ?s @ '' '') = ?s"
    using assms(1,2) nullable_clause_last [of "is_nullable col"]
    by (intro py_strip_exact) (auto simp: nullable_clause_def)
  with True show ?thesis by (simp add: column_def_def)
next
  case False
  let ?s = "column_name col @ '' '' @ mysql_to_postgresql_type (data_type col) (char_max_len col)
           @ '' '' @ nullable_clause (is_nullable col) @ '' '' @ default_clause (column_default col)"
  have "py_strip (''    '' @ ?s @ []) = ?s"
    using assms False by (intro py_strip_exact) auto
  with False show ?thesis by (simp add: column_def_def)
qed

theorem column_def_shape_witness:
  "let col = \<lparr>column_name = ''id'', data_type = ''INT'', char_max_len = None,
              is_nullable = ''NO'', column_default = Some ''0''\<rparr>
   in column_name col \<noteq> [] \<and> \<not> py_isspace (hd (column_name col))
      \<and> \<not> py_isspace (last (default_clause (column_default col)))
      \<and> column_def col = ''id INTEGER NOT NULL DEFAULT 0''"
proof -
  define col where "col = \<lparr>column_name = ''id'', data_type = ''INT'', char_max_len = None,
              is_nullable = ''NO'', column_default = Some ''0''\<rparr>"
  have d: "default_clause (column_default col) = ''DEFAULT 0''"
    by (simp add: col_def default_clause_def py_replace_def replace_from.simps)
  have h1: "column_name col \<noteq> []" and h2: "\<not> py_isspace (hd (column_name col))"
    by (simp_all add: col_def py_eval)
  have h3: "\<not> py_isspace (last (default_clause (column_default col)))"
    using d by (simp add: py_eval)
  have "column_def col = ''id'' @ '' '' @ ''INTEGER'' @ '' '' @ ''NOT NULL'' @ '' '' @ ''DEFAULT 0''"
    using column_def_shape [OF h1 h2 disjI2 [OF h3]] d
    by (simp add: col_def mysql_to_postgresql_type_def type_mapping_def nullable_clause_def py_eval)
  then show ?thesis using h1 h2 h3 by (simp add: col_def [symmetric])
qed

text \<open>
  The MySQL call \<open>NOW()\<close> never survives in a generated default clause:
  every occurrence is rewritten to \<open>CURRENT_TIMESTAMP\<close>, and the rewriting
  cannot create a new one.
\<close>

theorem default_clause_no_now:
  "\<not> sublist ''NOW()'' (default_clause col_default)"
proof -
  have c1: "\<not> sublist ''NOW()'' ''CURRENT_TIMESTAMP''"
    by code_simp
  have c2: "\<forall>k \<in> set [1..<length ''NOW()'']. \<not> suffix (take k ''NOW()'') ''CURRENT_TIMESTAMP''"
    by (simp add: suffix_def)
  have "\<not> sublist ''NOW()'' (py_replace ''NOW()'' ''CURRENT_TIMESTAMP'' s)" for s
    using c1 c2 by (intro py_replace_no_occurrence) simp_all
  then show ?thesis by (simp add: default_clause_def split: option.split)
qed

text \<open>
  C20. The statement \<open>CREATE TABLE\<close> splits back, line by line, into its
  header, one clause per column in catalog order (each but the last followed
  by a comma) and the closing line, provided no name or clause contains a
  newline.
\<close>

theorem create_table_clauses:
  assumes "columns \<noteq> []" and "newline \<notin> set table_name"
    and "\<forall>col \<in> set columns. newline \<notin> set (column_def col)"
  shows "py_split_char newline (create_table_sql table_name columns)
         = (''CREATE TABLE IF NOT EXISTS '' @ table_name @ '' ('')
           # map (\<lambda>d. d @ '','') (butlast (map column_def columns))
           @ [last (map column_def columns), '');'']"
proof -
  have tail: "py_split_char newline '');'' = ['');'']"
    by (simp add: newline_def)
  have "py_split_char newline (create_table_sql table_name columns)
      = (''CREATE TABLE IF NOT EXISTS '' @ table_name @ '' ('')
        # py_split_char newline (py_join ('','' @ [newline]) (map column_def columns) @ newline # '');'')"
    using py_split_char_append_sep [OF newline_not_in_header [OF assms(2)]]
    by (simp add: create_table_sql_def)
  also have "\<dots> = (''CREATE TABLE IF NOT EXISTS '' @ table_name @ '' ('')
        # map (\<lambda>d. d @ '','') (butlast (map column_def columns))
        @ [last (map column_def columns)] @ ['');'']"
    using py_split_char_join_clauses [of "'','' @ [newline]" "map column_def columns" "'');''"]
      assms(1,3) tail
    by simp
  finally show ?thesis by simp
qed

theorem create_table_clauses_witness:
  "[\<lparr>column_name = ''id'', data_type = ''int'', char_max_len = None,
     is_nullable = ''NO'', column_default = None\<rparr>,
    \<lparr>column_name = ''name'', data_type = ''varchar'', char_max_len = Some 50,
     is_nullable = ''YES'', column_default = None\<rparr>] \<noteq> []
   \<and> newline \<notin> set ''users''
   \<and> py_split_char newline (create_table_sql ''users'' [\<lparr>column_name = ''id'', data_type = ''int'', char_max_len = None,
     is_nullable = ''NO'', column_default = None\<rparr>,
    \<lparr>column_name = ''name'', data_type = ''varchar'', char_max_len = Some 50,
     is_nullable = ''YES'', column_default = None\<rparr>])
     = [''CREATE TABLE IF NOT EXISTS users ('', ''id INTEGER NOT NULL,'',
        ''name VARCHAR(50) NULL'', '');'']"
  (is "?h1 \<and> ?h2 \<and> ?c")
proof -
  have d1: "column_def \<lparr>column_name = ''id'', data_type = ''int'', char_max_len = None,
     is_nullable = ''NO'', column_default = None\<rparr> = ''id INTEGER NOT NULL''"
    by (simp add: column_def_def default_clause_def nullable_clause_def py_strip_def
        mysql_to_postgresql_type_def type_mapping_def py_eval)
  have d2: "column_def \<lparr>column_name = ''name'', data_type = ''varchar'', char_max_len = Some 50,
     is_nullable = ''YES'', column_default = None\<rparr> = ''name VARCHAR(50) NULL''"
    by (simp add: column_def_def default_clause_def nullable_clause_def py_strip_def
        mysql_to_postgresql_type_def type_mapping_def sized_type_def py_str_int_def
        nat_str.simps py_eval)
  have h1: ?h1 by simp
  have h2: ?h2 by (simp add: newline_def)
  have h3: "\<forall>col \<in> set [\<lparr>column_name = ''id'', data_type = ''int'', char_max_len = None,
     is_nullable = ''NO'', column_default = None\<rparr>,
    \<lparr>column_name = ''name'', data_type = ''varchar'', char_max_len = Some 50,
     is_nullable = ''YES'', column_default = None\<rparr>]. newline \<notin> set (column_def col)" by (simp add: d1 d2 newline_def)
  have c: ?c using create_table_clauses [OF h1 h2 h3] by (simp only: list.map d1 d2) simp
  from h1 h2 c show ?thesis by blast
qed

text \<open>
  The specification's example: for a table with a \<open>NOT NULL\<close> integer
  key and a nullable \<open>varchar(50)\<close>, the statement has the two column clauses
  in catalog order with the right nullability.  The table and column names
  appear without double quotes.
\<close>

theorem create_table_example:
  "create_table_sql ''users''
     [\<lparr>column_name = ''id'', data_type = ''int'', char_max_len = None,
       is_nullable = ''NO'', column_default = None\<rparr>,
      \<lparr>column_name = ''name'', data_type = ''varchar'', char_max_len = Some 50,
       is_nullable = ''YES'', column_default = None\<rparr>]
   = ''CREATE TABLE IF NOT EXISTS users ('' @ [newline] @ ''id INTEGER NOT NULL,'' @ [newline]
     @ ''name VARCHAR(50) NULL'' @ [newline] @ '');''"
  by (simp add: create_table_sql_def column_def_def default_clause_def nullable_clause_def
      py_strip_def mysql_to_postgresql_type_def type_mapping_def sized_type_def py_str_int_def
      nat_str.simps py_eval)

text \<open>
  C31. Two foreign keys between the same tables get the same PostgreSQL name
  exactly when the last ten characters of their MySQL names agree: the name
  keeps only that suffix.
\<close>

theorem pg_fk_name_collision:
  "pg_fk_name t rt n1 = pg_fk_name t rt n2 \<longleftrightarrow> py_suffix 10 n1 = py_suffix 10 n2"
  by (simp add: pg_fk_name_def)

lemma no_now_across_default:
  "\<not> sublist ''NOW()'' d \<Longrightarrow> \<not> sublist ''NOW()'' (''DEFAULT '' @ d)"
  by (simp add: sublist_Cons_right)

text \<open>
  C32. The default rewriting touches nothing but \<open>NOW()\<close>: every non-empty
  default without that text is copied verbatim after \<open>DEFAULT\<close>; so a
  default as MariaDB reports it, \<open>current_timestamp()\<close>, passes through
  unchanged (the rewriting is case-sensitive).
\<close>

theorem default_clause_mariadb_timestamp:
  assumes "d \<noteq> []" and "\<not> sublist ''NOW()'' d"
  shows "default_clause (Some d) = ''DEFAULT '' @ d"
  using assms(1) no_now_across_default [OF assms(2)]
  by (simp add: default_clause_def py_replace_same py_replace_no_match)

theorem default_clause_mariadb_timestamp_witness:
  "default_clause (Some ''current_timestamp()'') = ''DEFAULT current_timestamp()''"
proof -
  have h1: "''current_timestamp()'' \<noteq> []" by simp
  have h2: "\<not> sublist ''NOW()'' ''current_timestamp()''"
    by (simp add: sublist_Cons_right)
  show ?thesis using default_clause_mariadb_timestamp [OF h1 h2] by simp
qed

end
