(* ===== verification/Target.thy ===== *)
theory Target
  imports Introspect
begin

text \<open>
  The PostgreSQL connection the script holds for the whole run (a
  \<open>psycopg2\<close> connection, autocommit off).  This is the environment of the
  script, modelled from PostgreSQL's documented transaction behaviour, not code
  of the repository.  The server is any deterministic engine \<open>'db engine\<close>
  that runs a statement on a database state and returns rows and the new
  state, or an error.  The connection keeps the state its open transaction
  sees, the last committed state, the transaction status (idle, active, or
  failed after an error: every later statement is refused until a rollback),
  the statements of the open transaction, and the log of committed statements.
  The step relation \<open>pg_step\<close> has one rule per operation; the invariant
  \<open>pg_inv\<close>, kept by every step, says the committed state is the replay of
  the committed log and the working state the replay of log and open
  transaction: a rolled-back transaction leaves no trace.
\<close>

datatype tx_status = TxIdle | TxActive | TxFailed

text \<open>
  The statements the script sends: plain SQL (\<open>cursor.execute(sql)\<close>), SQL
  with parameters (\<open>cursor.execute(sql, row)\<close>, one per row of
  \<open>executemany\<close>), and \<open>COPY ... FROM STDIN\<close> with the records of the CSV file
  (\<open>cursor.copy_expert\<close>).
\<close>

datatype stmt =
    Exec string
  | ExecParams string "string option list"
  | CopyFrom string "string list list"

type_synonym 'db engine = "'db \<Rightarrow> stmt \<Rightarrow> exn + (sqlval list list \<times> 'db)"

record 'db pg_conn =
  pg_db :: 'db
  pg_committed_db :: 'db
  pg_status :: tx_status
  pg_pending :: "stmt list"
  pg_log :: "stmt list"

definition pg_connect :: "'db \<Rightarrow> 'db pg_conn" where
  "pg_connect d = \<lparr>pg_db = d, pg_committed_db = d, pg_status = TxIdle, pg_pending = [], pg_log = []\<rparr>"

section \<open>Operations\<close>

definition pg_execute ::
  "'db engine \<Rightarrow> stmt \<Rightarrow> 'db pg_conn \<Rightarrow> (exn + sqlval list list) \<times> 'db pg_conn" where
  "pg_execute eng s c =
     (if pg_status c = TxFailed then (Inl InFailedSqlTransaction, c)
      else (case eng (pg_db c) s of
              Inl e \<Rightarrow> (Inl e, c\<lparr>pg_status := TxFailed\<rparr>)
            | Inr (rows, d) \<Rightarrow>
                (Inr rows, c\<lparr>pg_db := d, pg_status := TxActive, pg_pending := pg_pending c @ [s]\<rparr>)))"

definition pg_rollback :: "'db pg_conn \<Rightarrow> 'db pg_conn" where
  "pg_rollback c = c\<lparr>pg_db := pg_committed_db c, pg_status := TxIdle, pg_pending := []\<rparr>"

text \<open>\<open>COMMIT\<close> of a failed transaction is a rollback in PostgreSQL.\<close>

definition pg_commit :: "'db pg_conn \<Rightarrow> 'db pg_conn" where
  "pg_commit c =
     (if pg_status c = TxFailed then pg_rollback c
      else c\<lparr>pg_committed_db := pg_db c, pg_status := TxIdle, pg_pending := [],
             pg_log := pg_log c @ pg_pending c\<rparr>)"

section \<open>Steps, runs and the invariant\<close>

inductive pg_step :: "'db engine \<Rightarrow> 'db pg_conn \<Rightarrow> 'db pg_conn \<Rightarrow> bool" for eng where
  execute: "pg_step eng c (snd (pg_execute eng s c))"
| commit: "pg_step eng c (pg_commit c)"
| rollback: "pg_step eng c (pg_rollback c)"

inductive pg_reachable :: "'db engine \<Rightarrow> 'db \<Rightarrow> 'db pg_conn \<Rightarrow> bool" for eng d0 where
  start: "pg_reachable eng d0 (pg_connect d0)"
| step: "pg_reachable eng d0 c \<Longrightarrow> pg_step eng c c' \<Longrightarrow> pg_reachable eng d0 c'"

text \<open>Replaying statements on a state; \<open>None\<close> if one of them fails.\<close>

fun replay :: "'db engine \<Rightarrow> 'db \<Rightarrow> stmt list \<Rightarrow> 'db option" where
  "replay eng d [] = Some d"
| "replay eng d (s # ss) = (case eng d s of Inl _ \<Rightarrow> None | Inr (_, d') \<Rightarrow> replay eng d' ss)"

definition pg_inv :: "'db engine \<Rightarrow> 'db \<Rightarrow> 'db pg_conn \<Rightarrow> bool" where
  "pg_inv eng d0 c \<longleftrightarrow>
     replay eng d0 (pg_log c) = Some (pg_committed_db c)
     \<and> replay eng d0 (pg_log c @ pg_pending c) = Some (pg_db c)
     \<and> (pg_status c = TxIdle \<longrightarrow> pg_pending c = [])"

lemma replay_append:
  "replay eng d (xs @ ys) = (case replay eng d xs of None \<Rightarrow> None | Some d' \<Rightarrow> replay eng d' ys)"
  by (induction xs arbitrary: d) (auto split: sum.split option.split)

lemma pg_inv_connect: "pg_inv eng d0 (pg_connect d0)"
  by (simp add: pg_inv_def pg_connect_def)

lemma pg_inv_execute:
  "pg_inv eng d0 c \<Longrightarrow> pg_inv eng d0 (snd (pg_execute eng s c))"
  by (auto simp: pg_inv_def pg_execute_def replay_append split: sum.split)

lemma pg_inv_rollback: "pg_inv eng d0 c \<Longrightarrow> pg_inv eng d0 (pg_rollback c)"
  by (simp add: pg_inv_def pg_rollback_def)

lemma pg_inv_commit: "pg_inv eng d0 c \<Longrightarrow> pg_inv eng d0 (pg_commit c)"
  by (auto simp: pg_inv_def pg_commit_def pg_rollback_def)

lemma pg_step_inv: "pg_step eng c c' \<Longrightarrow> pg_inv eng d0 c \<Longrightarrow> pg_inv eng d0 c'"
  by (induction rule: pg_step.induct) (auto intro: pg_inv_execute pg_inv_commit pg_inv_rollback)

lemma pg_reachable_inv: "pg_reachable eng d0 c \<Longrightarrow> pg_inv eng d0 c"
proof (induction rule: pg_reachable.induct)
  case start
  show ?case by (rule pg_inv_connect)
next
  case (step c c')
  then show ?case by (blast intro: pg_step_inv)
qed

section \<open>Lemmas on the operations\<close>

lemma pg_execute_failed:
  "pg_status c = TxFailed \<Longrightarrow> pg_execute eng s c = (Inl InFailedSqlTransaction, c)"
  by (simp add: pg_execute_def)

lemma pg_execute_log [simp]: "pg_log (snd (pg_execute eng s c)) = pg_log c"
  by (auto simp: pg_execute_def split: sum.split)

lemma pg_rollback_log [simp]: "pg_log (pg_rollback c) = pg_log c"
  by (simp add: pg_rollback_def)

lemma pg_rollback_status [simp]: "pg_status (pg_rollback c) = TxIdle"
  by (simp add: pg_rollback_def)

lemma pg_commit_status [simp]: "pg_status (pg_commit c) = TxIdle"
  by (simp add: pg_commit_def)

lemma pg_rollback_pending [simp]: "pg_pending (pg_rollback c) = []"
  by (simp add: pg_rollback_def)

lemma pg_commit_pending [simp]: "pg_pending (pg_commit c) = []"
  by (simp add: pg_commit_def)

lemma pg_commit_log:
  "pg_log (pg_commit c) = (if pg_status c = TxFailed then pg_log c else pg_log c @ pg_pending c)"
  by (simp add: pg_commit_def)

lemma pg_execute_ok:
  "pg_execute eng s c = (Inr rows, c') \<Longrightarrow>
   pg_status c \<noteq> TxFailed \<and> pg_status c' = TxActive \<and> pg_pending c' = pg_pending c @ [s]
   \<and> pg_log c' = pg_log c"
  by (auto simp: pg_execute_def split: if_splits sum.splits)

lemma pg_execute_err:
  "pg_execute eng s c = (Inl e, c') \<Longrightarrow>
   pg_status c' = TxFailed \<and> pg_pending c' = pg_pending c \<and> pg_log c' = pg_log c"
  by (auto simp: pg_execute_def split: if_splits sum.splits)

lemma pg_reachable_execute:
  "pg_reachable eng d0 c \<Longrightarrow> pg_reachable eng d0 (snd (pg_execute eng s c))"
  by (rule pg_reachable.step [OF _ pg_step.execute])

lemma pg_reachable_commit: "pg_reachable eng d0 c \<Longrightarrow> pg_reachable eng d0 (pg_commit c)"
  by (rule pg_reachable.step [OF _ pg_step.commit])

lemma pg_reachable_rollback: "pg_reachable eng d0 c \<Longrightarrow> pg_reachable eng d0 (pg_rollback c)"
  by (rule pg_reachable.step [OF _ pg_step.rollback])

lemma pg_reachable_execute_eq:
  "pg_reachable eng d0 c \<Longrightarrow> pg_execute eng s c = (r, c') \<Longrightarrow> pg_reachable eng d0 c'"
  using pg_reachable_execute [of eng d0 c s] by simp

declare pg_reachable_execute [conn_reachable] pg_reachable_commit [conn_reachable]
  pg_reachable_rollback [conn_reachable] pg_reachable_execute_eq [conn_reachable]

end
