(* ===== verification/Schema.thy ===== *)
theory Schema
  imports DDL Target
begin

text \<open>
  The schema operations that execute the generated DDL on the PostgreSQL
  connection: \<open>create_postgresql_table\<close> (lines 109--144),
  \<open>migrate_constraints\<close> (lines 284--310), \<open>migrate_foreign_keys\<close>
  (lines 349--385) and \<open>migrate_indexes\<close> (lines 420--452).  Each returns the
  Python boolean and the connection after it.  All four use the same idiom,
  \<open>try: execute; commit except: rollback\<close>, modelled once as
  \<open>exec_commit\<close>.  The catalog queries of the introspector can raise; where
  the script catches that exception (in the three \<open>migrate_*\<close> functions)
  the function returns \<open>False\<close> without touching the connection.
\<close>

section \<open>Operations\<close>

text \<open>\<open>try: cursor.execute(sql); pg_conn.commit() except: pg_conn.rollback()\<close>.\<close>

definition exec_commit :: "'db engine \<Rightarrow> string \<Rightarrow> 'db pg_conn \<Rightarrow> bool \<times> 'db pg_conn" where
  "exec_commit eng sql c =
     (case pg_execute eng (Exec sql) c of
        (Inl _, c') \<Rightarrow> (False, pg_rollback c')
      | (Inr _, c') \<Rightarrow> (True, pg_commit c'))"

definition create_postgresql_table ::
  "'db engine \<Rightarrow> string \<Rightarrow> col_row list \<Rightarrow> 'db pg_conn \<Rightarrow> bool \<times> 'db pg_conn" where
  "create_postgresql_table eng table_name columns c =
     exec_commit eng (create_table_sql table_name columns) c"

definition migrate_constraints ::
  "mysql_src \<Rightarrow> 'db engine \<Rightarrow> string \<Rightarrow> 'db pg_conn \<Rightarrow> bool \<times> 'db pg_conn" where
  "migrate_constraints src eng table_name c =
     (case get_primary_keys src table_name of
        Inl _ \<Rightarrow> (False, c)
      | Inr pk_columns \<Rightarrow>
          (if pk_columns = [] then (True, c)
           else (True, snd (exec_commit eng (pk_sql table_name pk_columns) c))))"

text \<open>The loop of \<open>migrate_foreign_keys\<close> over the grouped constraints.\<close>

fun run_fk_statements :: "'db engine \<Rightarrow> (string \<times> fk_info) list \<Rightarrow> 'db pg_conn \<Rightarrow> 'db pg_conn" where
  "run_fk_statements eng [] c = c"
| "run_fk_statements eng ((fk_name, fk_info) # fks) c =
     run_fk_statements eng fks (snd (exec_commit eng (fk_sql fk_name fk_info) c))"

definition migrate_foreign_keys ::
  "mysql_src \<Rightarrow> 'db engine \<Rightarrow> string \<Rightarrow> 'db pg_conn \<Rightarrow> bool \<times> 'db pg_conn" where
  "migrate_foreign_keys src eng database_name c =
     (case get_foreign_keys src database_name of
        Inl _ \<Rightarrow> (False, c)
      | Inr foreign_keys \<Rightarrow> (True, run_fk_statements eng foreign_keys c))"

fun run_idx_statements ::
  "'db engine \<Rightarrow> string \<Rightarrow> (string \<times> idx_info) list \<Rightarrow> 'db pg_conn \<Rightarrow> 'db pg_conn" where
  "run_idx_statements eng table_name [] c = c"
| "run_idx_statements eng table_name ((index_name, index_info) # ixs) c =
     run_idx_statements eng table_name ixs
       (snd (exec_commit eng (idx_sql table_name index_name index_info) c))"

definition migrate_indexes ::
  "mysql_src \<Rightarrow> 'db engine \<Rightarrow> string \<Rightarrow> 'db pg_conn \<Rightarrow> bool \<times> 'db pg_conn" where
  "migrate_indexes src eng table_name c =
     (case get_indexes src table_name of
        Inl _ \<Rightarrow> (False, c)
      | Inr indexes \<Rightarrow> (True, run_idx_statements eng table_name indexes c))"

section \<open>Best-effort application\<close>

text \<open>
  The reference behaviour of a best-effort pass: each statement is applied to
  the database reached so far; one the engine rejects is skipped and leaves the
  database unchanged.  The result is the list of statements that took effect.
\<close>

fun best_effort :: "'db engine \<Rightarrow> string list \<Rightarrow> 'db \<Rightarrow> string list" where
  "best_effort eng [] d = []"
| "best_effort eng (s # ss) d =
     (case eng d (Exec s) of
        Inl _ \<Rightarrow> best_effort eng ss d
      | Inr (_, d') \<Rightarrow> s # best_effort eng ss d')"

text \<open>The loop both passes share: \<open>exec_commit\<close> on each statement in turn.\<close>

fun exec_commit_all :: "'db engine \<Rightarrow> string list \<Rightarrow> 'db pg_conn \<Rightarrow> 'db pg_conn" where
  "exec_commit_all eng [] c = c"
| "exec_commit_all eng (s # ss) c = exec_commit_all eng ss (snd (exec_commit eng s c))"

section \<open>Fixtures for the witnesses\<close>

text \<open>An engine that accepts every statement, counting them, and a catalog
  with one foreign key, for the witnesses.\<close>

definition counting_engine :: "nat engine" where
  "counting_engine d s = Inr ([], Suc d)"

definition one_fk_src :: mysql_src where
  "one_fk_src = \<lparr>src_show_tables = Inr [''orders''], src_columns = (\<lambda>_. Inr []),
      src_primary_key = (\<lambda>_. Inr [''id'']),
      src_key_usage = (\<lambda>_. Inr [\<lparr>fkr_table = ''orders'', fkr_column = ''cid'',
                                  fkr_constraint = ''fk_c'', fkr_ref_table = ''customers'',
                                  fkr_ref_column = ''id''\<rparr>]),
      src_statistics = (\<lambda>_. Inr [\<lparr>ixr_index = ''ix_cid'', ixr_column = ''cid'', ixr_non_unique = 1\<rparr>]),
      src_select_all = (\<lambda>_. Inr ([], []))\<rparr>"

section \<open>Lemmas\<close>

lemma run_fk_statements_all:
  "run_fk_statements eng fks c = exec_commit_all eng (map (\<lambda>(n, fk). fk_sql n fk) fks) c"
  by (induction eng fks c rule: run_fk_statements.induct) simp_all

lemma run_idx_statements_all:
  "run_idx_statements eng t ixs c = exec_commit_all eng (map (\<lambda>(n, i). idx_sql t n i) ixs) c"
  by (induction eng t ixs c rule: run_idx_statements.induct) simp_all

text \<open>On a connection with no open transaction, \<open>exec_commit\<close> commits
  exactly its statement when the engine accepts it and nothing otherwise.\<close>

lemma exec_commit_idle:
  assumes "pg_status c = TxIdle" and "pg_pending c = []"
  shows "exec_commit eng sql c =
           (case eng (pg_db c) (Exec sql) of
              Inl _ \<Rightarrow> (False, c\<lparr>pg_db := pg_committed_db c, pg_status := TxIdle\<rparr>)
            | Inr (_, d) \<Rightarrow> (True, c\<lparr>pg_db := d, pg_committed_db := d, pg_status := TxIdle,
                                     pg_log := pg_log c @ [Exec sql]\<rparr>))"
  using assms
  by (simp add: exec_commit_def pg_execute_def pg_commit_def pg_rollback_def split: sum.split)

lemma exec_commit_status:
  "pg_status (snd (exec_commit eng sql c)) = TxIdle \<and> pg_pending (snd (exec_commit eng sql c)) = []"
  by (auto simp: exec_commit_def split: prod.split sum.split)

lemma exec_commit_failed:
  "pg_status c = TxFailed \<Longrightarrow> exec_commit eng sql c = (False, pg_rollback c)"
  by (simp add: exec_commit_def pg_execute_failed)

lemma create_on_aborted:
  "pg_status c = TxFailed \<Longrightarrow> create_postgresql_table eng t cols c = (False, pg_rollback c)"
  by (simp add: create_postgresql_table_def exec_commit_failed)

lemma exec_commit_reachable:
  assumes "pg_reachable eng d0 c"
  shows "pg_reachable eng d0 (snd (exec_commit eng sql c))"
proof -
  obtain res c' where e: "pg_execute eng (Exec sql) c = (res, c')" by fastforce
  have "pg_reachable eng d0 c'" using pg_reachable_execute [OF assms, of "Exec sql"] e by simp
  then show ?thesis using e
    by (cases res) (simp_all add: exec_commit_def pg_reachable_commit pg_reachable_rollback)
qed

declare exec_commit_reachable [conn_reachable]

lemma create_postgresql_table_reachable [conn_reachable]:
  "pg_reachable eng d0 c \<Longrightarrow> pg_reachable eng d0 (snd (create_postgresql_table eng t cols c))"
  by (simp add: create_postgresql_table_def exec_commit_reachable)

lemma migrate_constraints_reachable [conn_reachable]:
  "pg_reachable eng d0 c \<Longrightarrow> pg_reachable eng d0 (snd (migrate_constraints src eng t c))"
  by (simp add: migrate_constraints_def exec_commit_reachable split: sum.split)

lemma run_fk_statements_reachable:
  "pg_reachable eng d0 c \<Longrightarrow> pg_reachable eng d0 (run_fk_statements eng fks c)"
  by (induction eng fks c rule: run_fk_statements.induct) (simp_all add: exec_commit_reachable)

lemma run_idx_statements_reachable:
  "pg_reachable eng d0 c \<Longrightarrow> pg_reachable eng d0 (run_idx_statements eng t ixs c)"
  by (induction eng t ixs c rule: run_idx_statements.induct) (simp_all add: exec_commit_reachable)

lemma migrate_foreign_keys_reachable [conn_reachable]:
  "pg_reachable eng d0 c \<Longrightarrow> pg_reachable eng d0 (snd (migrate_foreign_keys src eng db c))"
  by (simp add: migrate_foreign_keys_def run_fk_statements_reachable split: sum.split)

lemma migrate_indexes_reachable [conn_reachable]:
  "pg_reachable eng d0 c \<Longrightarrow> pg_reachable eng d0 (snd (migrate_indexes src eng t c))"
  by (simp add: migrate_indexes_def run_idx_statements_reachable split: sum.split)

lemma pg_reachable_idle_db:
  "pg_reachable eng d0 c \<Longrightarrow> pg_status c = TxIdle \<Longrightarrow>
   pg_pending c = [] \<and> pg_db c = pg_committed_db c"
  using pg_reachable_inv [of eng d0 c] by (auto simp: pg_inv_def)

text \<open>From an idle reachable connection, the pass commits exactly the
  statements of the best-effort reference, and ends idle.\<close>

lemma exec_commit_all_best_effort:
  "pg_reachable eng d0 c \<Longrightarrow> pg_status c = TxIdle \<Longrightarrow>
   pg_status (exec_commit_all eng ss c) = TxIdle
   \<and> pg_log (exec_commit_all eng ss c) = pg_log c @ map Exec (best_effort eng ss (pg_db c))"
proof (induction ss arbitrary: c)
  case Nil
  then show ?case by simp
next
  case (Cons s ss)
  from pg_reachable_idle_db [OF Cons.prems]
  have idle: "pg_pending c = []" and db: "pg_db c = pg_committed_db c" by auto
  let ?c' = "snd (exec_commit eng s c)"
  have r: "pg_reachable eng d0 ?c'" using Cons.prems(1) by (rule exec_commit_reachable)
  have st: "pg_status ?c' = TxIdle" using exec_commit_status by blast
  have IH: "pg_status (exec_commit_all eng ss ?c') = TxIdle
      \<and> pg_log (exec_commit_all eng ss ?c') = pg_log ?c' @ map Exec (best_effort eng ss (pg_db ?c'))"
    using Cons.IH [OF r st] .
  show ?case
  proof (cases "eng (pg_db c) (Exec s)")
    case (Inl e)
    then have "?c' = c\<lparr>pg_db := pg_committed_db c, pg_status := TxIdle\<rparr>"
      using exec_commit_idle [OF Cons.prems(2) idle] by simp
    with IH Inl db show ?thesis by simp
  next
    case (Inr p)
    then obtain rs d where p: "eng (pg_db c) (Exec s) = Inr (rs, d)" by (cases p) auto
    then have "?c' = c\<lparr>pg_db := d, pg_committed_db := d, pg_status := TxIdle,
                        pg_log := pg_log c @ [Exec s]\<rparr>"
      using exec_commit_idle [OF Cons.prems(2) idle] by simp
    with IH p show ?thesis by simp
  qed
qed

section \<open>Properties\<close>

text \<open>
  C19. The deferred foreign-key pass is best effort and isolates each
  constraint: started on an idle connection, it commits exactly the
  \<open>ALTER TABLE ... ADD CONSTRAINT\<close> statements of the best-effort reference
  (each applied to the database the accepted ones before it produced, a
  rejected one skipped), in the order of the grouped constraints, and leaves
  the connection idle.
\<close>

theorem migrate_foreign_keys_best_effort:
  assumes "pg_reachable eng d0 c" and "pg_status c = TxIdle"
    and "get_foreign_keys src database_name = Inr fks"
  shows "migrate_foreign_keys src eng database_name c = (True, run_fk_statements eng fks c)
         \<and> pg_status (run_fk_statements eng fks c) = TxIdle
         \<and> pg_log (run_fk_statements eng fks c)
           = pg_log c @ map Exec (best_effort eng (map (\<lambda>(n, fk). fk_sql n fk) fks) (pg_db c))"
  using assms exec_commit_all_best_effort [OF assms(1,2)]
  by (simp add: migrate_foreign_keys_def run_fk_statements_all)

theorem migrate_foreign_keys_best_effort_witness:
  "pg_reachable counting_engine 0 (pg_connect 0) \<and> pg_status (pg_connect (0::nat)) = TxIdle
   \<and> get_foreign_keys one_fk_src ''shop'' = Inr [(''fk_c'', \<lparr>fk_table_name = ''orders'',
        fk_columns = [''cid''], fk_ref_table_name = ''customers'', fk_ref_columns = [''id'']\<rparr>)]
   \<and> pg_log (snd (migrate_foreign_keys one_fk_src counting_engine ''shop'' (pg_connect 0)))
     = [Exec (fk_sql ''fk_c'' \<lparr>fk_table_name = ''orders'', fk_columns = [''cid''],
                               fk_ref_table_name = ''customers'', fk_ref_columns = [''id'']\<rparr>)]"
proof -
  have h1: "pg_reachable counting_engine 0 (pg_connect 0)" by (rule pg_reachable.start)
  have h2: "pg_status (pg_connect (0::nat)) = TxIdle" by (simp add: pg_connect_def)
  have h3: "get_foreign_keys one_fk_src ''shop'' = Inr [(''fk_c'', \<lparr>fk_table_name = ''orders'',
        fk_columns = [''cid''], fk_ref_table_name = ''customers'', fk_ref_columns = [''id'']\<rparr>)]"
    by (simp add: get_foreign_keys_def one_fk_src_def add_fk_row_def)
  show ?thesis
    using h1 h2 h3 migrate_foreign_keys_best_effort [OF h1 h2 h3]
    by (simp add: counting_engine_def pg_connect_def)
qed

text \<open>
  C24. The index pass behaves the same way on the indexes of a table.
\<close>

theorem migrate_indexes_best_effort:
  assumes "pg_reachable eng d0 c" and "pg_status c = TxIdle"
    and "get_indexes src table_name = Inr ixs"
  shows "migrate_indexes src eng table_name c = (True, run_idx_statements eng table_name ixs c)
         \<and> pg_status (run_idx_statements eng table_name ixs c) = TxIdle
         \<and> pg_log (run_idx_statements eng table_name ixs c)
           = pg_log c @ map Exec (best_effort eng (map (\<lambda>(n, i). idx_sql table_name n i) ixs) (pg_db c))"
  using assms exec_commit_all_best_effort [OF assms(1,2)]
  by (simp add: migrate_indexes_def run_idx_statements_all)

theorem migrate_indexes_best_effort_witness:
  "pg_reachable counting_engine 0 (pg_connect 0) \<and> pg_status (pg_connect (0::nat)) = TxIdle
   \<and> get_indexes one_fk_src ''orders'' = Inr [(''ix_cid'', \<lparr>idx_columns = [''cid''], idx_is_unique = False\<rparr>)]
   \<and> pg_log (snd (migrate_indexes one_fk_src counting_engine ''orders'' (pg_connect 0)))
     = [Exec (idx_sql ''orders'' ''ix_cid'' \<lparr>idx_columns = [''cid''], idx_is_unique = False\<rparr>)]"
proof -
  have h1: "pg_reachable counting_engine 0 (pg_connect 0)" by (rule pg_reachable.start)
  have h2: "pg_status (pg_connect (0::nat)) = TxIdle" by (simp add: pg_connect_def)
  have h3: "get_indexes one_fk_src ''orders''
      = Inr [(''ix_cid'', \<lparr>idx_columns = [''cid''], idx_is_unique = False\<rparr>)]"
    by (simp add: get_indexes_def one_fk_src_def add_idx_row_def)
  show ?thesis
    using h1 h2 h3 migrate_indexes_best_effort [OF h1 h2 h3]
    by (simp add: counting_engine_def pg_connect_def)
qed

text \<open>
  C27. \<open>migrate_constraints\<close> reports failure only when reading the primary
  key from MySQL fails; a rejected \<open>ADD CONSTRAINT ... PRIMARY KEY\<close> is rolled
  back and still reported as success, so the orchestrator never warns about
  it.
\<close>

theorem migrate_constraints_result:
  "fst (migrate_constraints src eng table_name c) \<longleftrightarrow> \<not> isl (get_primary_keys src table_name)"
  by (simp add: migrate_constraints_def split: sum.split)

end
