(* ===== verification/DataTransfer.thy ===== *)
theory DataTransfer
  imports Target
begin

unbundle bit_operations_syntax

text \<open>
  The Data Transfer Engine: \<open>export_table_data\<close> (lines 146--195) and
  \<open>import_table_data\<close> (lines 197--266).  The file system is the record
  \<open>fs\<close>: directories, files, and which paths can be created or written.  A
  CSV file is held as the list of its records (header first), the view both
  the Python \<open>csv\<close> writer and reader have of it; the text layer of the CSV
  format is not modelled.  Export cleans each value (\<open>bytes\<close> to
  \<open>bytes.hex()\<close>, the rest unchanged) and the writer turns it into a field
  with \<open>str()\<close> (\<open>None\<close> to the empty field).  Import tries
  \<open>COPY ... FROM STDIN\<close> and, on any exception, rolls back and inserts the
  records in batches of 100 with \<open>executemany\<close>, an empty field read as
  \<open>NULL\<close>.  PostgreSQL's text input for \<open>bytea\<close> is modelled from its
  documentation to state what the target makes of the exported hex text.
\<close>

section \<open>Hexadecimal text of bytes\<close>

definition hex_digits :: string where
  "hex_digits = ''0123456789abcdef''"

text \<open>\<open>bytes.hex()\<close>: two lowercase digits per byte, high nibble first.\<close>

definition hex_digit :: "byte \<Rightarrow> char" where
  "hex_digit n = hex_digits ! unat n"

definition byte_hex :: "byte \<Rightarrow> string" where
  "byte_hex b = [hex_digit (drop_bit 4 b), hex_digit (b AND 15)]"

definition bytes_hex :: "byte list \<Rightarrow> string" where
  "bytes_hex bs = concat (map byte_hex bs)"

text \<open>Decoding hexadecimal text (either case), as \<open>bytes.fromhex\<close> and
  PostgreSQL's \<open>\x\<close> format of \<open>bytea\<close> do.\<close>

definition hex_value :: "char \<Rightarrow> byte option" where
  "hex_value c =
     map_of (zip (hex_digits @ ''ABCDEF'') (map of_nat ([0..<16] @ [10..<16]))) c"

fun hex_decode :: "string \<Rightarrow> byte list option" where
  "hex_decode [] = Some []"
| "hex_decode [c] = None"
| "hex_decode (c1 # c2 # cs) =
     (case (hex_value c1, hex_value c2, hex_decode cs) of
        (Some h, Some l, Some bs) \<Rightarrow> Some ((push_bit 4 h OR l) # bs)
      | _ \<Rightarrow> None)"

section \<open>Values and CSV fields\<close>

text \<open>Lines 178--183: \<open>None\<close> stays, \<open>bytes\<close> become their hex text.\<close>

definition clean_value :: "sqlval \<Rightarrow> sqlval" where
  "clean_value v =
     (case v of
        VNull \<Rightarrow> VNull
      | VBytes bs \<Rightarrow> VStr (bytes_hex bs)
      | _ \<Rightarrow> v)"

definition clean_row :: "sqlval list \<Rightarrow> sqlval list" where
  "clean_row row = map clean_value row"

text \<open>\<open>repr()\<close> of a \<open>bytes\<close> object, which \<open>str()\<close> gives and the CSV
  writer would write for a value that was not cleaned.\<close>

definition backslash :: char where
  "backslash = CHR 0x5C"

definition byte_repr :: "byte \<Rightarrow> byte \<Rightarrow> string" where
  "byte_repr q b =
     (if b = q \<or> b = 92 then [backslash, char_of (unat b)]
      else if b = 9 then [backslash, CHR ''t'']
      else if b = 10 then [backslash, CHR ''n'']
      else if b = 13 then [backslash, CHR ''r'']
      else if b < 32 \<or> 127 \<le> b then [backslash, CHR ''x''] @ byte_hex b
      else [char_of (unat b)])"

definition py_bytes_repr :: "byte list \<Rightarrow> string" where
  "py_bytes_repr bs =
     (let q = (if 39 \<in> set bs \<and> 34 \<notin> set bs then 34 else 39)
      in CHR ''b'' # char_of (unat q) # concat (map (byte_repr q) bs) @ [char_of (unat q)])"

text \<open>The field the \<open>csv\<close> writer writes for a value: empty for \<open>None\<close>,
  \<open>str(value)\<close> otherwise.\<close>

fun csv_field :: "sqlval \<Rightarrow> string" where
  "csv_field VNull = []"
| "csv_field (VInt i) = py_str_int i"
| "csv_field (VStr s) = s"
| "csv_field (VOther s) = s"
| "csv_field (VBytes bs) = py_bytes_repr bs"

section \<open>Export\<close>

record fs =
  fs_dirs :: "string set"
  fs_files :: "string \<Rightarrow> string list list option"
  fs_can_mkdir :: "string \<Rightarrow> bool"
  fs_can_write :: "string \<Rightarrow> bool"

text \<open>\<open>os.path.join\<close> of two POSIX path components.\<close>

definition py_path_join :: "string \<Rightarrow> string \<Rightarrow> string" where
  "py_path_join a b =
     (if b \<noteq> [] \<and> hd b = CHR ''/'' then b
      else if a = [] \<or> last a = CHR ''/'' then a @ b
      else a @ CHR ''/'' # b)"

text \<open>
  The loop of lines 169--187: \<open>fetchmany(1000)\<close> takes the next batch of the
  cursor's remaining rows; while it is not empty its cleaned rows are written.
\<close>

function export_rows :: "sqlval list list \<Rightarrow> string list list \<Rightarrow> string list list" where
  "export_rows cursor written =
     (let rows = take 1000 cursor
      in if rows = [] then written
         else export_rows (drop 1000 cursor)
                (written @ map (\<lambda>row. map csv_field (clean_row row)) rows))"
  by pat_completeness auto
termination
  by (relation "measure (\<lambda>(cursor, _). length cursor)") auto

declare export_rows.simps [simp del]

text \<open>
  \<open>export_table_data\<close>: the directory is created outside the \<open>try\<close>, so
  its failure escapes as an exception (\<open>Inl\<close>); a failing \<open>SELECT\<close> or
  \<open>open\<close> is caught and gives \<open>None\<close>.
\<close>

definition export_table_data ::
  "mysql_src \<Rightarrow> fs \<Rightarrow> string \<Rightarrow> string \<Rightarrow> exn + (string option \<times> fs)" where
  "export_table_data src fsys table_name output_dir =
     (if output_dir \<notin> fs_dirs fsys \<and> fs_files fsys output_dir = None
         \<and> \<not> fs_can_mkdir fsys output_dir
      then Inl (IoError ''makedirs'')
      else
        (let fs1 = fsys\<lparr>fs_dirs := insert output_dir (fs_dirs fsys)\<rparr>;
             file_path = py_path_join output_dir (table_name @ ''.csv'')
         in case src_select_all src table_name of
              Inl _ \<Rightarrow> Inr (None, fs1)
            | Inr (columns, cursor) \<Rightarrow>
                (if \<not> fs_can_write fs1 file_path then Inr (None, fs1)
                 else Inr (Some file_path,
                           fs1\<lparr>fs_files := (fs_files fs1)(file_path \<mapsto> export_rows cursor [columns])\<rparr>))))"

section \<open>Import\<close>

text \<open>The statements of lines 205--208 and 233--236.\<close>

definition column_list :: "string list \<Rightarrow> string" where
  "column_list header = py_join '', '' (map quote_ident header)"

definition copy_statement :: "string \<Rightarrow> string list \<Rightarrow> string" where
  "copy_statement table_name header =
     ''COPY '' @ quote_ident table_name @ '' ('' @ column_list header
     @ '') FROM STDIN WITH CSV HEADER DELIMITER '' @ [squote, CHR '','', squote]"

definition count_statement :: "string \<Rightarrow> string" where
  "count_statement table_name = ''SELECT COUNT(*) FROM '' @ quote_ident table_name"

definition insert_statement :: "string \<Rightarrow> string list \<Rightarrow> string" where
  "insert_statement table_name header =
     ''INSERT INTO '' @ quote_ident table_name @ '' ('' @ column_list header @ '') VALUES (''
     @ py_join '', '' (replicate (length header) ''%s'') @ '')''"

text \<open>Line 245: an empty field becomes \<open>None\<close>, i.e. \<open>NULL\<close>.\<close>

definition process_row :: "string list \<Rightarrow> string option list" where
  "process_row row = map (\<lambda>v. if v = [] then None else Some v) row"

text \<open>\<open>cursor.executemany(q, batch)\<close>: one execution per parameter row,
  stopping at the first error.\<close>

fun executemany ::
  "'db engine \<Rightarrow> string \<Rightarrow> string option list list \<Rightarrow> 'db pg_conn \<Rightarrow> (exn + unit) \<times> 'db pg_conn" where
  "executemany eng q [] c = (Inr (), c)"
| "executemany eng q (p # ps) c =
     (case pg_execute eng (ExecParams q p) c of
        (Inl e, c') \<Rightarrow> (Inl e, c')
      | (Inr _, c') \<Rightarrow> executemany eng q ps c')"

text \<open>
  The loop of lines 243--257 over the remaining records, with the current
  batch and the count: a full batch (100 rows) is inserted and committed; after
  the loop a non-empty remainder is inserted and committed.  The result is the
  count, or the exception that leaves the loop.
\<close>

fun fallback_loop ::
  "'db engine \<Rightarrow> string \<Rightarrow> string list list \<Rightarrow> string option list list \<Rightarrow> nat \<Rightarrow> 'db pg_conn
   \<Rightarrow> (exn + nat) \<times> 'db pg_conn" where
  "fallback_loop eng q [] batch count c =
     (if batch \<noteq> []
      then (case executemany eng q batch c of
              (Inl e, c') \<Rightarrow> (Inl e, c')
            | (Inr _, c') \<Rightarrow> (Inr count, pg_commit c'))
      else (Inr count, c))"
| "fallback_loop eng q (row # rows) batch count c =
     (let batch' = batch @ [process_row row]; count' = count + 1
      in if 100 \<le> length batch'
         then (case executemany eng q batch' c of
                 (Inl e, c') \<Rightarrow> (Inl e, c')
               | (Inr _, c') \<Rightarrow> fallback_loop eng q rows [] count' (pg_commit c'))
         else fallback_loop eng q rows batch' count' c)"

text \<open>The alternative method (lines 228--264), entered after the rollback.\<close>

definition import_fallback ::
  "'db engine \<Rightarrow> fs \<Rightarrow> string \<Rightarrow> string \<Rightarrow> 'db pg_conn \<Rightarrow> bool \<times> 'db pg_conn" where
  "import_fallback eng fsys table_name csv_file c =
     (case fs_files fsys csv_file of
        None \<Rightarrow> (False, pg_rollback c)
      | Some [] \<Rightarrow> (False, pg_rollback c)
      | Some (header # rows) \<Rightarrow>
          (case fallback_loop eng (insert_statement table_name header) rows [] 0 c of
             (Inl _, c') \<Rightarrow> (False, pg_rollback c')
           | (Inr _, c') \<Rightarrow> (True, c')))"

text \<open>
  \<open>import_table_data\<close>: \<open>COPY\<close> with the whole file (the header line is
  skipped by \<open>CSV HEADER\<close>), commit, then the row count; a missing file, a
  failing \<open>COPY\<close> or a failing count (no row, or an error) is an exception,
  rolled back before the alternative method.
\<close>

definition import_table_data ::
  "'db engine \<Rightarrow> fs \<Rightarrow> string \<Rightarrow> string \<Rightarrow> 'db pg_conn \<Rightarrow> bool \<times> 'db pg_conn" where
  "import_table_data eng fsys table_name csv_file c =
     (case fs_files fsys csv_file of
        None \<Rightarrow> import_fallback eng fsys table_name csv_file (pg_rollback c)
      | Some [] \<Rightarrow> import_fallback eng fsys table_name csv_file (pg_rollback c)
      | Some (header # rows) \<Rightarrow>
          (case pg_execute eng (CopyFrom (copy_statement table_name header) (header # rows)) c of
             (Inl _, c1) \<Rightarrow> import_fallback eng fsys table_name csv_file (pg_rollback c1)
           | (Inr _, c1) \<Rightarrow>
               (case pg_execute eng (Exec (count_statement table_name)) (pg_commit c1) of
                  (Inl _, c2) \<Rightarrow> import_fallback eng fsys table_name csv_file (pg_rollback c2)
                | (Inr result, c2) \<Rightarrow>
                    (if result = [] \<or> hd result = []
                     then import_fallback eng fsys table_name csv_file (pg_rollback c2)
                     else (True, c2)))))"

section \<open>PostgreSQL's text input for bytea\<close>

text \<open>
  PostgreSQL reads a \<open>bytea\<close> text value in hex format when it starts with
  \<open>\x\<close>, otherwise in escape format: every character is a byte, except that
  \<open>\\\<close> is a backslash and \<open>\ooo\<close> (first digit 0--3) an octal byte; any
  other backslash is an error.
\<close>

definition octal_digit :: "char \<Rightarrow> bool" where
  "octal_digit c = (48 \<le> (of_char c :: nat) \<and> (of_char c :: nat) \<le> 55)"

fun bytea_escape_in :: "string \<Rightarrow> byte list option" where
  "bytea_escape_in [] = Some []"
| "bytea_escape_in (c # cs) =
     (if c \<noteq> backslash then map_option (Cons (of_nat (of_char c))) (bytea_escape_in cs)
      else (case cs of
              d # ds \<Rightarrow>
                (if d = backslash then map_option (Cons 92) (bytea_escape_in ds)
                 else (case ds of
                         e # f # rest \<Rightarrow>
                           (if (48 \<le> (of_char d :: nat) \<and> (of_char d :: nat) \<le> 51)
                               \<and> octal_digit e \<and> octal_digit f
                            then map_option (Cons (of_nat (64 * (of_char d - 48) + 8 * (of_char e - 48)
                                                          + (of_char f - 48))))
                                   (bytea_escape_in rest)
                            else None)
                       | _ \<Rightarrow> None))
            | [] \<Rightarrow> None))"

definition pg_bytea_in :: "string \<Rightarrow> byte list option" where
  "pg_bytea_in s =
     (if take 2 s = [backslash, CHR ''x''] then hex_decode (drop 2 s) else bytea_escape_in s)"

section \<open>Fixtures for the witnesses\<close>

text \<open>A server that accepts every statement and answers with one row; one
  that refuses every plain statement (so the row count fails); one that
  refuses every insert; and a file system holding one exported table.\<close>

definition accept_engine :: "nat engine" where
  "accept_engine d s = Inr ([[VInt (int d)]], Suc d)"

definition count_fails_engine :: "nat engine" where
  "count_fails_engine d s = (case s of Exec _ \<Rightarrow> Inl (DbError ''count'') | _ \<Rightarrow> Inr ([], Suc d))"

definition reject_inserts_engine :: "nat engine" where
  "reject_inserts_engine d s =
     (case s of ExecParams _ _ \<Rightarrow> Inl (DbError ''insert'') | _ \<Rightarrow> Inr ([], Suc d))"

definition one_table_fs :: fs where
  "one_table_fs = \<lparr>fs_dirs = {''out''}, fs_files = [''out/t.csv'' \<mapsto> [[''id''], [''1''], [[]]]],
                   fs_can_mkdir = (\<lambda>_. True), fs_can_write = (\<lambda>_. True)\<rparr>"

definition one_table_src :: mysql_src where
  "one_table_src = \<lparr>src_show_tables = Inr [''t''], src_columns = (\<lambda>_. Inr []),
      src_primary_key = (\<lambda>_. Inr []), src_key_usage = (\<lambda>_. Inr []),
      src_statistics = (\<lambda>_. Inr []),
      src_select_all = (\<lambda>_. Inr ([''id'', ''data''], [[VInt 1, VBytes [255, 0]], [VInt 2, VNull]]))\<rparr>"

section \<open>Lemmas\<close>

lemma fifteen_mask: "(15 :: byte) = mask 4"
  by (simp add: mask_eq_exp_minus_1)

lemma byte_nibbles: "push_bit 4 (drop_bit 4 b) OR (b AND 15) = (b :: byte)"
  unfolding fifteen_mask by (rule bit_word_eqI) (auto simp: bit_simps)

lemma high_nibble_bound: "unat (drop_bit 4 (b :: byte)) < 16"
proof -
  have "unat b < 2 ^ LENGTH(8)" by (rule unsigned_less)
  then show ?thesis by (simp only: unat_drop_bit_eq) (simp add: drop_bit_eq_div)
qed

lemma low_nibble_bound: "unat ((b :: byte) AND 15) < 16"
proof -
  have "unat (b AND 15) \<le> unat (15 :: byte)"
    by (rule word_and_le1 [THEN word_le_nat_alt [THEN iffD1]])
  then show ?thesis by simp
qed

lemma low_nibble_mod: "unat ((b :: byte) AND 15) = unat b mod 16"
proof -
  have "(b AND 15) = take_bit 4 b" by (simp add: fifteen_mask take_bit_eq_mask)
  then show ?thesis by (simp only: unsigned_take_bit_eq) (simp add: take_bit_eq_mod)
qed
lemma high_nibble_div: "unat (drop_bit 4 (b :: byte)) = unat b div 16"
  by (simp only: unat_drop_bit_eq) (simp add: drop_bit_eq_div)
lemma hex_value_digit_nat:
  "k < 16 \<Longrightarrow> hex_value (hex_digits ! k) = Some (of_nat k)"
proof -
  assume "k < 16"
  then have "k \<in> set [0..<16]" by simp
  moreover have "list_all (\<lambda>k. hex_value (hex_digits ! k) = Some (of_nat k)) [0..<16]"
    by (simp add: upt_rec hex_value_def hex_digits_def)
  ultimately show ?thesis by (simp add: list_all_iff)
qed

lemma hex_value_digit: "unat n < 16 \<Longrightarrow> hex_value (hex_digit n) = Some n"
  using hex_value_digit_nat [of "unat n"] by (simp add: hex_digit_def)

lemma hex_digit_in: "unat n < 16 \<Longrightarrow> hex_digit n \<in> set hex_digits"
  unfolding hex_digit_def by (rule nth_mem) (simp add: hex_digits_def)

lemma export_rows_eq:
  "export_rows cursor written = written @ map (\<lambda>row. map csv_field (clean_row row)) cursor"
proof (induction cursor written rule: export_rows.induct)
  case (1 cursor written)
  show ?case
  proof (cases "take 1000 cursor = []")
    case True
    then have "cursor = []" by simp
    then show ?thesis by (simp add: export_rows.simps)
  next
    case False
    then have "export_rows cursor written
        = export_rows (drop 1000 cursor)
            (written @ map (\<lambda>row. map csv_field (clean_row row)) (take 1000 cursor))"
      by (simp add: export_rows.simps [of cursor written] Let_def)
    also have "\<dots> = written @ map (\<lambda>row. map csv_field (clean_row row)) (take 1000 cursor)
        @ map (\<lambda>row. map csv_field (clean_row row)) (drop 1000 cursor)"
      using "1.IH" [OF refl False] by simp
    finally show ?thesis by (simp flip: map_append)
  qed
qed

lemma hex_decode_bytes_hex: "hex_decode (bytes_hex bs) = Some bs"
proof (induction bs)
  case Nil
  then show ?case by (simp add: bytes_hex_def)
next
  case (Cons b bs)
  have "hex_decode (bytes_hex (b # bs))
      = hex_decode (hex_digit (drop_bit 4 b) # hex_digit (b AND 15) # bytes_hex bs)"
    by (simp add: bytes_hex_def byte_hex_def)
  also have "\<dots> = Some ((push_bit 4 (drop_bit 4 b) OR (b AND 15)) # bs)"
    using Cons.IH by (simp add: hex_value_digit high_nibble_bound low_nibble_bound)
  finally show ?case by (simp add: byte_nibbles)
qed

lemma bytes_hex_chars: "set (bytes_hex bs) \<subseteq> set hex_digits"
  by (auto simp: bytes_hex_def byte_hex_def hex_digit_in high_nibble_bound low_nibble_bound)

lemma length_bytes_hex: "length (bytes_hex bs) = 2 * length bs"
  by (induction bs) (simp_all add: bytes_hex_def byte_hex_def)

lemma executemany_ok:
  "executemany eng q ps c = (Inr u, c') \<Longrightarrow> pg_status c \<noteq> TxFailed \<Longrightarrow>
   pg_pending c' = pg_pending c @ map (ExecParams q) ps \<and> pg_log c' = pg_log c
   \<and> pg_status c' \<noteq> TxFailed"
proof (induction ps arbitrary: c)
  case (Cons p ps)
  obtain r c1 where e: "pg_execute eng (ExecParams q p) c = (Inr r, c1)"
    and rest: "executemany eng q ps c1 = (Inr u, c')"
    using Cons.prems(1) by (auto split: prod.splits sum.splits)
  have c1: "pg_status c1 \<noteq> TxFailed \<and> pg_pending c1 = pg_pending c @ [ExecParams q p]
      \<and> pg_log c1 = pg_log c"
    using pg_execute_ok [OF e] by simp
  with Cons.IH [OF rest] show ?case by simp
qed simp

lemma executemany_err:
  "executemany eng q ps c = (Inl e, c') \<Longrightarrow> pg_log c' = pg_log c"
proof (induction ps arbitrary: c)
  case (Cons p ps)
  then show ?case
    by (auto split: prod.splits sum.splits dest!: pg_execute_ok pg_execute_err)
qed simp

lemma executemany_accepted:
  assumes "\<forall>d p. \<exists>r d'. eng d (ExecParams q p) = Inr (r, d')" and "pg_status c \<noteq> TxFailed"
  shows "\<exists>c'. executemany eng q ps c = (Inr (), c') \<and> pg_status c' \<noteq> TxFailed"
  using assms(2)
proof (induction ps arbitrary: c)
  case (Cons p ps)
  obtain r d' where e: "eng (pg_db c) (ExecParams q p) = Inr (r, d')" using assms(1) by blast
  let ?c1 = "c\<lparr>pg_db := d', pg_status := TxActive, pg_pending := pg_pending c @ [ExecParams q p]\<rparr>"
  have "pg_execute eng (ExecParams q p) c = (Inr r, ?c1)"
    using e Cons.prems by (simp add: pg_execute_def)
  with Cons.IH [of ?c1] show ?case by simp
qed simp

lemma pg_commit_after_ok:
  "pg_status c \<noteq> TxFailed \<Longrightarrow> pg_log (pg_commit c) = pg_log c @ pg_pending c"
  by (simp add: pg_commit_def)

text \<open>A successful run of the loop commits every record, in order.\<close>

lemma fallback_loop_ok:
  "fallback_loop eng q rows b n c = (Inr n', c') \<Longrightarrow> pg_status c \<noteq> TxFailed \<Longrightarrow> pg_pending c = [] \<Longrightarrow>
   pg_log c' = pg_log c @ map (ExecParams q) (b @ map process_row rows)
   \<and> n' = n + length rows \<and> pg_status c' \<noteq> TxFailed \<and> pg_pending c' = []"
proof (induction rows arbitrary: b n c)
  case Nil
  show ?case
  proof (cases "b = []")
    case True
    with Nil.prems show ?thesis by simp
  next
    case False
    with Nil.prems(1) obtain c1 where em: "executemany eng q b c = (Inr (), c1)"
      and c': "c' = pg_commit c1" and n': "n' = n"
      by (auto split: prod.splits sum.splits)
    from executemany_ok [OF em Nil.prems(2)] Nil.prems(3) c' n' show ?thesis
      by (simp add: pg_commit_after_ok)
  qed
next
  case (Cons row rows)
  let ?b' = "b @ [process_row row]"
  show ?case
  proof (cases "100 \<le> length ?b'")
    case True
    with Cons.prems(1) obtain c1 where em: "executemany eng q ?b' c = (Inr (), c1)"
      and rest: "fallback_loop eng q rows [] (n + 1) (pg_commit c1) = (Inr n', c')"
      by (auto simp: Let_def split: prod.splits sum.splits)
    from executemany_ok [OF em Cons.prems(2)] Cons.prems(3)
    have "pg_log (pg_commit c1) = pg_log c @ map (ExecParams q) ?b'"
      by (simp add: pg_commit_after_ok)
    with Cons.IH [OF rest] show ?thesis by simp
  next
    case False
    with Cons.prems(1) have rest: "fallback_loop eng q rows ?b' (n + 1) c = (Inr n', c')"
      by (simp add: Let_def)
    from Cons.IH [OF rest Cons.prems(2,3)] show ?thesis by simp
  qed
qed

text \<open>A failed run has committed only whole batches of 100 records.\<close>

lemma fallback_loop_err:
  "fallback_loop eng q rows b n c = (Inl e, c') \<Longrightarrow> pg_status c \<noteq> TxFailed \<Longrightarrow> pg_pending c = [] \<Longrightarrow>
   length b < 100 \<Longrightarrow>
   \<exists>j. pg_log c' = pg_log c @ map (ExecParams q) (take (100 * j) (b @ map process_row rows))"
proof (induction rows arbitrary: b n c)
  case Nil
  then have "pg_log c' = pg_log c"
    by (auto split: if_splits prod.splits sum.splits dest: executemany_err)
  then show ?case by (metis append_Nil2 list.simps(8) mult_0_right take0)
next
  case (Cons row rows)
  let ?b' = "b @ [process_row row]"
  show ?case
  proof (cases "100 \<le> length ?b'")
    case True
    then have len: "length ?b' = 100" using Cons.prems(4) by simp
    show ?thesis
    proof (cases "executemany eng q ?b' c")
      case (Pair r c1)
      show ?thesis
      proof (cases r)
        case (Inl e')
        with Pair True Cons.prems(1) have "pg_log c' = pg_log c"
          by (auto simp: Let_def dest: executemany_err)
        then show ?thesis by (metis append_Nil2 list.simps(8) mult_0_right take0)
      next
        case (Inr u)
        with Pair True Cons.prems(1)
        have rest: "fallback_loop eng q rows [] (n + 1) (pg_commit c1) = (Inl e, c')"
          by (simp add: Let_def)
        from executemany_ok [of eng q ?b' c u c1] Pair Inr Cons.prems(2,3)
        have log1: "pg_log (pg_commit c1) = pg_log c @ map (ExecParams q) ?b'"
          by (simp add: pg_commit_after_ok)
        obtain j where "pg_log c' = pg_log (pg_commit c1)
            @ map (ExecParams q) (take (100 * j) ([] @ map process_row rows))"
          using Cons.IH [OF rest] by auto
        with log1 len have "pg_log c' = pg_log c
            @ map (ExecParams q) (take (100 * Suc j) (?b' @ map process_row rows))"
          by simp
        then show ?thesis by (intro exI [of _ "Suc j"]) simp
      qed
    qed
  next
    case False
    with Cons.prems(1) have rest: "fallback_loop eng q rows ?b' (n + 1) c = (Inl e, c')"
      by (simp add: Let_def)
    from False have "length ?b' < 100" by simp
    from Cons.IH [OF rest Cons.prems(2,3) this] show ?thesis by simp
  qed
qed

text \<open>When the server accepts every insert, the loop returns normally.\<close>

lemma fallback_loop_accepted:
  assumes acc: "\<forall>d p. \<exists>r d'. eng d (ExecParams q p) = Inr (r, d')"
  shows "pg_status c \<noteq> TxFailed \<Longrightarrow> \<exists>c'. fallback_loop eng q rows b n c = (Inr (n + length rows), c')"
proof (induction rows arbitrary: b n c)
  case Nil
  then show ?case
    using executemany_accepted [OF acc, of c b] by auto
next
  case (Cons row rows)
  show ?case
  proof (cases "100 \<le> length (b @ [process_row row])")
    case True
    obtain c1 where "executemany eng q (b @ [process_row row]) c = (Inr (), c1)"
      using executemany_accepted [OF acc Cons.prems] by blast
    with True Cons.IH [of "pg_commit c1" "[]" "n + 1"] show ?thesis
      by (simp add: Let_def)
  next
    case False
    with Cons.IH [OF Cons.prems, of "b @ [process_row row]" "n + 1"] show ?thesis
      by (simp add: Let_def)
  qed
qed

lemma bytea_escape_in_plain:
  "backslash \<notin> set s \<Longrightarrow> bytea_escape_in s = Some (map (\<lambda>ch. of_nat (of_char ch)) s)"
  by (induction s) auto

lemma backslash_not_hex: "backslash \<notin> set (bytes_hex bs)"
  using bytes_hex_chars [of bs] by (auto simp: backslash_def hex_digits_def)

lemma import_fallback_cases:
  "fs_files fsys f = Some (header # rows) \<Longrightarrow>
   import_fallback eng fsys t f c =
     (case fallback_loop eng (insert_statement t header) rows [] 0 c of
        (Inl _, c') \<Rightarrow> (False, pg_rollback c')
      | (Inr _, c') \<Rightarrow> (True, c'))"
  by (simp add: import_fallback_def)

lemma import_fallback_ok_log:
  assumes "import_fallback eng fsys table_name f (pg_rollback c) = (True, c')"
    and "fs_files fsys f = Some (header # rows)"
  shows "pg_log c' = pg_log c
           @ map (\<lambda>r. ExecParams (insert_statement table_name header) (process_row r)) rows"
proof -
  obtain n where loop: "fallback_loop eng (insert_statement table_name header) rows [] 0 (pg_rollback c)
      = (Inr n, c')"
    using assms by (auto simp: import_fallback_cases split: prod.splits sum.splits)
  from fallback_loop_ok [OF loop] show ?thesis by simp
qed

lemma import_fallback_accepted:
  assumes "\<forall>d p. \<exists>r d'. eng d (ExecParams (insert_statement table_name header) p) = Inr (r, d')"
    and "fs_files fsys f = Some (header # rows)"
  shows "\<exists>c'. import_fallback eng fsys table_name f (pg_rollback c) = (True, c')"
proof -
  obtain c' where "fallback_loop eng (insert_statement table_name header) rows [] 0 (pg_rollback c)
      = (Inr (0 + length rows), c')"
    using fallback_loop_accepted [OF assms(1), of "pg_rollback c" rows "[]" 0] by auto
  then show ?thesis using assms(2) by (simp add: import_fallback_cases)
qed

lemma executemany_reachable:
  "executemany eng q ps c = (r, c') \<Longrightarrow> pg_reachable eng d0 c \<Longrightarrow> pg_reachable eng d0 c'"
proof (induction ps arbitrary: c)
  case Nil
  then show ?case by simp
next
  case (Cons p ps)
  obtain r1 c1 where e: "pg_execute eng (ExecParams q p) c = (r1, c1)" by fastforce
  then have "pg_reachable eng d0 c1" using Cons.prems(2) by (rule pg_reachable_execute_eq [rotated])
  then show ?case using Cons e by (cases r1) auto
qed

lemma fallback_loop_reachable:
  "fallback_loop eng q rows b n c = (r, c') \<Longrightarrow> pg_reachable eng d0 c \<Longrightarrow> pg_reachable eng d0 c'"
proof (induction eng q rows b n c arbitrary: r rule: fallback_loop.induct)
  case (1 eng q batch count c)
  then show ?case
    by (auto split: if_splits prod.splits sum.splits intro: pg_reachable_commit
        dest: executemany_reachable)
next
  case (2 eng q row rows batch count c)
  show ?case
  proof (cases "100 \<le> length (batch @ [process_row row])")
    case True
    obtain r1 c1 where e: "executemany eng q (batch @ [process_row row]) c = (r1, c1)" by fastforce
    have c1: "pg_reachable eng d0 c1" using executemany_reachable [OF e "2.prems"(2)] .
    show ?thesis
    proof (cases r1)
      case (Inl e')
      then show ?thesis using "2.prems"(1) True e c1 by (simp add: Let_def)
    next
      case (Inr u)
      then have "fallback_loop eng q rows [] (count + 1) (pg_commit c1) = (r, c')"
        using "2.prems"(1) True e by (simp add: Let_def)
      moreover have "pg_reachable eng d0 (pg_commit c1)" using c1 by (rule pg_reachable_commit)
      ultimately show ?thesis
        using "2.IH"(1) [OF refl refl True e [unfolded Inr, symmetric] refl] by blast
    qed
  next
    case False
    then show ?thesis using "2.IH"(2) "2.prems" by (simp add: Let_def)
  qed
qed

lemma import_fallback_reachable [conn_reachable]:
  "pg_reachable eng d0 c \<Longrightarrow> pg_reachable eng d0 (snd (import_fallback eng fsys t f c))"
  by (auto intro: pg_reachable_rollback dest: fallback_loop_reachable simp: import_fallback_def
      split: option.splits list.splits prod.splits sum.splits)

lemma import_table_data_reachable [conn_reachable]:
  "pg_reachable eng d0 c \<Longrightarrow> pg_reachable eng d0 (snd (import_table_data eng fsys t f c))"
  by (auto intro!: import_fallback_reachable pg_reachable_rollback simp: import_table_data_def
      split: option.splits list.splits prod.splits sum.splits if_splits)
     (blast intro: pg_reachable_execute_eq pg_reachable_commit)+

section \<open>Properties\<close>

text \<open>
  C1. The row-by-row fallback loses no data: when it reports success, the
  statements committed since the rollback are exactly one parameterised
  \<open>INSERT\<close> per data record of the file, in file order, with every empty field
  sent as \<open>NULL\<close>.
\<close>

theorem import_fallback_no_loss:
  assumes "import_fallback eng fsys table_name f (pg_rollback c) = (True, c')"
    and "fs_files fsys f = Some (header # rows)"
  shows "pg_log c' = pg_log c
           @ map (\<lambda>r. ExecParams (insert_statement table_name header) (process_row r)) rows"
  using import_fallback_ok_log [OF assms] .

theorem import_fallback_no_loss_witness:
  "import_fallback accept_engine one_table_fs ''t'' ''out/t.csv'' (pg_rollback (pg_connect 0))
     = (True, snd (import_fallback accept_engine one_table_fs ''t'' ''out/t.csv'' (pg_rollback (pg_connect 0))))
   \<and> fs_files one_table_fs ''out/t.csv'' = Some ([''id''] # [[''1''], [[]]])
   \<and> pg_log (snd (import_fallback accept_engine one_table_fs ''t'' ''out/t.csv'' (pg_rollback (pg_connect 0))))
     = [ExecParams (insert_statement ''t'' [''id'']) [Some ''1''],
        ExecParams (insert_statement ''t'' [''id'']) [None]]"
proof -
  have h1: "import_fallback accept_engine one_table_fs ''t'' ''out/t.csv'' (pg_rollback (pg_connect (0::nat)))
     = (True, snd (import_fallback accept_engine one_table_fs ''t'' ''out/t.csv'' (pg_rollback (pg_connect 0))))"
    by (simp add: import_fallback_def one_table_fs_def accept_engine_def pg_execute_def
        pg_rollback_def pg_connect_def pg_commit_def Let_def)
  have h2: "fs_files one_table_fs ''out/t.csv'' = Some ([''id''] # [[''1''], [[]]])"
    by (simp add: one_table_fs_def)
  show ?thesis
    using h1 h2 import_fallback_no_loss [OF h1 h2]
    by (simp add: pg_connect_def pg_rollback_def process_row_def)
qed

text \<open>
  C3. When the fallback fails part-way, what it has committed is a prefix of
  the file made of whole batches of 100 records: the rows of the failing
  batch and after it are not in the table, and the rows before it are.
\<close>

theorem import_fallback_whole_batches:
  assumes "import_fallback eng fsys table_name f (pg_rollback c) = (False, c')"
    and "fs_files fsys f = Some (header # rows)"
  shows "\<exists>j. pg_log c' = pg_log c
           @ map (\<lambda>r. ExecParams (insert_statement table_name header) (process_row r))
                 (take (100 * j) rows)"
proof -
  obtain e c1 where loop: "fallback_loop eng (insert_statement table_name header) rows [] 0 (pg_rollback c)
      = (Inl e, c1)" and c': "c' = pg_rollback c1"
    using assms by (auto simp: import_fallback_cases split: prod.splits sum.splits)
  from fallback_loop_err [OF loop] c' show ?thesis by (simp add: take_map o_def)
qed

theorem import_fallback_whole_batches_witness:
  "import_fallback reject_inserts_engine one_table_fs ''t'' ''out/t.csv'' (pg_rollback (pg_connect 0))
     = (False, pg_rollback (pg_connect 0))
   \<and> fs_files one_table_fs ''out/t.csv'' = Some ([''id''] # [[''1''], [[]]])
   \<and> pg_log (pg_rollback (pg_connect (0::nat))) = []"
proof -
  have h1: "import_fallback reject_inserts_engine one_table_fs ''t'' ''out/t.csv'' (pg_rollback (pg_connect (0::nat)))
     = (False, pg_rollback (pg_connect 0))"
    by (simp add: import_fallback_def one_table_fs_def reject_inserts_engine_def pg_execute_def
        pg_rollback_def pg_connect_def Let_def)
  have h2: "fs_files one_table_fs ''out/t.csv'' = Some ([''id''] # [[''1''], [[]]])"
    by (simp add: one_table_fs_def)
  from import_fallback_whole_batches [OF h1 h2] h1 h2 show ?thesis
    by (simp add: pg_connect_def pg_rollback_def)
qed

text \<open>
  C22. The fallback terminates and succeeds whenever the server accepts every
  parameterised insert: it then reports success.
\<close>

theorem import_fallback_completes:
  assumes "\<forall>d p. \<exists>r d'. eng d (ExecParams (insert_statement table_name header) p) = Inr (r, d')"
    and "fs_files fsys f = Some (header # rows)"
  shows "\<exists>c'. import_fallback eng fsys table_name f (pg_rollback c) = (True, c')"
  using import_fallback_accepted [OF assms] .

theorem import_fallback_completes_witness:
  "(\<forall>d p. \<exists>r d'. accept_engine d (ExecParams (insert_statement ''t'' [''id'']) p) = Inr (r, d'))
   \<and> fs_files one_table_fs ''out/t.csv'' = Some ([''id''] # [[''1''], [[]]])
   \<and> (\<exists>c'. import_fallback accept_engine one_table_fs ''t'' ''out/t.csv'' (pg_rollback (pg_connect 0)) = (True, c'))"
proof -
  have h1: "\<forall>d p. \<exists>r d'. accept_engine d (ExecParams (insert_statement ''t'' [''id'']) p) = Inr (r, d')"
    by (simp add: accept_engine_def)
  have h2: "fs_files one_table_fs ''out/t.csv'' = Some ([''id''] # [[''1''], [[]]])"
    by (simp add: one_table_fs_def)
  show ?thesis using h1 h2 import_fallback_completes [OF h1 h2] by blast
qed

text \<open>
  C4. Export writes the header and then every row of the table, in cursor
  order, each value cleaned and turned into its CSV field, whatever the number
  of 1000-row batches; the file is \<open><output_dir>/<table>.csv\<close>.
\<close>

theorem export_table_data_file:
  assumes "export_table_data src fsys table_name output_dir = Inr (Some path, fs')"
    and "src_select_all src table_name = Inr (columns, cursor)"
  shows "path = py_path_join output_dir (table_name @ ''.csv'')
         \<and> fs_files fs' path = Some (columns # map (\<lambda>row. map csv_field (clean_row row)) cursor)"
  using assms by (auto simp: export_table_data_def export_rows_eq Let_def split: if_splits)

theorem export_table_data_file_witness:
  "export_table_data one_table_src one_table_fs ''t'' ''out''
     = Inr (Some ''out/t.csv'', snd (projr (export_table_data one_table_src one_table_fs ''t'' ''out'')))
   \<and> src_select_all one_table_src ''t'' = Inr ([''id'', ''data''], [[VInt 1, VBytes [255, 0]], [VInt 2, VNull]])
   \<and> fs_files (snd (projr (export_table_data one_table_src one_table_fs ''t'' ''out''))) ''out/t.csv''
     = Some [[''id'', ''data''], [''1'', ''ff00''], [''2'', []]]"
proof -
  have h1: "export_table_data one_table_src one_table_fs ''t'' ''out''
     = Inr (Some ''out/t.csv'', snd (projr (export_table_data one_table_src one_table_fs ''t'' ''out'')))"
    by (simp add: export_table_data_def one_table_src_def one_table_fs_def py_path_join_def Let_def)
  have h2: "src_select_all one_table_src ''t'' = Inr ([''id'', ''data''], [[VInt 1, VBytes [255, 0]], [VInt 2, VNull]])"
    by (simp add: one_table_src_def)
  have "fs_files (snd (projr (export_table_data one_table_src one_table_fs ''t'' ''out''))) ''out/t.csv''
      = Some ([''id'', ''data''] # map (\<lambda>row. map csv_field (clean_row row)) [[VInt 1, VBytes [255, 0]], [VInt 2, VNull]])"
    using export_table_data_file [OF h1 h2] by (simp add: py_path_join_def)
  also have "\<dots> = Some [[''id'', ''data''], [''1'', ''ff00''], [''2'', []]]"
    by (simp add: clean_row_def clean_value_def bytes_hex_def byte_hex_def hex_digit_def hex_digits_def
        py_str_int_def nat_str.simps py_eval)
  finally show ?thesis using h1 h2 by simp
qed

text \<open>
  \<open>bytes.hex()\<close> splits every byte into two nibbles below 16, so both
  index the 16-digit table, and the two digits carry the byte exactly:
  \<open>16 * high + low\<close> is its value.
\<close>

theorem byte_hex_nibble_bounds:
  "unat (drop_bit 4 b) < length hex_digits \<and> unat (b AND 15) < length hex_digits
   \<and> 16 * unat (drop_bit 4 b) + unat (b AND 15) = unat (b :: byte)"
  using high_nibble_bound [of b] low_nibble_bound [of b]
  by (simp add: hex_digits_def high_nibble_div low_nibble_mod)

text \<open>
  The hex text of a binary value is lossless and reversible: decoding it
  gives the bytes back; it has two lowercase hex digits per byte.
\<close>

theorem bytes_hex_roundtrip:
  "hex_decode (bytes_hex bs) = Some bs \<and> length (bytes_hex bs) = 2 * length bs
   \<and> set (bytes_hex bs) \<subseteq> set hex_digits"
  by (simp add: hex_decode_bytes_hex length_bytes_hex bytes_hex_chars)

text \<open>
  C21. PostgreSQL does not restore an exported binary value: the field the
  export writes for it (line 181) is the hex text with no \<open>\x\<close> prefix, so
  \<open>bytea\<close> input reads it in escape format and stores the ASCII codes of the
  hex digits, twice as many bytes as the original.
\<close>

theorem bytea_hex_not_restored:
  "bs \<noteq> [] \<longrightarrow>
     pg_bytea_in (csv_field (clean_value (VBytes bs)))
       = Some (map (\<lambda>ch. of_nat (of_char ch)) (bytes_hex bs))
     \<and> pg_bytea_in (csv_field (clean_value (VBytes bs))) \<noteq> Some bs"
proof
  assume ne: "bs \<noteq> []"
  have pre: "take 2 (bytes_hex bs) \<noteq> [backslash, CHR ''x'']"
  proof
    assume "take 2 (bytes_hex bs) = [backslash, CHR ''x'']"
    then have "backslash \<in> set (bytes_hex bs)" by (metis in_set_takeD list.set_intros(1))
    with backslash_not_hex show False by blast
  qed
  have eq: "pg_bytea_in (csv_field (clean_value (VBytes bs)))
      = Some (map (\<lambda>ch. of_nat (of_char ch)) (bytes_hex bs))"
    using pre backslash_not_hex by (simp add: clean_value_def pg_bytea_in_def bytea_escape_in_plain)
  moreover have "length (map (\<lambda>ch. of_nat (of_char ch) :: byte) (bytes_hex bs)) \<noteq> length bs"
    using ne by (simp add: length_bytes_hex)
  ultimately show "pg_bytea_in (csv_field (clean_value (VBytes bs)))
       = Some (map (\<lambda>ch. of_nat (of_char ch)) (bytes_hex bs))
     \<and> pg_bytea_in (csv_field (clean_value (VBytes bs))) \<noteq> Some bs"
    by (metis option.inject)
qed

theorem bytea_hex_not_restored_witness:
  "[255, 0 :: byte] \<noteq> [] \<and> csv_field (clean_value (VBytes [255, 0])) = ''ff00''
   \<and> pg_bytea_in (csv_field (clean_value (VBytes [255, 0]))) = Some [102, 102, 48, 48]"
proof -
  have h: "[255, 0 :: byte] \<noteq> []" by simp
  have hex: "csv_field (clean_value (VBytes [255, 0])) = ''ff00''"
    by (simp add: clean_value_def bytes_hex_def byte_hex_def hex_digit_def hex_digits_def)
  have "pg_bytea_in (csv_field (clean_value (VBytes [255, 0])))
      = Some (map (\<lambda>ch. of_nat (of_char ch)) (bytes_hex [255, 0]))"
    using bytea_hex_not_restored [of "[255, 0]"] h by blast
  then show ?thesis using h hex by (simp add: clean_value_def)
qed

text \<open>
  The specification's transfer example through export and the fallback:
  \<open>NULL\<close> stays \<open>NULL\<close>, the binary value \<open>0xFF00\<close> becomes the text
  \<open>ff00\<close>, an integer its decimal text; an empty string cannot be told from
  \<open>NULL\<close> and arrives as \<open>NULL\<close>.
\<close>

theorem transfer_example:
  "process_row (map csv_field (clean_row [VNull, VBytes [255, 0], VInt 5, VStr []]))
   = [None, Some ''ff00'', Some ''5'', None]"
  by (simp add: process_row_def clean_row_def clean_value_def bytes_hex_def byte_hex_def
      hex_digit_def hex_digits_def py_str_int_def nat_str.simps py_eval)

text \<open>
  C2. A successful import commits, after what was committed before, either
  the \<open>COPY\<close> of the file, or one insert per record, or both: the last case
  when \<open>COPY\<close> was committed and the row count failed afterwards, so that the
  records are loaded twice.
\<close>

theorem import_table_data_log:
  assumes "import_table_data eng fsys table_name f c = (True, c')"
    and "pg_pending c = []"
    and "fs_files fsys f = Some (header # rows)"
  shows "pg_log c' = pg_log c @ [CopyFrom (copy_statement table_name header) (header # rows)]
    \<or> pg_log c' = pg_log c
         @ map (\<lambda>r. ExecParams (insert_statement table_name header) (process_row r)) rows
    \<or> pg_log c' = pg_log c @ [CopyFrom (copy_statement table_name header) (header # rows)]
         @ map (\<lambda>r. ExecParams (insert_statement table_name header) (process_row r)) rows"
proof (cases "pg_execute eng (CopyFrom (copy_statement table_name header) (header # rows)) c")
  case (Pair r1 c1)
  show ?thesis
  proof (cases r1)
    case (Inl e)
    then have "import_fallback eng fsys table_name f (pg_rollback c1) = (True, c')"
      using assms(1,3) Pair by (simp add: import_table_data_def)
    moreover have "pg_log c1 = pg_log c" using pg_execute_err Pair Inl by blast
    ultimately show ?thesis using import_fallback_ok_log assms(3) by metis
  next
    case (Inr x)
    have c1: "pg_status c1 \<noteq> TxFailed \<and> pg_pending c1 = [CopyFrom (copy_statement table_name header) (header # rows)]
       \<and> pg_log c1 = pg_log c"
      using pg_execute_ok [of eng _ c x c1] Pair Inr assms(2) by auto
    then have lc: "pg_log (pg_commit c1) = pg_log c @ [CopyFrom (copy_statement table_name header) (header # rows)]"
      by (simp add: pg_commit_log)
    obtain r2 c2 where p2: "pg_execute eng (Exec (count_statement table_name)) (pg_commit c1) = (r2, c2)"
      by fastforce
    have l2: "pg_log c2 = pg_log (pg_commit c1)"
      using pg_execute_log [of eng "Exec (count_statement table_name)" "pg_commit c1"] by (simp add: p2)
    show ?thesis
    proof (cases "\<exists>res. r2 = Inr res \<and> \<not> (res = [] \<or> hd res = [])")
      case True
      then have "c' = c2" using assms(1,3) Pair Inr p2 by (auto simp: import_table_data_def)
      then show ?thesis using l2 lc by simp
    next
      case False
      then have "import_fallback eng fsys table_name f (pg_rollback c2) = (True, c')"
        using assms(1,3) Pair Inr p2 by (auto simp: import_table_data_def split: sum.splits if_splits)
      then have "pg_log c' = pg_log c2
          @ map (\<lambda>r. ExecParams (insert_statement table_name header) (process_row r)) rows"
        using import_fallback_ok_log assms(3) by blast
      then show ?thesis using l2 lc by simp
    qed
  qed
qed
theorem import_table_data_log_witness:
  "import_table_data accept_engine one_table_fs ''t'' ''out/t.csv'' (pg_connect 0)
     = (True, snd (import_table_data accept_engine one_table_fs ''t'' ''out/t.csv'' (pg_connect 0)))
   \<and> pg_pending (pg_connect (0::nat)) = []
   \<and> fs_files one_table_fs ''out/t.csv'' = Some ([''id''] # [[''1''], [[]]])
   \<and> pg_log (snd (import_table_data accept_engine one_table_fs ''t'' ''out/t.csv'' (pg_connect 0)))
     = [CopyFrom (copy_statement ''t'' [''id'']) [[''id''], [''1''], [[]]]]"
proof -
  have h1: "import_table_data accept_engine one_table_fs ''t'' ''out/t.csv'' (pg_connect (0::nat))
     = (True, snd (import_table_data accept_engine one_table_fs ''t'' ''out/t.csv'' (pg_connect 0)))"
    by (simp add: import_table_data_def one_table_fs_def accept_engine_def pg_execute_def
        pg_connect_def pg_commit_def)
  have h2: "pg_pending (pg_connect (0::nat)) = []" by (simp add: pg_connect_def)
  have h3: "fs_files one_table_fs ''out/t.csv'' = Some ([''id''] # [[''1''], [[]]])"
    by (simp add: one_table_fs_def)
  have l: "pg_log (snd (import_table_data accept_engine one_table_fs ''t'' ''out/t.csv'' (pg_connect (0::nat))))
     = [CopyFrom (copy_statement ''t'' [''id'']) [[''id''], [''1''], [[]]]]"
    by (simp add: import_table_data_def one_table_fs_def accept_engine_def pg_execute_def
        pg_connect_def pg_commit_def)
  from import_table_data_log [OF h1 h2 h3] l h1 h2 h3 show ?thesis by simp
qed

text \<open>
  C30. Duplicate load: for any file, server and idle connection, when the
  server takes \<open>COPY\<close> and its commit but the row count that follows fails,
  and it accepts the inserts, \<open>import_table_data\<close> reports success having
  committed the \<open>COPY\<close> and then one \<open>INSERT\<close> per record again: every
  record is loaded twice.
\<close>

theorem import_table_data_duplicate_load:
  assumes hfile: "fs_files fsys f = Some (header # rows)" and hidle: "pg_pending c = []"
    and hcopy: "pg_execute eng (CopyFrom (copy_statement t header) (header # rows)) c = (Inr x, c1)"
    and hcount: "pg_execute eng (Exec (count_statement t)) (pg_commit c1) = (Inl e, c2)"
    and hacc: "\<forall>d p. \<exists>r d'. eng d (ExecParams (insert_statement t header) p) = Inr (r, d')"
  shows "\<exists>c'. import_table_data eng fsys t f c = (True, c')
           \<and> pg_log c' = pg_log c @ [CopyFrom (copy_statement t header) (header # rows)]
                @ map (\<lambda>r. ExecParams (insert_statement t header) (process_row r)) rows"
proof -
  obtain c' where fb: "import_fallback eng fsys t f (pg_rollback c2) = (True, c')"
    using import_fallback_accepted [OF hacc hfile] by blast
  have imp: "import_table_data eng fsys t f c = import_fallback eng fsys t f (pg_rollback c2)"
    using hfile hcopy hcount by (simp add: import_table_data_def)
  have "pg_log c1 = pg_log c \<and> pg_status c1 \<noteq> TxFailed
      \<and> pg_pending c1 = [CopyFrom (copy_statement t header) (header # rows)]"
    using pg_execute_ok [OF hcopy] hidle by simp
  then have "pg_log c2 = pg_log c @ [CopyFrom (copy_statement t header) (header # rows)]"
    using pg_execute_err [OF hcount] by (simp add: pg_commit_log)
  then show ?thesis
    using imp fb import_fallback_ok_log [OF fb hfile] by simp
qed

theorem import_table_data_duplicate_load_witness:
  "\<exists>c'. import_table_data count_fails_engine one_table_fs ''t'' ''out/t.csv'' (pg_connect 0) = (True, c')
     \<and> pg_log c' = [CopyFrom (copy_statement ''t'' [''id'']) [[''id''], [''1''], [[]]]]
          @ map (\<lambda>r. ExecParams (insert_statement ''t'' [''id'']) (process_row r)) [[''1''], [[]]]"
proof -
  have hfile: "fs_files one_table_fs ''out/t.csv'' = Some ([''id''] # [[''1''], [[]]])"
    by (simp add: one_table_fs_def)
  have hidle: "pg_pending (pg_connect (0::nat)) = []" by (simp add: pg_connect_def)
  have hcopy: "pg_execute count_fails_engine (CopyFrom (copy_statement ''t'' [''id'']) ([''id''] # [[''1''], [[]]]))
      (pg_connect 0) = (Inr [], snd (pg_execute count_fails_engine
        (CopyFrom (copy_statement ''t'' [''id'']) ([''id''] # [[''1''], [[]]])) (pg_connect 0)))"
    by (simp add: pg_execute_def count_fails_engine_def pg_connect_def)
  have hcount: "pg_execute count_fails_engine (Exec (count_statement ''t''))
      (pg_commit (snd (pg_execute count_fails_engine
        (CopyFrom (copy_statement ''t'' [''id'']) ([''id''] # [[''1''], [[]]])) (pg_connect 0))))
    = (Inl (DbError ''count''), snd (pg_execute count_fails_engine (Exec (count_statement ''t''))
      (pg_commit (snd (pg_execute count_fails_engine
        (CopyFrom (copy_statement ''t'' [''id'']) ([''id''] # [[''1''], [[]]])) (pg_connect 0))))))"
    by (simp add: pg_execute_def count_fails_engine_def pg_connect_def pg_commit_def)
  have hacc: "\<forall>d p. \<exists>r d'. count_fails_engine d (ExecParams (insert_statement ''t'' [''id'']) p) = Inr (r, d')"
    by (simp add: count_fails_engine_def)
  show ?thesis
    using import_table_data_duplicate_load [OF hfile hidle hcopy hcount hacc] by (simp add: pg_connect_def)
qed

end
