(* ===== verification/Sequences.thy ===== *)
theory Sequences
  imports Target
begin

text \<open>
  The sequence reconciler \<open>reset_sequences\<close> (lines 454--492).  It asks
  PostgreSQL's catalog for the columns of the table whose default starts with
  \<open>nextval\<close>, takes the sequence name from between the first two single
  quotes of the default, and for each such column runs one \<open>setval\<close> and a
  commit.  Any exception ends the function with \<open>False\<close>; there is no
  rollback.  The catalog answers two strings per row (column name and default
  text); any other row is an exception of the loop body.

  To state what the \<open>setval\<close> achieves, the SQL expression it sends is
  evaluated as PostgreSQL evaluates it: \<open>MAX\<close> ignores \<open>NULL\<close>,
  \<open>COALESCE\<close> takes the first non-null argument.  The effect of
  \<open>setval\<close> and \<open>nextval\<close> on a sequence with bounds and increment 1 (the
  sequences of \<open>SERIAL\<close> columns) is modelled from PostgreSQL's
  documentation.
\<close>

section \<open>The statements\<close>

text \<open>A line of a triple-quoted statement indented by \<open>n\<close> spaces.\<close>

definition indented_line :: "nat \<Rightarrow> string \<Rightarrow> string" where
  "indented_line n s = newline # replicate n (CHR '' '') @ s"

definition seq_query :: "string \<Rightarrow> string" where
  "seq_query table_name =
     indented_line 8 ''SELECT column_name, column_default ''
     @ indented_line 8 ''FROM information_schema.columns ''
     @ indented_line 8 (''WHERE table_name = '' @ [squote] @ table_name @ [squote] @ '' '')
     @ indented_line 8 (''AND column_default LIKE '' @ [squote] @ ''nextval%'' @ [squote])
     @ indented_line 8 []"

text \<open>Lines 473--475: the text between the first and the second quote.\<close>

definition sequence_name_of :: "string \<Rightarrow> string option" where
  "sequence_name_of sequence_info =
     (let sequence_parts = py_split_char squote sequence_info
      in if 2 \<le> length sequence_parts then Some (sequence_parts ! 1) else None)"

definition update_seq_sql :: "string \<Rightarrow> string \<Rightarrow> string \<Rightarrow> string" where
  "update_seq_sql sequence_name col_name table_name =
     indented_line 16 (''SELECT setval('' @ [squote] @ sequence_name @ [squote] @ '', '')
     @ indented_line 18 (''(SELECT COALESCE(MAX('' @ quote_ident col_name @ ''), 1) FROM ''
                         @ quote_ident table_name @ ''), '')
     @ indented_line 18 (''(SELECT MAX('' @ quote_ident col_name @ '') IS NOT NULL FROM ''
                         @ quote_ident table_name @ ''))'')
     @ indented_line 16 []"

section \<open>The function\<close>

text \<open>The loop of lines 467--486 over the fetched catalog rows.\<close>

fun reset_rows ::
  "'db engine \<Rightarrow> string \<Rightarrow> sqlval list list \<Rightarrow> 'db pg_conn \<Rightarrow> (exn + unit) \<times> 'db pg_conn" where
  "reset_rows eng table_name [] c = (Inr (), c)"
| "reset_rows eng table_name (row # rows) c =
     (case row of
        [VStr col_name, VStr sequence_info] \<Rightarrow>
          (case sequence_name_of sequence_info of
             None \<Rightarrow> reset_rows eng table_name rows c
           | Some sequence_name \<Rightarrow>
               (case pg_execute eng (Exec (update_seq_sql sequence_name col_name table_name)) c of
                  (Inl e, c') \<Rightarrow> (Inl e, c')
                | (Inr _, c') \<Rightarrow> reset_rows eng table_name rows (pg_commit c')))
      | _ \<Rightarrow> (Inl (TypeError ''catalog row''), c))"

definition reset_sequences :: "'db engine \<Rightarrow> string \<Rightarrow> 'db pg_conn \<Rightarrow> bool \<times> 'db pg_conn" where
  "reset_sequences eng table_name c =
     (case pg_execute eng (Exec (seq_query table_name)) c of
        (Inl _, c1) \<Rightarrow> (False, c1)
      | (Inr rows, c1) \<Rightarrow>
          (case reset_rows eng table_name rows c1 of
             (Inl _, c2) \<Rightarrow> (False, c2)
           | (Inr _, c2) \<Rightarrow> (True, c2)))"

text \<open>The catalog answers the query of \<open>reset_sequences\<close> with two strings
  per row.\<close>

definition seq_row_ok :: "sqlval list \<Rightarrow> bool" where
  "seq_row_ok row = (case row of [VStr _, VStr _] \<Rightarrow> True | _ \<Rightarrow> False)"

definition catalog_ok :: "'db engine \<Rightarrow> string \<Rightarrow> bool" where
  "catalog_ok eng table_name \<longleftrightarrow>
     (\<forall>d. case eng d (Exec (seq_query table_name)) of
            Inl _ \<Rightarrow> True
          | Inr (rows, _) \<Rightarrow> list_all seq_row_ok rows)"

section \<open>What the setval statement sets\<close>

text \<open>\<open>MAX\<close> over a column: \<open>NULL\<close> when no row has a value.\<close>

definition sql_max :: "int option list \<Rightarrow> int option" where
  "sql_max vals =
     (case [v. Some v \<leftarrow> vals] of [] \<Rightarrow> None | v # vs \<Rightarrow> Some (fold max vs v))"

text \<open>The two arguments lines 480--481 compute: \<open>COALESCE(MAX(c), 1)\<close> and
  \<open>MAX(c) IS NOT NULL\<close>.\<close>

definition setval_args :: "int option list \<Rightarrow> int \<times> bool" where
  "setval_args vals =
     (case sql_max vals of None \<Rightarrow> (1, False) | Some m \<Rightarrow> (m, True))"

record sequence =
  seq_min :: int
  seq_max :: int
  seq_last :: int
  seq_called :: bool

definition pg_setval :: "sequence \<Rightarrow> int \<times> bool \<Rightarrow> exn + sequence" where
  "pg_setval s a =
     (case a of (v, called) \<Rightarrow>
        if v < seq_min s \<or> seq_max s < v then Inl (DbError ''setval: value out of bounds'')
        else Inr (s\<lparr>seq_last := v, seq_called := called\<rparr>))"

definition pg_nextval :: "sequence \<Rightarrow> exn + (int \<times> sequence)" where
  "pg_nextval s =
     (let v = (if seq_called s then seq_last s + 1 else seq_last s)
      in if seq_max s < v then Inl (DbError ''nextval: reached maximum value'')
         else Inr (v, s\<lparr>seq_last := v, seq_called := True\<rparr>))"

section \<open>Fixtures for the witnesses\<close>

text \<open>A server whose catalog lists one \<open>SERIAL\<close> column of table \<open>t\<close> and
  which refuses every other plain statement, as when the user lacks the
  \<open>UPDATE\<close> privilege on the sequence.\<close>

definition serial_default :: string where
  "serial_default = ''nextval('' @ [squote] @ ''t_id_seq'' @ [squote] @ ''::regclass)''"

definition setval_refused_engine :: "nat engine" where
  "setval_refused_engine d s =
     (case s of
        Exec q \<Rightarrow> (if q = seq_query ''t'' then Inr ([[VStr ''id'', VStr serial_default]], d)
                  else Inl (DbError ''permission denied for sequence t_id_seq''))
      | _ \<Rightarrow> Inr ([], d))"

definition serial_sequence :: sequence where
  "serial_sequence = \<lparr>seq_min = 1, seq_max = 2147483647, seq_last = 1, seq_called = False\<rparr>"

section \<open>Lemmas\<close>

lemma squote_not_in_nextval [simp]:
  "squote \<notin> set ''nextval(''" "squote \<notin> set ''::regclass)''"
  by (simp_all add: squote_def)

lemma split_nextval:
  assumes "squote \<notin> set seq"
  shows "py_split_char squote (''nextval('' @ [squote] @ seq @ [squote] @ ''::regclass)'')
         = [''nextval('', seq, ''::regclass)'']"
proof -
  have e: "[squote] @ x = squote # x" for x by simp
  show ?thesis
    unfolding e py_split_char_append_sep [OF squote_not_in_nextval(1)]
      py_split_char_append_sep [OF assms] py_split_char_no_sep [OF squote_not_in_nextval(2)] ..
qed

lemma sequence_name_of_serial_default: "sequence_name_of serial_default = Some ''t_id_seq''"
proof -
  have h: "squote \<notin> set ''t_id_seq''" by (simp add: squote_def)
  show ?thesis unfolding serial_default_def sequence_name_of_def split_nextval [OF h] by simp
qed

lemma sql_max_Max:
  "sql_max vals =
     (if \<exists>x. Some x \<in> set vals then Some (Max {x. Some x \<in> set vals}) else None)"
proof -
  have set_eq: "set [v. Some v \<leftarrow> vals] = {x. Some x \<in> set vals}"
    by (induction vals) (auto split: option.splits)
  show ?thesis
  proof (cases "[v. Some v \<leftarrow> vals]")
    case Nil
    then have "\<not> (\<exists>x. Some x \<in> set vals)" using set_eq by auto
    moreover have "sql_max vals = None" unfolding sql_max_def by (simp only: Nil list.case)
    ultimately show ?thesis by simp
  next
    case (Cons v vs)
    then have "\<exists>x. Some x \<in> set vals" using set_eq by auto
    moreover have "fold max vs v = Max {x. Some x \<in> set vals}"
    proof -
      have "fold max vs v = Max (set (v # vs))" by (rule Max.set_eq_fold [symmetric])
      also have "set (v # vs) = {x. Some x \<in> set vals}" using Cons set_eq by simp
      finally show ?thesis .
    qed
    moreover have "sql_max vals = Some (fold max vs v)"
      unfolding sql_max_def by (simp only: Cons list.case)
    ultimately show ?thesis by simp
  qed
qed

lemma finite_values: "finite {x. Some x \<in> set (vals :: int option list)}"
proof -
  have "{x. Some x \<in> set vals} \<subseteq> the ` set vals" by force
  then show ?thesis by (rule finite_subset) simp
qed

lemma seq_row_okD: "seq_row_ok row \<Longrightarrow> \<exists>a b. row = [VStr a, VStr b]"
  by (auto simp: seq_row_ok_def split: list.split_asm sqlval.split_asm)

lemma reset_rows_err:
  "list_all seq_row_ok rows \<Longrightarrow> reset_rows eng table_name rows c = (Inl e, c')
   \<Longrightarrow> pg_status c' = TxFailed"
proof (induction rows arbitrary: c)
  case Nil
  then show ?case by simp
next
  case (Cons row rows)
  obtain col info where row: "row = [VStr col, VStr info]"
    using seq_row_okD [of row] Cons.prems(1) by auto
  have ok: "list_all seq_row_ok rows" using Cons.prems(1) by simp
  show ?case
  proof (cases "sequence_name_of info")
    case None
    then have "reset_rows eng table_name rows c = (Inl e, c')" using Cons.prems(2) row by simp
    then show ?thesis using Cons.IH ok by blast
  next
    case (Some n)
    obtain r c1 where ex: "pg_execute eng (Exec (update_seq_sql n col table_name)) c = (r, c1)"
      by fastforce
    show ?thesis
    proof (cases r)
      case (Inl e')
      then have "c' = c1" using Cons.prems(2) row Some ex by simp
      then show ?thesis using Inl ex pg_execute_err [of eng _ c e' c1] by simp
    next
      case (Inr x)
      then have "reset_rows eng table_name rows (pg_commit c1) = (Inl e, c')"
        using Cons.prems(2) row Some ex by simp
      then show ?thesis using Cons.IH ok by blast
    qed
  qed
qed

lemma reset_rows_reachable:
  "reset_rows eng t rows c = (r, c') \<Longrightarrow> pg_reachable eng d0 c \<Longrightarrow> pg_reachable eng d0 c'"
proof (induction rows arbitrary: c)
  case Nil
  then show ?case by simp
next
  case (Cons row rows)
  show ?case
  proof (cases "\<exists>col info n. row = [VStr col, VStr info] \<and> sequence_name_of info = Some n")
    case True
    then obtain col info n where row: "row = [VStr col, VStr info]" and n: "sequence_name_of info = Some n"
      by blast
    obtain r1 c1 where e: "pg_execute eng (Exec (update_seq_sql n col t)) c = (r1, c1)" by fastforce
    have c1: "pg_reachable eng d0 c1" using pg_reachable_execute_eq [OF Cons.prems(2) e] .
    show ?thesis
    proof (cases r1)
      case (Inl x)
      then show ?thesis using Cons.prems(1) row n e c1 by simp
    next
      case (Inr x)
      then have "reset_rows eng t rows (pg_commit c1) = (r, c')" using Cons.prems(1) row n e by simp
      then show ?thesis using Cons.IH pg_reachable_commit [OF c1] by blast
    qed
  next
    case False
    then have "reset_rows eng t rows c = (r, c') \<or> c' = c"
      using Cons.prems(1)
      by (auto split: list.splits sqlval.splits option.splits)
    then show ?thesis using Cons.IH Cons.prems(2) by blast
  qed
qed

lemma reset_sequences_reachable [conn_reachable]:
  "pg_reachable eng d0 c \<Longrightarrow> pg_reachable eng d0 (snd (reset_sequences eng t c))"
  by (auto simp: reset_sequences_def split: prod.splits sum.splits)
     (blast intro: pg_reachable_execute_eq dest: reset_rows_reachable)+

lemma reset_sequences_failed_status:
  assumes "catalog_ok eng table_name" and "reset_sequences eng table_name c = (False, c')"
  shows "pg_status c' = TxFailed"
proof -
  obtain r c1 where ex: "pg_execute eng (Exec (seq_query table_name)) c = (r, c1)" by fastforce
  show ?thesis
  proof (cases r)
    case (Inl e)
    then show ?thesis using assms(2) ex pg_execute_err [of eng _ c e c1]
      by (simp add: reset_sequences_def)
  next
    case (Inr rows)
    then obtain d where "eng (pg_db c) (Exec (seq_query table_name)) = Inr (rows, d)"
      using ex by (auto simp: pg_execute_def split: if_splits sum.splits)
    then have ok: "list_all seq_row_ok rows"
      using assms(1) unfolding catalog_ok_def by (metis (mono_tags, lifting) old.prod.case sum.case(2))
    obtain e where "reset_rows eng table_name rows c1 = (Inl e, c')"
      using assms(2) ex Inr by (auto simp: reset_sequences_def split: prod.splits sum.splits)
    then show ?thesis using reset_rows_err [OF ok] by blast
  qed
qed

lemma catalog_ok_setval_refused: "catalog_ok setval_refused_engine ''t''"
  by (simp add: catalog_ok_def setval_refused_engine_def seq_row_ok_def)

lemma reset_sequences_setval_refused:
  "fst (reset_sequences setval_refused_engine ''t'' (pg_connect 0)) = False"
proof -
  have f1: "setval_refused_engine 0 (Exec (seq_query ''t'')) = Inr ([[VStr ''id'', VStr serial_default]], 0)"
    by (simp add: setval_refused_engine_def)
  have ne: "update_seq_sql ''t_id_seq'' ''id'' ''t'' \<noteq> seq_query ''t''"
    by (simp add: update_seq_sql_def seq_query_def indented_line_def numeral_eq_Suc)
  have f2: "setval_refused_engine 0 (Exec (update_seq_sql ''t_id_seq'' ''id'' ''t''))
      = Inl (DbError ''permission denied for sequence t_id_seq'')"
    using ne by (simp add: setval_refused_engine_def)
  show ?thesis
    by (simp add: reset_sequences_def pg_execute_def pg_connect_def f1 f2
        sequence_name_of_serial_default)
qed

section \<open>Properties\<close>

text \<open>
  C28. The sequence name is read back from the default PostgreSQL writes for a
  \<open>SERIAL\<close> column, \<open>nextval('<name>'::regclass)\<close>, whenever the name
  contains no single quote.
\<close>

theorem sequence_name_of_nextval:
  assumes "squote \<notin> set seq"
  shows "sequence_name_of (''nextval('' @ [squote] @ seq @ [squote] @ ''::regclass)'') = Some seq"
  unfolding sequence_name_of_def split_nextval [OF assms] by simp

theorem sequence_name_of_nextval_witness:
  "squote \<notin> set ''t_id_seq'' \<and> sequence_name_of serial_default = Some ''t_id_seq''"
proof -
  have h: "squote \<notin> set ''t_id_seq''" by (simp add: squote_def)
  show ?thesis using h sequence_name_of_nextval [OF h] by (simp add: serial_default_def)
qed

text \<open>
  C7. After the \<open>setval\<close> of \<open>reset_sequences\<close>, the next value the
  sequence generates is one more than the largest value in the column, or 1
  when the column holds no value; it is larger than every value in the column.
\<close>

theorem reset_sequence_next_value:
  assumes "pg_setval s (setval_args vals) = Inr s'" and "pg_nextval s' = Inr (n, s'')"
  shows "n = (if \<exists>x. Some x \<in> set vals then Max {x. Some x \<in> set vals} + 1 else 1)
         \<and> (\<forall>x. Some x \<in> set vals \<longrightarrow> x < n)"
proof (cases "\<exists>x. Some x \<in> set vals")
  case True
  then have "setval_args vals = (Max {x. Some x \<in> set vals}, True)"
    by (simp add: setval_args_def sql_max_Max)
  then have "seq_last s' = Max {x. Some x \<in> set vals} \<and> seq_called s'"
    using assms(1) by (auto simp: pg_setval_def split: if_splits)
  then have n: "n = Max {x. Some x \<in> set vals} + 1"
    using assms(2) by (auto simp: pg_nextval_def Let_def split: if_splits)
  have "\<forall>x. Some x \<in> set vals \<longrightarrow> x < n"
    using n Max_ge [OF finite_values] by fastforce
  then show ?thesis using n True by simp
next
  case False
  then have "setval_args vals = (1, False)" by (simp add: setval_args_def sql_max_Max)
  then have "seq_last s' = 1 \<and> \<not> seq_called s'"
    using assms(1) by (auto simp: pg_setval_def split: if_splits)
  then have "n = 1" using assms(2) by (auto simp: pg_nextval_def Let_def split: if_splits)
  then show ?thesis using False by simp
qed

theorem reset_sequence_next_value_witness:
  "pg_setval serial_sequence (setval_args [Some 3, None, Some 7])
     = Inr (serial_sequence\<lparr>seq_last := 7, seq_called := True\<rparr>)
   \<and> pg_nextval (serial_sequence\<lparr>seq_last := 7, seq_called := True\<rparr>)
     = Inr (8, serial_sequence\<lparr>seq_last := 8, seq_called := True\<rparr>)"
proof -
  have h1: "pg_setval serial_sequence (setval_args [Some 3, None, Some 7])
     = Inr (serial_sequence\<lparr>seq_last := 7, seq_called := True\<rparr>)"
    by (simp add: pg_setval_def setval_args_def sql_max_def serial_sequence_def)
  have h2: "pg_nextval (serial_sequence\<lparr>seq_last := 7, seq_called := True\<rparr>)
     = Inr (8, serial_sequence\<lparr>seq_last := 8, seq_called := True\<rparr>)"
    by (simp add: pg_nextval_def serial_sequence_def)
  from reset_sequence_next_value [OF h1 h2] h1 h2 show ?thesis by simp
qed

text \<open>
  C29. If every value in an auto-increment column is below the sequence's
  minimum (a column holding only 0, which MySQL allows), the \<open>setval\<close> of
  \<open>reset_sequences\<close> is refused by PostgreSQL.
\<close>

theorem setval_below_minimum:
  "\<exists>x. Some x \<in> set vals \<Longrightarrow> Max {x. Some x \<in> set vals} < seq_min s \<Longrightarrow>
   pg_setval s (setval_args vals) = Inl (DbError ''setval: value out of bounds'')"
  by (simp add: setval_args_def sql_max_Max pg_setval_def)

theorem setval_below_minimum_witness:
  "pg_setval serial_sequence (setval_args [Some 0, Some 0])
     = Inl (DbError ''setval: value out of bounds'')"
proof -
  have h1: "\<exists>x. Some x \<in> set [Some (0::int), Some 0]" by simp
  have h2: "Max {x. Some x \<in> set [Some (0::int), Some 0]} < seq_min serial_sequence"
    by (simp add: serial_sequence_def)
  show ?thesis by (rule setval_below_minimum [OF h1 h2])
qed

text \<open>
  C8. \<open>reset_sequences\<close> never rolls back: whenever it fails (the catalog
  answering as PostgreSQL does), it leaves the connection in an aborted
  transaction, so that the next statement of the run is refused until someone
  rolls back.
\<close>

theorem reset_sequences_leaves_aborted:
  assumes "catalog_ok eng table_name" and "reset_sequences eng table_name c = (False, c')"
  shows "pg_status c' = TxFailed \<and> pg_execute eng s c' = (Inl InFailedSqlTransaction, c')"
  using reset_sequences_failed_status [OF assms] by (simp add: pg_execute_failed)

theorem reset_sequences_leaves_aborted_witness:
  "reset_sequences setval_refused_engine ''t'' (pg_connect 0)
     = (False, snd (reset_sequences setval_refused_engine ''t'' (pg_connect 0)))
   \<and> pg_status (snd (reset_sequences setval_refused_engine ''t'' (pg_connect 0))) = TxFailed"
proof -
  have h1: "catalog_ok setval_refused_engine ''t''" by (rule catalog_ok_setval_refused)
  have h2: "reset_sequences setval_refused_engine ''t'' (pg_connect (0::nat))
     = (False, snd (reset_sequences setval_refused_engine ''t'' (pg_connect 0)))"
    using reset_sequences_setval_refused by (metis prod.collapse)
  from reset_sequences_leaves_aborted [OF h1 h2] h2 show ?thesis by simp
qed

end
