(* ===== verification/Orchestrator.thy ===== *)
theory Orchestrator
  imports Schema DataTransfer Sequences "HOL-Library.Multiset"
begin

text \<open>
  The migration orchestrator: the per-table pipeline and the final passes of
  \<open>main\<close> (lines 562--609) and the report text of
  \<open>generate_migration_report\<close> (lines 494--517).  The state the loop
  threads is the record \<open>run_state\<close>: the target connection, the file
  system the CSV files are written to, and the lists \<open>success_tables\<close> and
  \<open>failed_tables\<close>.  An exception no function catches (the column query of
  \<open>get_table_schema\<close>, \<open>os.makedirs\<close>) ends the run as \<open>Inl\<close>: no
  report is written.
\<close>

record 'db run_state =
  rs_conn :: "'db pg_conn"
  rs_fs :: fs
  rs_success :: "string list"
  rs_failed :: "string list"

section \<open>The pipeline of one table\<close>

text \<open>
  Lines 573--602: schema, \<open>CREATE TABLE\<close>, export, import; a failure of
  one of the last three puts the table in \<open>failed_tables\<close> and continues
  with the next table.  Constraints, indexes and sequences follow; their
  results only decide a printed warning.
\<close>

definition table_failed :: "'db run_state \<Rightarrow> string \<Rightarrow> 'db run_state" where
  "table_failed st table_name = st\<lparr>rs_failed := rs_failed st @ [table_name]\<rparr>"

definition migrate_table ::
  "mysql_src \<Rightarrow> 'db engine \<Rightarrow> string \<Rightarrow> 'db run_state \<Rightarrow> string \<Rightarrow> exn + 'db run_state" where
  "migrate_table src eng output_dir st table_name =
     (case get_table_schema src table_name of
        Inl e \<Rightarrow> Inl e
      | Inr columns \<Rightarrow>
          (case create_postgresql_table eng table_name columns (rs_conn st) of
             (False, c1) \<Rightarrow> Inr (table_failed (st\<lparr>rs_conn := c1\<rparr>) table_name)
           | (True, c1) \<Rightarrow>
               (case export_table_data src (rs_fs st) table_name output_dir of
                  Inl e \<Rightarrow> Inl e
                | Inr (None, fs1) \<Rightarrow>
                    Inr (table_failed (st\<lparr>rs_conn := c1, rs_fs := fs1\<rparr>) table_name)
                | Inr (Some csv_file, fs1) \<Rightarrow>
                    (case import_table_data eng fs1 table_name csv_file c1 of
                       (False, c2) \<Rightarrow>
                         Inr (table_failed (st\<lparr>rs_conn := c2, rs_fs := fs1\<rparr>) table_name)
                     | (True, c2) \<Rightarrow>
                         (let c3 = snd (migrate_constraints src eng table_name c2);
                              c4 = snd (migrate_indexes src eng table_name c3);
                              c5 = snd (reset_sequences eng table_name c4)
                          in Inr (st\<lparr>rs_conn := c5, rs_fs := fs1,
                                     rs_success := rs_success st @ [table_name]\<rparr>))))))"

text \<open>The loop of line 569 over the tables, in the order given.\<close>

fun migrate_tables ::
  "mysql_src \<Rightarrow> 'db engine \<Rightarrow> string \<Rightarrow> 'db run_state \<Rightarrow> string list \<Rightarrow> exn + 'db run_state" where
  "migrate_tables src eng output_dir st [] = Inr st"
| "migrate_tables src eng output_dir st (table_name # tables) =
     (case migrate_table src eng output_dir st table_name of
        Inl e \<Rightarrow> Inl e
      | Inr st' \<Rightarrow> migrate_tables src eng output_dir st' tables)"

section \<open>The report\<close>

text \<open>The report text of lines 499--517.  The times are the formatted
  \<open>strftime\<close> and \<open>timedelta\<close> texts, given as parameters.\<close>

definition o_acute :: char where
  "o_acute = CHR 0xF3"

definition report_line :: "string \<Rightarrow> string" where
  "report_line s = ''    '' @ s @ [newline]"

definition migration_report ::
  "string \<Rightarrow> string \<Rightarrow> string \<Rightarrow> string list \<Rightarrow> string list \<Rightarrow> string list \<Rightarrow> string" where
  "migration_report start_s end_s duration tables success_tables failed_tables =
     [newline]
     @ report_line (''Fecha y hora de inicio: '' @ start_s)
     @ report_line (''Fecha y hora de finalizaci'' @ [o_acute] @ ''n: '' @ end_s)
     @ report_line (''Duraci'' @ [o_acute] @ ''n total: '' @ duration)
     @ report_line []
     @ report_line (''Tablas procesadas: '' @ py_str_int (int (length tables)))
     @ report_line (''Tablas migradas exitosamente: '' @ py_str_int (int (length success_tables)))
     @ report_line (''Tablas con errores: '' @ py_str_int (int (length failed_tables)))
     @ report_line []
     @ report_line ''Tablas migradas:''
     @ ''    ''
     @ concat (map (\<lambda>t. report_line (''- '' @ t)) success_tables)
     @ (if failed_tables \<noteq> []
        then [newline] @ report_line ''Tablas con errores:''
             @ concat (map (\<lambda>t. report_line (''- '' @ t)) failed_tables)
        else [])"

section \<open>The run\<close>

text \<open>
  Lines 562--609, after both connections are open: the tables given on the
  command line, or else all tables of the database; the loop; the global
  foreign-key pass; the report.  The result is the report text with the final
  state, or the exception that ended the run.
\<close>

definition main_run ::
  "mysql_src \<Rightarrow> 'db engine \<Rightarrow> string \<Rightarrow> string \<Rightarrow> string list \<Rightarrow> 'db pg_conn \<Rightarrow> fs
   \<Rightarrow> string \<Rightarrow> string \<Rightarrow> string \<Rightarrow> exn + (string \<times> 'db run_state)" where
  "main_run src eng mysql_db output_dir args_tables c fsys start_s end_s duration =
     (case (if args_tables \<noteq> [] then Inr args_tables else get_tables src) of
        Inl e \<Rightarrow> Inl e
      | Inr tables \<Rightarrow>
          (case migrate_tables src eng output_dir
                  \<lparr>rs_conn = c, rs_fs = fsys, rs_success = [], rs_failed = []\<rparr> tables of
             Inl e \<Rightarrow> Inl e
           | Inr st \<Rightarrow>
               (let st' = st\<lparr>rs_conn := snd (migrate_foreign_keys src eng mysql_db (rs_conn st))\<rparr>
                in Inr (migration_report start_s end_s duration tables (rs_success st') (rs_failed st'),
                        st'))))"


section \<open>The specification's view of a run\<close>

text \<open>
  Section 4.6 of the specification: the tables are processed in order and
  each ends as succeeded or failed; the report holds the two lists.  The
  abstract state is the pair of lists, a step appends the table to one of
  them.  \<open>run_abs\<close> maps the script's state onto it.
\<close>

definition spec_step :: "string list \<times> string list \<Rightarrow> string \<times> bool \<Rightarrow> string list \<times> string list" where
  "spec_step acc outcome =
     (case acc of (succeeded, failed) \<Rightarrow>
        case outcome of (t, ok) \<Rightarrow>
          if ok then (succeeded @ [t], failed) else (succeeded, failed @ [t]))"

definition spec_run :: "string list \<times> string list \<Rightarrow> (string \<times> bool) list \<Rightarrow> string list \<times> string list" where
  "spec_run acc outcomes = fold (\<lambda>x l. spec_step l x) outcomes acc"

definition run_abs :: "'db run_state \<Rightarrow> string list \<times> string list" where
  "run_abs st = (rs_success st, rs_failed st)"

section \<open>Fixtures for the witnesses\<close>

text \<open>Two tables \<open>b\<close> and \<open>c\<close> with one integer column and one row each;
  a server that refuses the \<open>CREATE TABLE\<close> of \<open>b\<close> and accepts everything
  else, answering the row count of \<open>c\<close> with 1; an empty output directory.\<close>

definition id_column :: col_row where
  "id_column = \<lparr>column_name = ''id'', data_type = ''int'', char_max_len = None,
                is_nullable = ''NO'', column_default = None\<rparr>"

definition two_tables_src :: mysql_src where
  "two_tables_src = \<lparr>src_show_tables = Inr [''b'', ''c''], src_columns = (\<lambda>_. Inr [id_column]),
      src_primary_key = (\<lambda>_. Inr []), src_key_usage = (\<lambda>_. Inr []),
      src_statistics = (\<lambda>_. Inr []), src_select_all = (\<lambda>_. Inr ([''id''], [[VInt 1]]))\<rparr>"

definition b_refused_engine :: "nat engine" where
  "b_refused_engine d s =
     (case s of
        Exec q \<Rightarrow>
          (if q = create_table_sql ''b'' [id_column] then Inl (DbError ''relation b already exists'')
           else if q = count_statement ''c'' then Inr ([[VInt 1]], Suc d)
           else Inr ([], Suc d))
      | _ \<Rightarrow> Inr ([], Suc d))"

definition out_fs :: fs where
  "out_fs = \<lparr>fs_dirs = {''out''}, fs_files = Map.empty,
             fs_can_mkdir = (\<lambda>_. True), fs_can_write = (\<lambda>_. True)\<rparr>"

text \<open>A catalog whose column query fails for every table.\<close>

definition broken_columns_src :: mysql_src where
  "broken_columns_src = two_tables_src\<lparr>src_columns := (\<lambda>_. Inl (DbError ''Lost connection''))\<rparr>"

section \<open>Lemmas\<close>

lemma migrate_tables_append:
  "migrate_tables src eng dir st (xs @ ys) =
     (case migrate_tables src eng dir st xs of
        Inl e \<Rightarrow> Inl e
      | Inr st' \<Rightarrow> migrate_tables src eng dir st' ys)"
  by (induction xs arbitrary: st) (auto split: sum.split)

lemma migrate_table_cases:
  assumes "migrate_table src eng dir st t = Inr st'"
  obtains (create_failed) cols c1 where "get_table_schema src t = Inr cols"
      and "create_postgresql_table eng t cols (rs_conn st) = (False, c1)"
      and "st' = table_failed (st\<lparr>rs_conn := c1\<rparr>) t"
  | (export_failed) cols c1 fs1 where "get_table_schema src t = Inr cols"
      and "create_postgresql_table eng t cols (rs_conn st) = (True, c1)"
      and "export_table_data src (rs_fs st) t dir = Inr (None, fs1)"
      and "st' = table_failed (st\<lparr>rs_conn := c1, rs_fs := fs1\<rparr>) t"
  | (import_failed) cols c1 fs1 f c2 where "get_table_schema src t = Inr cols"
      and "create_postgresql_table eng t cols (rs_conn st) = (True, c1)"
      and "export_table_data src (rs_fs st) t dir = Inr (Some f, fs1)"
      and "import_table_data eng fs1 t f c1 = (False, c2)"
      and "st' = table_failed (st\<lparr>rs_conn := c2, rs_fs := fs1\<rparr>) t"
  | (succeeded) cols c1 fs1 f c2 where "get_table_schema src t = Inr cols"
      and "create_postgresql_table eng t cols (rs_conn st) = (True, c1)"
      and "export_table_data src (rs_fs st) t dir = Inr (Some f, fs1)"
      and "import_table_data eng fs1 t f c1 = (True, c2)"
      and "st' = st\<lparr>rs_conn := snd (reset_sequences eng t (snd (migrate_indexes src eng t
                      (snd (migrate_constraints src eng t c2))))),
                    rs_fs := fs1, rs_success := rs_success st @ [t]\<rparr>"
  using assms
  by (auto simp: migrate_table_def Let_def split: sum.splits prod.splits option.splits bool.splits)

lemma migrate_table_reachable:
  assumes "migrate_table src eng dir st t = Inr st'" and "pg_reachable eng d0 (rs_conn st)"
  shows "pg_reachable eng d0 (rs_conn st')"
  using assms(1)
proof (cases rule: migrate_table_cases)
  case (create_failed cols c1)
  then show ?thesis using create_postgresql_table_reachable [OF assms(2), of t cols]
    by (simp add: table_failed_def)
next
  case (export_failed cols c1 fs1)
  then show ?thesis using create_postgresql_table_reachable [OF assms(2), of t cols]
    by (simp add: table_failed_def)
next
  case (import_failed cols c1 fs1 f c2)
  then have "pg_reachable eng d0 c1" using create_postgresql_table_reachable [OF assms(2), of t cols] by simp
  then show ?thesis using import_failed import_table_data_reachable [of eng d0 c1 fs1 t f]
    by (simp add: table_failed_def)
next
  case (succeeded cols c1 fs1 f c2)
  then have "pg_reachable eng d0 c1" using create_postgresql_table_reachable [OF assms(2), of t cols] by simp
  then have "pg_reachable eng d0 c2" using succeeded import_table_data_reachable [of eng d0 c1 fs1 t f]
    by simp
  then show ?thesis using succeeded
    by (simp add: migrate_constraints_reachable migrate_indexes_reachable reset_sequences_reachable)
qed

lemma migrate_table_step:
  "migrate_table src eng dir st t = Inr st' \<Longrightarrow> \<exists>ok. run_abs st' = spec_step (run_abs st) (t, ok)"
  by (erule migrate_table_cases) (auto simp: run_abs_def spec_step_def table_failed_def)

lemma migrate_tables_reachable:
  "migrate_tables src eng dir st ts = Inr st' \<Longrightarrow> pg_reachable eng d0 (rs_conn st)
   \<Longrightarrow> pg_reachable eng d0 (rs_conn st')"
  by (induction ts arbitrary: st) (auto split: sum.splits dest: migrate_table_reachable)

lemma spec_run_Cons: "spec_run l (x # xs) = spec_run (spec_step l x) xs"
  by (simp add: spec_run_def)


lemma spec_run_mset:
  "mset (fst (spec_run acc xs)) + mset (snd (spec_run acc xs))
   = mset (fst acc) + mset (snd acc) + mset (map fst xs)"
  by (induction xs arbitrary: acc) (auto simp: spec_run_def spec_step_def ac_simps split: prod.splits)

lemma migrate_tables_spec:
  "migrate_tables src eng dir st ts = Inr st' \<Longrightarrow>
   \<exists>oks. length oks = length ts \<and> run_abs st' = spec_run (run_abs st) (zip ts oks)"
proof (induction ts arbitrary: st)
  case Nil
  then show ?case by (simp add: spec_run_def)
next
  case (Cons t ts)
  then obtain st1 where st1: "migrate_table src eng dir st t = Inr st1"
    and rest: "migrate_tables src eng dir st1 ts = Inr st'"
    by (auto split: sum.splits)
  obtain ok where ok: "run_abs st1 = spec_step (run_abs st) (t, ok)"
    using migrate_table_step [OF st1] by blast
  obtain oks where "length oks = length ts" and "run_abs st' = spec_run (run_abs st1) (zip ts oks)"
    using Cons.IH [OF rest] by blast
  then show ?case using ok by (intro exI [of _ "ok # oks"]) (simp add: spec_run_Cons)
qed

lemma main_run_cases:
  assumes "main_run src eng db dir args c fsys s1 s2 s3 = Inr (rep, st)"
  obtains tables st0 where
    "(if args \<noteq> [] then Inr args else get_tables src) = Inr tables"
    and "migrate_tables src eng dir \<lparr>rs_conn = c, rs_fs = fsys, rs_success = [], rs_failed = []\<rparr> tables
         = Inr st0"
    and "st = st0\<lparr>rs_conn := snd (migrate_foreign_keys src eng db (rs_conn st0))\<rparr>"
    and "rep = migration_report s1 s2 s3 tables (rs_success st0) (rs_failed st0)"
  using assms by (auto simp: main_run_def Let_def split: sum.splits if_splits)

lemma main_run_tables:
  assumes "main_run src eng db dir args c fsys s1 s2 s3 = Inr (rep, st)"
  shows "\<exists>tables. (if args \<noteq> [] then Inr args else get_tables src) = Inr tables
           \<and> rep = migration_report s1 s2 s3 tables (rs_success st) (rs_failed st)
           \<and> mset (rs_success st) + mset (rs_failed st) = mset tables"
  using assms
proof (cases rule: main_run_cases)
  case (1 tables st0)
  obtain oks where len: "length oks = length tables"
    and abs: "spec_run ([], []) (zip tables oks) = (rs_success st0, rs_failed st0)"
    using migrate_tables_spec [OF 1(2)] by (auto simp: run_abs_def)
  have "mset (fst (spec_run ([], []) (zip tables oks))) + mset (snd (spec_run ([], []) (zip tables oks)))
        = mset tables"
    using spec_run_mset [where acc = "([], [])" and xs = "zip tables oks"] len by simp
  then have "mset (rs_success st0) + mset (rs_failed st0) = mset tables" by (simp only: abs fst_conv snd_conv)
  then show ?thesis using 1 by auto
qed

lemma two_tables_statements:
  "create_table_sql ''c'' [id_column] \<noteq> create_table_sql ''b'' [id_column]"
  "create_table_sql ''c'' [id_column] \<noteq> count_statement ''c''"
  "seq_query ''c'' \<noteq> create_table_sql ''b'' [id_column]"
  "seq_query ''c'' \<noteq> count_statement ''c''"
  "count_statement ''c'' \<noteq> create_table_sql ''b'' [id_column]"
  by (simp_all add: create_table_sql_def count_statement_def seq_query_def indented_line_def newline_def)

lemma two_tables_loop:
  "\<exists>st. migrate_tables two_tables_src b_refused_engine ''out''
     \<lparr>rs_conn = pg_connect 0, rs_fs = out_fs, rs_success = [], rs_failed = []\<rparr> [''b'', ''c''] = Inr st
   \<and> rs_success st = [''c''] \<and> rs_failed st = [''b'']"
  by (simp add: two_tables_statements migrate_table_def get_table_schema_def two_tables_src_def
      create_postgresql_table_def exec_commit_def pg_execute_def pg_connect_def pg_commit_def
      pg_rollback_def b_refused_engine_def table_failed_def export_table_data_def out_fs_def
      import_table_data_def migrate_constraints_def get_primary_keys_def migrate_indexes_def
      get_indexes_def reset_sequences_def Let_def export_rows_eq)
lemma get_tables_two_tables: "get_tables two_tables_src = Inr [''b'', ''c'']"
  by (simp add: get_tables_def two_tables_src_def)

lemma two_tables_run:
  assumes "args = [] \<or> args = [''b'', ''c'']"
  shows "\<exists>st. main_run two_tables_src b_refused_engine ''shop'' ''out'' args (pg_connect 0) out_fs
                ''s'' ''e'' ''d''
              = Inr (migration_report ''s'' ''e'' ''d'' [''b'', ''c''] [''c''] [''b''], st)
            \<and> rs_success st = [''c''] \<and> rs_failed st = [''b'']"
proof -
  obtain st where l: "migrate_tables two_tables_src b_refused_engine ''out''
     \<lparr>rs_conn = pg_connect 0, rs_fs = out_fs, rs_success = [], rs_failed = []\<rparr> [''b'', ''c''] = Inr st"
    and s: "rs_success st = [''c'']" and f: "rs_failed st = [''b'']"
    using two_tables_loop by blast
  have fk: "get_foreign_keys two_tables_src ''shop'' = Inr []"
    by (simp add: get_foreign_keys_def two_tables_src_def)
  show ?thesis using assms l s f
    by (auto simp: main_run_def get_tables_two_tables migrate_foreign_keys_def fk Let_def)
qed

lemma setval_refused_conn:
  "\<exists>c'. reset_sequences setval_refused_engine ''t'' (pg_connect 0) = (False, c')
        \<and> pg_reachable setval_refused_engine 0 c'"
proof -
  have "pg_reachable setval_refused_engine 0 (snd (reset_sequences setval_refused_engine ''t'' (pg_connect 0)))"
    by (rule reset_sequences_reachable [OF pg_reachable.start])
  then show ?thesis using reset_sequences_setval_refused by (metis prod.collapse)
qed

section \<open>Properties\<close>

text \<open>
  C6. The table loop refines the specification's orchestrator: the lists of
  succeeded and failed tables it ends with are those of the abstract run that
  classifies each table, in the given order, as succeeded or failed.
\<close>

theorem migrate_tables_refines_spec:
  assumes "migrate_tables src eng dir st ts = Inr st'"
  shows "\<exists>oks. map fst oks = ts
           \<and> (rs_success st', rs_failed st') = spec_run (rs_success st, rs_failed st) oks"
proof -
  obtain oks where "length oks = length ts" and "run_abs st' = spec_run (run_abs st) (zip ts oks)"
    using migrate_tables_spec [OF assms] by blast
  then show ?thesis by (intro exI [of _ "zip ts oks"]) (simp add: run_abs_def)
qed

theorem migrate_tables_refines_spec_witness:
  "\<exists>st. migrate_tables two_tables_src b_refused_engine ''out''
          \<lparr>rs_conn = pg_connect 0, rs_fs = out_fs, rs_success = [], rs_failed = []\<rparr> [''b'', ''c''] = Inr st
     \<and> (\<exists>oks. map fst oks = [''b'', ''c''] \<and> (rs_success st, rs_failed st) = spec_run ([], []) oks)"
proof -
  obtain st where l: "migrate_tables two_tables_src b_refused_engine ''out''
     \<lparr>rs_conn = pg_connect 0, rs_fs = out_fs, rs_success = [], rs_failed = []\<rparr> [''b'', ''c''] = Inr st"
    using two_tables_loop by blast
  show ?thesis using l migrate_tables_refines_spec [OF l] by auto
qed

text \<open>
  A completed run accounts for every table exactly once: the succeeded and
  the failed tables of the report together are the tables given, as a multiset.
\<close>

theorem main_run_accounts_all_tables:
  assumes "args \<noteq> []" and "main_run src eng db dir args c fsys s1 s2 s3 = Inr (rep, st)"
  shows "mset (rs_success st) + mset (rs_failed st) = mset args"
  using main_run_tables [OF assms(2)] assms(1) by auto

theorem main_run_accounts_all_tables_witness:
  "\<exists>rep st. main_run two_tables_src b_refused_engine ''shop'' ''out'' [''b'', ''c''] (pg_connect 0) out_fs
                ''s'' ''e'' ''d'' = Inr (rep, st)
     \<and> mset (rs_success st) + mset (rs_failed st) = mset [''b'', ''c'']"
proof -
  obtain st where r: "main_run two_tables_src b_refused_engine ''shop'' ''out'' [''b'', ''c''] (pg_connect 0)
      out_fs ''s'' ''e'' ''d'' = Inr (migration_report ''s'' ''e'' ''d'' [''b'', ''c''] [''c''] [''b''], st)"
    using two_tables_run [of "[''b'', ''c'']"] by auto
  have h: "[''b'', ''c''] \<noteq> []" by simp
  show ?thesis using r main_run_accounts_all_tables [OF h r] by blast
qed

text \<open>
  Every run of the script leaves the target consistent with what it
  committed: from a reachable connection, the committed database at the end is
  the replay of the committed statements, and the working state that of the
  committed and pending ones.
\<close>

theorem main_run_connection_invariant:
  assumes "pg_reachable eng d0 c" and "main_run src eng db dir args c fsys s1 s2 s3 = Inr (rep, st)"
  shows "pg_inv eng d0 (rs_conn st)"
  using assms(2)
proof (cases rule: main_run_cases)
  case (1 tables st0)
  have "pg_reachable eng d0 (rs_conn st0)"
    using migrate_tables_reachable [OF 1(2)] assms(1) by simp
  then have "pg_reachable eng d0 (rs_conn st)"
    using 1(3) migrate_foreign_keys_reachable by simp
  then show ?thesis by (rule pg_reachable_inv)
qed

theorem main_run_connection_invariant_witness:
  "\<exists>rep st. main_run two_tables_src b_refused_engine ''shop'' ''out'' [] (pg_connect 0) out_fs
                ''s'' ''e'' ''d'' = Inr (rep, st)
     \<and> pg_inv b_refused_engine 0 (rs_conn st)"
proof -
  obtain st where r: "main_run two_tables_src b_refused_engine ''shop'' ''out'' [] (pg_connect 0)
      out_fs ''s'' ''e'' ''d'' = Inr (migration_report ''s'' ''e'' ''d'' [''b'', ''c''] [''c''] [''b''], st)"
    using two_tables_run [of "[]"] by auto
  show ?thesis using r main_run_connection_invariant [OF pg_reachable.start r] by blast
qed

text \<open>
  C10. An exception of the column query of a table is not caught: the run ends
  with it, no later table is attempted and no report is produced, although the
  specification says the run always completes with a report.
\<close>

theorem schema_error_aborts_run:
  assumes "migrate_tables src eng dir \<lparr>rs_conn = c, rs_fs = fsys, rs_success = [], rs_failed = []\<rparr> ts
           = Inr st1"
    and "get_table_schema src t = Inl e"
  shows "main_run src eng db dir (ts @ t # us) c fsys s1 s2 s3 = Inl e"
  using assms by (simp add: main_run_def migrate_tables_append migrate_table_def)

theorem schema_error_aborts_run_witness:
  "main_run broken_columns_src b_refused_engine ''shop'' ''out'' [''b''] (pg_connect 0) out_fs
     ''s'' ''e'' ''d'' = Inl (DbError ''Lost connection'')"
proof -
  have h1: "migrate_tables broken_columns_src b_refused_engine ''out''
      \<lparr>rs_conn = pg_connect 0, rs_fs = out_fs, rs_success = [], rs_failed = []\<rparr> []
      = Inr \<lparr>rs_conn = pg_connect 0, rs_fs = out_fs, rs_success = [], rs_failed = []\<rparr>" by simp
  have h2: "get_table_schema broken_columns_src ''b'' = Inl (DbError ''Lost connection'')"
    by (simp add: get_table_schema_def broken_columns_src_def)
  show ?thesis using schema_error_aborts_run [OF h1 h2, of "''shop''" "[]"] by simp
qed

text \<open>
  C9. A failed sequence reset makes the next table fail: after
  \<open>reset_sequences\<close> returns \<open>False\<close>, the \<open>CREATE TABLE\<close> of the next
  table is refused on the aborted connection and rolled back, and that table
  is counted as failed, whatever the server would have done with it.
\<close>

theorem failed_reset_fails_next_table:
  assumes "catalog_ok eng t" and "reset_sequences eng t c = (False, c')"
    and "get_table_schema src u = Inr cols"
  shows "migrate_table src eng dir (st\<lparr>rs_conn := c'\<rparr>) u
           = Inr (table_failed (st\<lparr>rs_conn := pg_rollback c'\<rparr>) u)"
  using create_on_aborted [OF reset_sequences_failed_status [OF assms(1,2)]] assms(3)
  by (simp add: migrate_table_def)

theorem failed_reset_fails_next_table_witness:
  "\<exists>c'. reset_sequences setval_refused_engine ''t'' (pg_connect 0) = (False, c')
     \<and> migrate_table one_fk_src setval_refused_engine ''out''
          \<lparr>rs_conn = c', rs_fs = out_fs, rs_success = [], rs_failed = []\<rparr> ''u''
       = Inr \<lparr>rs_conn = pg_rollback c', rs_fs = out_fs, rs_success = [], rs_failed = [''u'']\<rparr>"
proof -
  obtain c' where r: "reset_sequences setval_refused_engine ''t'' (pg_connect 0) = (False, c')"
    using setval_refused_conn by blast
  have s: "get_table_schema one_fk_src ''u'' = Inr []" by (simp add: get_table_schema_def one_fk_src_def)
  show ?thesis
    using r failed_reset_fails_next_table [OF catalog_ok_setval_refused r s,
        of "''out''" "\<lparr>rs_conn = pg_connect 0, rs_fs = out_fs, rs_success = [], rs_failed = []\<rparr>"]
    by (auto simp: table_failed_def)
qed

text \<open>
  C33. After a failed sequence reset of the last table, the deferred
  foreign-key pass loses its first constraint: its \<open>ALTER TABLE\<close> is refused
  on the aborted connection, and only the later constraints are applied, best
  effort, from the committed database.
\<close>

theorem aborted_connection_loses_first_fk:
  assumes "pg_reachable eng d0 c" and "pg_status c = TxFailed"
    and "get_foreign_keys src db = Inr ((n, fk) # fks)"
  shows "pg_log (snd (migrate_foreign_keys src eng db c))
         = pg_log c @ map Exec (best_effort eng (map (\<lambda>(n, fk). fk_sql n fk) fks) (pg_committed_db c))"
proof -
  have r: "pg_reachable eng d0 (pg_rollback c)" using assms(1) by (rule pg_reachable_rollback)
  have "snd (migrate_foreign_keys src eng db c)
        = exec_commit_all eng (map (\<lambda>(n, fk). fk_sql n fk) fks) (pg_rollback c)"
    using assms(2,3) by (simp add: migrate_foreign_keys_def run_fk_statements_all exec_commit_failed)
  then show ?thesis
    using exec_commit_all_best_effort [OF r] by (simp add: pg_rollback_def)
qed

theorem aborted_connection_loses_first_fk_witness:
  "\<exists>c'. reset_sequences setval_refused_engine ''t'' (pg_connect 0) = (False, c')
     \<and> pg_log (snd (migrate_foreign_keys one_fk_src setval_refused_engine ''shop'' c')) = pg_log c'"
proof -
  obtain c' where r: "reset_sequences setval_refused_engine ''t'' (pg_connect 0) = (False, c')"
    and reach: "pg_reachable setval_refused_engine 0 c'"
    using setval_refused_conn by blast
  have st: "pg_status c' = TxFailed"
    by (rule reset_sequences_failed_status [OF catalog_ok_setval_refused r])
  have fk: "get_foreign_keys one_fk_src ''shop'' = Inr [(''fk_c'', \<lparr>fk_table_name = ''orders'',
        fk_columns = [''cid''], fk_ref_table_name = ''customers'', fk_ref_columns = [''id'']\<rparr>)]"
    by (simp add: get_foreign_keys_def one_fk_src_def add_fk_row_def)
  have "pg_log (snd (migrate_foreign_keys one_fk_src setval_refused_engine ''shop'' c'))
      = pg_log c' @ map Exec (best_effort setval_refused_engine [] (pg_committed_db c'))"
    using aborted_connection_loses_first_fk [OF reach st fk] by simp
  then show ?thesis using r by simp
qed


lemma b_refused_table:
  "\<exists>st'. migrate_table two_tables_src b_refused_engine ''out''
     \<lparr>rs_conn = pg_connect 0, rs_fs = out_fs, rs_success = [], rs_failed = []\<rparr> ''b'' = Inr st'"
  by (simp add: two_tables_statements migrate_table_def get_table_schema_def two_tables_src_def
      create_postgresql_table_def exec_commit_def pg_execute_def pg_connect_def pg_commit_def
      pg_rollback_def b_refused_engine_def)

text \<open>
  C5. Resilience of the table loop (lines 570--602): a table is counted as
  migrated exactly when its \<open>CREATE TABLE\<close>, its export and its import all
  succeed, and as failed otherwise (the \<open>CREATE TABLE\<close> refused, no CSV
  file, the import failed); exactly one of the two lists grows, and the loop
  goes on with the next table from the new state.
\<close>

theorem migrate_table_classifies:
  assumes "migrate_table src eng dir st t = Inr st'"
  shows "(if \<exists>cols c1 f fs1 c2. get_table_schema src t = Inr cols
              \<and> create_postgresql_table eng t cols (rs_conn st) = (True, c1)
              \<and> export_table_data src (rs_fs st) t dir = Inr (Some f, fs1)
              \<and> import_table_data eng fs1 t f c1 = (True, c2)
          then rs_success st' = rs_success st @ [t] \<and> rs_failed st' = rs_failed st
          else rs_failed st' = rs_failed st @ [t] \<and> rs_success st' = rs_success st)
         \<and> migrate_tables src eng dir st (t # ts) = migrate_tables src eng dir st' ts"
  using assms
  by (cases rule: migrate_table_cases) (auto simp: table_failed_def assms)

theorem migrate_table_classifies_witness:
  "\<exists>st'. migrate_table two_tables_src b_refused_engine ''out''
       \<lparr>rs_conn = pg_connect 0, rs_fs = out_fs, rs_success = [], rs_failed = []\<rparr> ''b'' = Inr st'
     \<and> (if \<exists>cols c1 f fs1 c2. get_table_schema two_tables_src ''b'' = Inr cols
              \<and> create_postgresql_table b_refused_engine ''b'' cols (pg_connect 0) = (True, c1)
              \<and> export_table_data two_tables_src out_fs ''b'' ''out'' = Inr (Some f, fs1)
              \<and> import_table_data b_refused_engine fs1 ''b'' f c1 = (True, c2)
          then rs_success st' = [''b''] \<and> rs_failed st' = []
          else rs_failed st' = [''b''] \<and> rs_success st' = [])"
proof -
  obtain st' where m: "migrate_table two_tables_src b_refused_engine ''out''
       \<lparr>rs_conn = pg_connect 0, rs_fs = out_fs, rs_success = [], rs_failed = []\<rparr> ''b'' = Inr st'"
    using b_refused_table by blast
  show ?thesis using m migrate_table_classifies [OF m, of "[]"] by auto
qed

end
