(* ===== verification/MainEntry.thy ===== *)
theory MainEntry
  imports Orchestrator
begin

text \<open>
  The entry point: \<open>connect_to_mysql\<close> and \<open>connect_to_postgresql\<close>
  (lines 8--38), the report file written by \<open>generate_migration_report\<close>
  (lines 519--525) and \<open>main\<close> (lines 527--615) around the run of
  \<open>Orchestrator\<close>.  The drivers' \<open>connect\<close> functions are parameters that
  answer a connection or an exception; the parsed command line is the record
  \<open>cli_args\<close> (filled from \<open>sys.argv\<close> by the parse of \<open>CommandLine\<close>);
  the working directory, where the report is written, is a store of text
  files with a write permission per path.  Closing the PostgreSQL connection
  discards its open transaction, as PostgreSQL does when a session ends.
\<close>

record conn_params =
  cp_host :: string
  cp_database :: string
  cp_user :: string
  cp_password :: string
  cp_port :: int

record cli_args =
  mysql_host :: string
  mysql_db :: string
  mysql_user :: string
  mysql_password :: string
  mysql_port :: int
  pg_host :: string
  pg_db :: string
  pg_user :: string
  pg_password :: string
  pg_port :: int
  output_dir :: string
  tables :: "string list"

record text_fs =
  txt_files :: "string \<Rightarrow> string option"
  txt_can_write :: "string \<Rightarrow> bool"

section \<open>Connections\<close>

text \<open>Lines 8--22 and 24--38: the driver's exception is caught and gives
  \<open>None\<close>.\<close>

definition connect_to_mysql ::
  "(conn_params \<Rightarrow> exn + mysql_src) \<Rightarrow> conn_params \<Rightarrow> mysql_src option" where
  "connect_to_mysql connect params =
     (case connect params of Inl _ \<Rightarrow> None | Inr conn \<Rightarrow> Some conn)"

definition connect_to_postgresql ::
  "(conn_params \<Rightarrow> exn + 'db) \<Rightarrow> conn_params \<Rightarrow> 'db pg_conn option" where
  "connect_to_postgresql connect params =
     (case connect params of Inl _ \<Rightarrow> None | Inr d \<Rightarrow> Some (pg_connect d))"

definition mysql_params :: "cli_args \<Rightarrow> conn_params" where
  "mysql_params args =
     \<lparr>cp_host = mysql_host args, cp_database = mysql_db args, cp_user = mysql_user args,
      cp_password = mysql_password args, cp_port = mysql_port args\<rparr>"

definition pg_params :: "cli_args \<Rightarrow> conn_params" where
  "pg_params args =
     \<lparr>cp_host = pg_host args, cp_database = pg_db args, cp_user = pg_user args,
      cp_password = pg_password args, cp_port = pg_port args\<rparr>"

section \<open>The report file\<close>

text \<open>Lines 522--523: \<open>open('migration_report.txt', 'w')\<close> outside any
  \<open>try\<close>; a failure to open is an exception of \<open>main\<close>.\<close>

definition write_report :: "text_fs \<Rightarrow> string \<Rightarrow> exn + text_fs" where
  "write_report tfs report =
     (if txt_can_write tfs ''migration_report.txt''
      then Inr (tfs\<lparr>txt_files := (txt_files tfs)(''migration_report.txt'' \<mapsto> report)\<rparr>)
      else Inl (IoError ''migration_report.txt''))"

section \<open>main\<close>

definition pg_close :: "'db pg_conn \<Rightarrow> 'db pg_conn" where
  "pg_close c = pg_rollback c"

text \<open>
  Lines 554--615.  \<open>None\<close> is the early \<open>return\<close> of line 559 when a
  connection failed; otherwise the final state of the run, with the
  PostgreSQL connection closed, and the working directory holding the report.
\<close>

definition main ::
  "(conn_params \<Rightarrow> exn + mysql_src) \<Rightarrow> (conn_params \<Rightarrow> exn + 'db) \<Rightarrow> 'db engine \<Rightarrow> cli_args
   \<Rightarrow> fs \<Rightarrow> text_fs \<Rightarrow> string \<Rightarrow> string \<Rightarrow> string \<Rightarrow> exn + ('db run_state \<times> text_fs) option" where
  "main mysql_connect pg_connect_fn eng args fsys tfs start_s end_s duration =
     (case (connect_to_mysql mysql_connect (mysql_params args),
            connect_to_postgresql pg_connect_fn (pg_params args)) of
        (Some mysql_conn, Some pg_conn) \<Rightarrow>
          (case main_run mysql_conn eng (mysql_db args) (output_dir args) (tables args) pg_conn fsys
                  start_s end_s duration of
             Inl e \<Rightarrow> Inl e
           | Inr (report, st) \<Rightarrow>
               (case write_report tfs report of
                  Inl e \<Rightarrow> Inl e
                | Inr tfs' \<Rightarrow> Inr (Some (st\<lparr>rs_conn := pg_close (rs_conn st)\<rparr>, tfs'))))
      | _ \<Rightarrow> Inr None)"

section \<open>Fixtures for the witnesses\<close>

text \<open>Drivers that connect to the two-table fixture of \<open>Orchestrator\<close>, one
  that refuses, a writable working directory, and the command line of a run
  over all tables.\<close>

definition fixture_mysql_connect :: "conn_params \<Rightarrow> exn + mysql_src" where
  "fixture_mysql_connect params = Inr two_tables_src"

definition fixture_pg_connect :: "conn_params \<Rightarrow> exn + nat" where
  "fixture_pg_connect params = Inr 0"

definition refusing_pg_connect :: "conn_params \<Rightarrow> exn + nat" where
  "refusing_pg_connect params = Inl (DbError ''password authentication failed'')"

definition writable_dir :: text_fs where
  "writable_dir = \<lparr>txt_files = Map.empty, txt_can_write = (\<lambda>_. True)\<rparr>"

definition fixture_args :: cli_args where
  "fixture_args =
     \<lparr>mysql_host = ''localhost'', mysql_db = ''shop'', mysql_user = ''root'', mysql_password = ''x'',
      mysql_port = 3306, pg_host = ''localhost'', pg_db = ''shop'', pg_user = ''postgres'',
      pg_password = ''x'', pg_port = 5432, output_dir = ''out'', tables = []\<rparr>"

section \<open>Lemmas\<close>

lemma main_connected:
  assumes "main mc pc eng args fsys tfs s1 s2 s3 = Inr (Some (st, tfs'))"
  obtains src d rep st0 where "mc (mysql_params args) = Inr src" and "pc (pg_params args) = Inr d"
    and "main_run src eng (mysql_db args) (output_dir args) (tables args) (pg_connect d) fsys s1 s2 s3
         = Inr (rep, st0)"
    and "write_report tfs rep = Inr tfs'" and "st = st0\<lparr>rs_conn := pg_close (rs_conn st0)\<rparr>"
  using assms
  by (auto simp: main_def connect_to_mysql_def connect_to_postgresql_def
      split: sum.splits option.splits prod.splits)

lemma fixture_main:
  "\<exists>st tfs'. main fixture_mysql_connect fixture_pg_connect b_refused_engine fixture_args out_fs writable_dir
       ''s'' ''e'' ''d'' = Inr (Some (st, tfs'))"
proof -
  obtain st where r: "main_run two_tables_src b_refused_engine ''shop'' ''out'' [] (pg_connect 0) out_fs
      ''s'' ''e'' ''d'' = Inr (migration_report ''s'' ''e'' ''d'' [''b'', ''c''] [''c''] [''b''], st)"
    using two_tables_run [of "[]"] by auto
  then show ?thesis
    by (simp add: main_def connect_to_mysql_def connect_to_postgresql_def fixture_mysql_connect_def
        fixture_pg_connect_def fixture_args_def mysql_params_def pg_params_def write_report_def
        writable_dir_def)
qed

section \<open>Properties\<close>

text \<open>
  C12. A failed connection to either database ends \<open>main\<close> before any table
  is attempted: no statement is sent, no file is written, no report is
  produced.
\<close>

theorem connection_failure_aborts:
  assumes "isl (mc (mysql_params args)) \<or> isl (pc (pg_params args))"
  shows "main mc pc eng args fsys tfs s1 s2 s3 = Inr None"
  using assms
  by (auto simp: main_def connect_to_mysql_def connect_to_postgresql_def isl_def
      split: sum.splits option.splits)

theorem connection_failure_aborts_witness:
  "main fixture_mysql_connect refusing_pg_connect b_refused_engine fixture_args out_fs writable_dir
     ''s'' ''e'' ''d'' = Inr None"
proof -
  have h: "isl (fixture_mysql_connect (mysql_params fixture_args))
           \<or> isl (refusing_pg_connect (pg_params fixture_args))"
    by (simp add: refusing_pg_connect_def)
  show ?thesis
    by (rule connection_failure_aborts [where mc = fixture_mysql_connect and pc = refusing_pg_connect
          and args = fixture_args, OF h])
qed

text \<open>
  C11. A run of \<open>main\<close> that completes leaves \<open>migration_report.txt\<close> in
  the working directory holding the report of that run, whose lists of
  migrated and failed tables together are the tables processed, each once;
  the PostgreSQL connection is closed with no open transaction.
\<close>

theorem main_writes_report:
  assumes "main mc pc eng args fsys tfs s1 s2 s3 = Inr (Some (st, tfs'))"
  shows "\<exists>ts. txt_files tfs' ''migration_report.txt''
                = Some (migration_report s1 s2 s3 ts (rs_success st) (rs_failed st))
             \<and> mset (rs_success st) + mset (rs_failed st) = mset ts
             \<and> pg_status (rs_conn st) = TxIdle \<and> pg_pending (rs_conn st) = []"
  using assms
proof (cases rule: main_connected)
  case (1 src d rep st0)
  obtain ts where "rep = migration_report s1 s2 s3 ts (rs_success st0) (rs_failed st0)"
    and "mset (rs_success st0) + mset (rs_failed st0) = mset ts"
    using main_run_tables [OF 1(3)] by blast
  then show ?thesis using 1(4,5)
    by (auto simp: write_report_def pg_close_def split: if_splits)
qed

theorem main_writes_report_witness:
  "\<exists>st tfs'. main fixture_mysql_connect fixture_pg_connect b_refused_engine fixture_args out_fs writable_dir
       ''s'' ''e'' ''d'' = Inr (Some (st, tfs'))
     \<and> (\<exists>ts. txt_files tfs' ''migration_report.txt''
                = Some (migration_report ''s'' ''e'' ''d'' ts (rs_success st) (rs_failed st)))"
proof -
  obtain st tfs' where m: "main fixture_mysql_connect fixture_pg_connect b_refused_engine fixture_args
      out_fs writable_dir ''s'' ''e'' ''d'' = Inr (Some (st, tfs'))"
    using fixture_main by blast
  show ?thesis using m main_writes_report [OF m] by blast
qed

end
