(* ===== verification/CommandLine.thy ===== *)
theory CommandLine
  imports MainEntry "HOL-Library.Monad_Syntax"
begin

text \<open>
  The command line of \<open>main\<close> (lines 528--548): the \<open>argparse\<close>
  declarations as data, one \<open>option_decl\<close> per \<open>add_argument\<close> call
  (\<open>arg_mysql_host\<close> \<dots> \<open>arg_tables\<close>, collected in \<open>parser_decls\<close>), and
  \<open>parser.parse_args()\<close> as the environment the script runs in, modelled on
  CPython's \<open>argparse\<close> (version 3.11: \<open>_parse_optional\<close>,
  \<open>_get_option_tuples\<close>, \<open>consume_optional\<close>, \<open>_get_values\<close>,
  \<open>parse_known_args\<close>, \<open>parse_args\<close>) for a parser that, like this one, has
  no positional arguments and only long options besides \<open>-h\<close>.  The
  namespace is an association list from the \<open>dest\<close> names to values;
  \<open>cli_of_ns\<close> reads it into the record \<open>cli_args\<close> of \<open>MainEntry\<close> the
  way \<open>main\<close> reads \<open>args.mysql_host\<close> \<dots>; \<open>main_cli\<close> is \<open>main\<close>
  from \<open>sys.argv\<close>.  \<open>type=int\<close> is Python's \<open>int()\<close> on a string,
  \<open>py_int\<close>.
\<close>

section \<open>Python's \<open>int()\<close> on a string\<close>

text \<open>\<open>int(s)\<close>: surrounding whitespace is ignored, an optional sign, then
  decimal digits with single underscores between them; anything else raises
  \<open>ValueError\<close> (\<open>None\<close>).\<close>

definition py_isdigit :: "char \<Rightarrow> bool" where
  "py_isdigit c = (48 \<le> (of_char c :: nat) \<and> (of_char c :: nat) \<le> 57)"

fun digit_run :: "string \<Rightarrow> bool" where
  "digit_run [] = True"
| "digit_run (c # cs) =
     (if c = CHR ''_'' then (case cs of [] \<Rightarrow> False | d # ds \<Rightarrow> py_isdigit d \<and> digit_run ds)
      else py_isdigit c \<and> digit_run cs)"

definition int_digits :: "string \<Rightarrow> bool" where
  "int_digits ds = (case ds of [] \<Rightarrow> False | c # cs \<Rightarrow> py_isdigit c \<and> digit_run cs)"

definition digits_value :: "string \<Rightarrow> nat" where
  "digits_value ds =
     foldl (\<lambda>n c. 10 * n + (of_char c - 48)) 0 (filter (\<lambda>c. c \<noteq> CHR ''_'') ds)"

definition py_int :: "string \<Rightarrow> int option" where
  "py_int s =
     (let t = py_strip s;
          (sgn, ds) = (case t of
                         c # r \<Rightarrow> if c = CHR ''-'' then (-1, r) else if c = CHR ''+'' then (1, r) else (1, t)
                       | [] \<Rightarrow> (1, []))
      in if int_digits ds then Some (sgn * int (digits_value ds)) else None)"

section \<open>The declarations of lines 528--546\<close>

text \<open>A namespace value: a string, an integer, the list an \<open>nargs\<close> option
  stores, or \<open>None\<close>.  An \<open>add_argument\<close> call: its option string, whether
  it is \<open>required\<close>, its \<open>default\<close>, its \<open>type\<close> and its \<open>nargs\<close>
  (\<open>None\<close>: one argument; \<open>'+'\<close>: one or more).\<close>

datatype argval = AStr string | AInt int | AList "argval list" | ANone

datatype nargs = NargsOne | NargsPlus

datatype argtype = StrType | IntType

record option_decl =
  opt_string :: string
  opt_required :: bool
  opt_default :: argval
  opt_type :: argtype
  opt_nargs :: nargs

definition add_argument :: "string \<Rightarrow> bool \<Rightarrow> argval \<Rightarrow> argtype \<Rightarrow> nargs \<Rightarrow> option_decl" where
  "add_argument s req dflt ty n =
     \<lparr>opt_string = s, opt_required = req, opt_default = dflt, opt_type = ty, opt_nargs = n\<rparr>"

definition arg_mysql_host :: option_decl where
  "arg_mysql_host = add_argument ''--mysql-host'' True ANone StrType NargsOne"

definition arg_mysql_db :: option_decl where
  "arg_mysql_db = add_argument ''--mysql-db'' True ANone StrType NargsOne"

definition arg_mysql_user :: option_decl where
  "arg_mysql_user = add_argument ''--mysql-user'' True ANone StrType NargsOne"

definition arg_mysql_password :: option_decl where
  "arg_mysql_password = add_argument ''--mysql-password'' True ANone StrType NargsOne"

definition arg_mysql_port :: option_decl where
  "arg_mysql_port = add_argument ''--mysql-port'' False (AInt 3306) IntType NargsOne"

definition arg_pg_host :: option_decl where
  "arg_pg_host = add_argument ''--pg-host'' True ANone StrType NargsOne"

definition arg_pg_db :: option_decl where
  "arg_pg_db = add_argument ''--pg-db'' True ANone StrType NargsOne"

definition arg_pg_user :: option_decl where
  "arg_pg_user = add_argument ''--pg-user'' True ANone StrType NargsOne"

definition arg_pg_password :: option_decl where
  "arg_pg_password = add_argument ''--pg-password'' True ANone StrType NargsOne"

definition arg_pg_port :: option_decl where
  "arg_pg_port = add_argument ''--pg-port'' False (AInt 5432) IntType NargsOne"

definition arg_output_dir :: option_decl where
  "arg_output_dir = add_argument ''--output-dir'' False (AStr ''./exported_data'') StrType NargsOne"

definition arg_tables :: option_decl where
  "arg_tables = add_argument ''--tables'' False ANone StrType NargsPlus"

definition parser_decls :: "option_decl list" where
  "parser_decls =
     [arg_mysql_host, arg_mysql_db, arg_mysql_user, arg_mysql_password,
      arg_mysql_port, arg_pg_host, arg_pg_db, arg_pg_user,
      arg_pg_password, arg_pg_port, arg_output_dir, arg_tables]"

text \<open>The attribute an option is stored under: the option string without its
  leading dashes, inner dashes replaced by underscores.\<close>

definition dest_of :: "option_decl \<Rightarrow> string" where
  "dest_of d =
     map (\<lambda>c. if c = CHR ''-'' then CHR ''_'' else c) (dropWhile (\<lambda>c. c = CHR ''-'') (opt_string d))"

section \<open>\<open>parser.parse_args()\<close> (line 548)\<close>

text \<open>The option strings in the order \<open>argparse\<close> registers them: the
  automatic \<open>-h\<close>/\<open>--help\<close>, then the declarations.  A command-line word
  is an argument (\<open>TArg\<close>), the separator \<open>--\<close>, an option with the
  option string it matched and an explicit \<open>=value\<close>, or an unknown option;
  the pattern letters \<open>A\<close>, \<open>-\<close>, \<open>O\<close> are what the \<open>nargs\<close>
  patterns match.\<close>

datatype action = HelpAction | StoreAction option_decl

definition option_actions :: "(string \<times> action) list" where
  "option_actions =
     [(''-h'', HelpAction), (''--help'', HelpAction)] @ map (\<lambda>d. (opt_string d, StoreAction d)) parser_decls"

datatype token = TArg | TDash | TOpt action string "string option" | TUnknown

datatype pat = PA | PDash | PO

datatype arg_error =
    Ambiguous string
  | ExpectedOne string
  | ExpectedSome string
  | InvalidInt string
  | IgnoredExplicit string
  | Required "string list"
  | Unrecognized "string list"

datatype arg_outcome = ArgsOk "(string \<times> argval) list" | ArgsHelp | ArgsError arg_error

text \<open>\<open>_parse_optional\<close> and \<open>_get_option_tuples\<close>: exact option
  strings, \<open>--opt=value\<close>, unique prefixes of long options (\<open>allow_abbrev\<close>),
  \<open>-h\<close> followed by more characters; several prefixes match: the
  \<open>ambiguous option\<close> error; a negative number or a word with a space is an
  argument.  \<open>$\<close> in the negative-number pattern also matches before a
  final newline.\<close>

definition before_eq :: "string \<Rightarrow> string" where
  "before_eq s = takeWhile (\<lambda>c. c \<noteq> CHR ''='') s"

definition after_eq :: "string \<Rightarrow> string" where
  "after_eq s = tl (dropWhile (\<lambda>c. c \<noteq> CHR ''='') s)"

definition option_tuples :: "string \<Rightarrow> (action \<times> string \<times> string option) list" where
  "option_tuples s =
     (if take 2 s = ''--'' then
        (let (pfx, explicit) = (if CHR ''='' \<in> set s then (before_eq s, Some (after_eq s)) else (s, None))
         in [(a, os, explicit). (os, a) \<leftarrow> option_actions, prefix pfx os])
      else
        [(a, os, if os = take 2 s then Some (drop 2 s) else None).
           (os, a) \<leftarrow> option_actions, os = take 2 s \<or> prefix s os])"

definition neg_number_body :: "string \<Rightarrow> bool" where
  "neg_number_body s =
     (case s of
        c # r \<Rightarrow> c = CHR ''-'' \<and>
          ((r \<noteq> [] \<and> (\<forall>x\<in>set r. py_isdigit x))
           \<or> (case dropWhile py_isdigit r of
                d # es \<Rightarrow> d = CHR ''.'' \<and> es \<noteq> [] \<and> (\<forall>x\<in>set es. py_isdigit x)
              | [] \<Rightarrow> False))
      | [] \<Rightarrow> False)"

definition neg_number :: "string \<Rightarrow> bool" where
  "neg_number s =
     (neg_number_body s \<or> (s \<noteq> [] \<and> last s = newline \<and> neg_number_body (butlast s)))"

definition classify :: "string \<Rightarrow> arg_error + token" where
  "classify s =
     (if s = [] \<or> hd s \<noteq> CHR ''-'' then Inr TArg
      else case map_of option_actions s of
        Some a \<Rightarrow> Inr (TOpt a s None)
      | None \<Rightarrow>
          if length s = 1 then Inr TArg
          else case (if CHR ''='' \<in> set s then map_of option_actions (before_eq s) else None) of
            Some a \<Rightarrow> Inr (TOpt a (before_eq s) (Some (after_eq s)))
          | None \<Rightarrow>
              (case option_tuples s of
                 [] \<Rightarrow> (if neg_number s \<or> CHR '' '' \<in> set s then Inr TArg else Inr TUnknown)
               | [(a, os, e)] \<Rightarrow> Inr (TOpt a os e)
               | _ \<Rightarrow> Inl (Ambiguous s)))"

text \<open>Every word after the first \<open>--\<close> is an argument.\<close>

fun classify_all :: "string list \<Rightarrow> arg_error + (string \<times> token) list" where
  "classify_all [] = Inr []"
| "classify_all (s # ss) =
     (if s = ''--'' then Inr ((s, TDash) # map (\<lambda>x. (x, TArg)) ss)
      else case classify s of
        Inl e \<Rightarrow> Inl e
      | Inr t \<Rightarrow> (case classify_all ss of Inl e \<Rightarrow> Inl e | Inr ts \<Rightarrow> Inr ((s, t) # ts)))"

definition pattern :: "token \<Rightarrow> pat" where
  "pattern t = (case t of TArg \<Rightarrow> PA | TDash \<Rightarrow> PDash | _ \<Rightarrow> PO)"

text \<open>\<open>match_argument\<close>: how many of the following words an option takes,
  from the patterns \<open>-*A-*\<close> (\<open>nargs=None\<close>) and \<open>-*A[A-]*\<close>
  (\<open>nargs='+'\<close>).\<close>

definition match_count :: "nargs \<Rightarrow> pat list \<Rightarrow> nat option" where
  "match_count n ps =
     (let k = length (takeWhile (\<lambda>p. p = PDash) ps)
      in case drop k ps of
           PA # rest \<Rightarrow>
             Some (k + 1 + (case n of
                              NargsOne \<Rightarrow> length (takeWhile (\<lambda>p. p = PDash) rest)
                            | NargsPlus \<Rightarrow> length (takeWhile (\<lambda>p. p \<noteq> PO) rest)))
         | _ \<Rightarrow> None)"

text \<open>\<open>_get_values\<close>: the first \<open>--\<close> is removed; one word for a
  single-argument option gives one value, any other number a list; \<open>type\<close>
  conversion errors are \<open>invalid int value\<close>.\<close>

definition get_value :: "option_decl \<Rightarrow> string \<Rightarrow> arg_error + argval" where
  "get_value d x =
     (case opt_type d of
        StrType \<Rightarrow> Inr (AStr x)
      | IntType \<Rightarrow> (case py_int x of Some i \<Rightarrow> Inr (AInt i) | None \<Rightarrow> Inl (InvalidInt x)))"

fun get_value_list :: "option_decl \<Rightarrow> string list \<Rightarrow> arg_error + argval list" where
  "get_value_list d [] = Inr []"
| "get_value_list d (x # xs) =
     (case get_value d x of
        Inl e \<Rightarrow> Inl e
      | Inr v \<Rightarrow> (case get_value_list d xs of Inl e \<Rightarrow> Inl e | Inr vs \<Rightarrow> Inr (v # vs)))"

definition get_values :: "option_decl \<Rightarrow> string list \<Rightarrow> arg_error + argval" where
  "get_values d strs =
     (let vs = remove1 ''--'' strs
      in case (opt_nargs d, vs) of
           (NargsOne, [x]) \<Rightarrow> get_value d x
         | _ \<Rightarrow> (case get_value_list d vs of Inl e \<Rightarrow> Inl e | Inr xs \<Rightarrow> Inr (AList xs)))"

record parse_state =
  ps_ns :: "(string \<times> argval) list"
  ps_seen :: "string list"
  ps_extras :: "string list"

definition store :: "option_decl \<Rightarrow> string list \<Rightarrow> parse_state \<Rightarrow> arg_error + parse_state" where
  "store d strs st =
     (case get_values d strs of
        Inl e \<Rightarrow> Inl e
      | Inr v \<Rightarrow> Inr (st\<lparr>ps_ns := AList.update (dest_of d) v (ps_ns st),
                         ps_seen := ps_seen st @ [opt_string d]\<rparr>))"

definition help_explicit_ok :: "string \<Rightarrow> string option \<Rightarrow> bool" where
  "help_explicit_ok os e =
     (case e of
        None \<Rightarrow> True
      | Some x \<Rightarrow> os = ''-h'' \<and> x \<noteq> [] \<and> (\<forall>c\<in>set x. c = CHR ''h''))"

text \<open>The loop of \<open>_parse_known_args\<close> over the words: words no option
  takes are extras; \<open>-h\<close> prints the help and exits at once; an option
  without its argument, or a bad integer, exits with status 2 at once.\<close>

function consume :: "(string \<times> token) list \<Rightarrow> parse_state \<Rightarrow> arg_outcome + parse_state" where
  "consume [] st = Inr st"
| "consume ((s, TArg) # ts) st = consume ts (st\<lparr>ps_extras := ps_extras st @ [s]\<rparr>)"
| "consume ((s, TDash) # ts) st = consume ts (st\<lparr>ps_extras := ps_extras st @ [s]\<rparr>)"
| "consume ((s, TUnknown) # ts) st = consume ts (st\<lparr>ps_extras := ps_extras st @ [s]\<rparr>)"
| "consume ((s, TOpt HelpAction os e) # ts) st =
     Inl (if help_explicit_ok os e then ArgsHelp else ArgsError (IgnoredExplicit s))"
| "consume ((s, TOpt (StoreAction d) os (Some v)) # ts) st =
     (case store d [v] st of
        Inl e \<Rightarrow> Inl (ArgsError e)
      | Inr st' \<Rightarrow> consume ts st')"
| "consume ((s, TOpt (StoreAction d) os None) # ts) st =
     (case match_count (opt_nargs d) (map (pattern \<circ> snd) ts) of
        None \<Rightarrow> Inl (ArgsError (if opt_nargs d = NargsOne then ExpectedOne os else ExpectedSome os))
      | Some k \<Rightarrow>
          (case store d (map fst (take k ts)) st of
             Inl e \<Rightarrow> Inl (ArgsError e)
           | Inr st' \<Rightarrow> consume (drop k ts) st'))"
  by pat_completeness auto
termination
  by (relation "measure (\<lambda>(ts, _). length ts)") auto

definition init_state :: parse_state where
  "init_state =
     \<lparr>ps_ns = map (\<lambda>d. (dest_of d, opt_default d)) parser_decls, ps_seen = [], ps_extras = []\<rparr>"

text \<open>Defaults first, then the words; a required option never given, or an
  extra word, is an error (exit status 2).\<close>

definition parse_args :: "string list \<Rightarrow> arg_outcome" where
  "parse_args argv =
     (case classify_all argv of
        Inl e \<Rightarrow> ArgsError e
      | Inr toks \<Rightarrow>
          (case consume toks init_state of
             Inl r \<Rightarrow> r
           | Inr st \<Rightarrow>
               (let missing = [opt_string d. d \<leftarrow> parser_decls,
                                 opt_required d \<and> opt_string d \<notin> set (ps_seen st)]
                in if missing \<noteq> [] then ArgsError (Required missing)
                   else if ps_extras st \<noteq> [] then ArgsError (Unrecognized (ps_extras st))
                   else ArgsOk (ps_ns st))))"

section \<open>The namespace read by \<open>main\<close>\<close>

text \<open>\<open>args.mysql_host\<close> \<dots> \<open>args.tables\<close> (lines 554--555, 562, 581, 606):
  \<open>tables\<close> is \<open>None\<close> when not given, read as the empty list (line 562
  tests its truth value).  \<open>None\<close> from \<open>cli_of_ns\<close> is the one case the
  record cannot hold: a single-argument option given as \<open>--opt=--\<close>, which
  \<open>argparse\<close> stores as an empty list.\<close>

definition ns_str :: "(string \<times> argval) list \<Rightarrow> string \<Rightarrow> string option" where
  "ns_str ns k = (case map_of ns k of Some (AStr s) \<Rightarrow> Some s | _ \<Rightarrow> None)"

definition ns_int :: "(string \<times> argval) list \<Rightarrow> string \<Rightarrow> int option" where
  "ns_int ns k = (case map_of ns k of Some (AInt i) \<Rightarrow> Some i | _ \<Rightarrow> None)"

fun strs_of :: "argval list \<Rightarrow> string list option" where
  "strs_of [] = Some []"
| "strs_of (AStr s # vs) = map_option (Cons s) (strs_of vs)"
| "strs_of (_ # vs) = None"

definition ns_tables :: "(string \<times> argval) list \<Rightarrow> string list option" where
  "ns_tables ns =
     (case map_of ns ''tables'' of Some ANone \<Rightarrow> Some [] | Some (AList vs) \<Rightarrow> strs_of vs | _ \<Rightarrow> None)"

definition cli_of_ns :: "(string \<times> argval) list \<Rightarrow> cli_args option" where
  "cli_of_ns ns =
     do {
       mh \<leftarrow> ns_str ns ''mysql_host''; md \<leftarrow> ns_str ns ''mysql_db'';
       mu \<leftarrow> ns_str ns ''mysql_user''; mp \<leftarrow> ns_str ns ''mysql_password'';
       mport \<leftarrow> ns_int ns ''mysql_port'';
       ph \<leftarrow> ns_str ns ''pg_host''; pd \<leftarrow> ns_str ns ''pg_db'';
       pu \<leftarrow> ns_str ns ''pg_user''; pp \<leftarrow> ns_str ns ''pg_password'';
       pport \<leftarrow> ns_int ns ''pg_port'';
       od \<leftarrow> ns_str ns ''output_dir''; ts \<leftarrow> ns_tables ns;
       Some \<lparr>mysql_host = mh, mysql_db = md, mysql_user = mu, mysql_password = mp, mysql_port = mport,
             pg_host = ph, pg_db = pd, pg_user = pu, pg_password = pp, pg_port = pport,
             output_dir = od, tables = ts\<rparr>
     }"

definition parse_cli :: "string list \<Rightarrow> cli_args option" where
  "parse_cli argv = (case parse_args argv of ArgsOk ns \<Rightarrow> cli_of_ns ns | _ \<Rightarrow> None)"

section \<open>\<open>main\<close> from the command line\<close>

datatype 'a cli_result = CliExit int | CliListArgument | CliRan 'a

text \<open>Line 548 and the rest of \<open>main\<close>: \<open>-h\<close> exits with status 0, a
  parse error with status 2, before any connection is attempted.\<close>

definition main_cli ::
  "(conn_params \<Rightarrow> exn + mysql_src) \<Rightarrow> (conn_params \<Rightarrow> exn + 'db) \<Rightarrow> 'db engine \<Rightarrow> string list
   \<Rightarrow> fs \<Rightarrow> text_fs \<Rightarrow> string \<Rightarrow> string \<Rightarrow> string \<Rightarrow> exn + ('db run_state \<times> text_fs) option cli_result" where
  "main_cli mysql_connect pg_connect_fn eng argv fsys tfs start_s end_s duration =
     (case parse_args argv of
        ArgsHelp \<Rightarrow> Inr (CliExit 0)
      | ArgsError _ \<Rightarrow> Inr (CliExit 2)
      | ArgsOk ns \<Rightarrow>
          (case cli_of_ns ns of
             None \<Rightarrow> Inr CliListArgument
           | Some args \<Rightarrow>
               map_sum id CliRan (main mysql_connect pg_connect_fn eng args fsys tfs start_s end_s duration)))"

section \<open>The command line a caller writes\<close>

text \<open>Every value given as \<open>--option=value\<close>, the tables as separate words
  after \<open>--tables\<close>; \<open>render_ok\<close> is what the values need to come back
  unchanged: no value is \<open>--\<close>, and every table name reads as an argument.\<close>

definition opt_eq :: "string \<Rightarrow> string \<Rightarrow> string" where
  "opt_eq os v = os @ CHR ''='' # v"

definition render_args :: "cli_args \<Rightarrow> string list" where
  "render_args a =
     [opt_eq ''--mysql-host'' (mysql_host a), opt_eq ''--mysql-db'' (mysql_db a),
      opt_eq ''--mysql-user'' (mysql_user a), opt_eq ''--mysql-password'' (mysql_password a),
      opt_eq ''--mysql-port'' (py_str_int (mysql_port a)),
      opt_eq ''--pg-host'' (pg_host a), opt_eq ''--pg-db'' (pg_db a),
      opt_eq ''--pg-user'' (pg_user a), opt_eq ''--pg-password'' (pg_password a),
      opt_eq ''--pg-port'' (py_str_int (pg_port a)),
      opt_eq ''--output-dir'' (output_dir a)]
     @ (if tables a = [] then [] else ''--tables'' # tables a)"

definition render_ok :: "cli_args \<Rightarrow> bool" where
  "render_ok a \<longleftrightarrow>
     (\<forall>v\<in>set [mysql_host a, mysql_db a, mysql_user a, mysql_password a,
              pg_host a, pg_db a, pg_user a, pg_password a, output_dir a]. v \<noteq> ''--'')
     \<and> (\<forall>t\<in>set (tables a). t \<noteq> ''--'' \<and> classify t = Inr TArg)"

section \<open>The typing invariant of the parse\<close>

text \<open>Every option a word refers to is one of the declarations; a value has
  the declared type (a list of such values for \<open>nargs\<close>); a namespace is
  typed when every declared \<open>dest\<close> holds a typed value or, for an optional
  option, its default.\<close>

definition action_decl_ok :: "action \<Rightarrow> bool" where
  "action_decl_ok a = (case a of StoreAction d \<Rightarrow> d \<in> set parser_decls | HelpAction \<Rightarrow> True)"

definition tok_decl_ok :: "token \<Rightarrow> bool" where
  "tok_decl_ok t = (case t of TOpt a _ _ \<Rightarrow> action_decl_ok a | _ \<Rightarrow> True)"

definition atom_typed :: "argtype \<Rightarrow> argval \<Rightarrow> bool" where
  "atom_typed ty v = (case (ty, v) of (StrType, AStr _) \<Rightarrow> True | (IntType, AInt _) \<Rightarrow> True | _ \<Rightarrow> False)"

definition val_typed :: "option_decl \<Rightarrow> argval \<Rightarrow> bool" where
  "val_typed d v =
     ((opt_nargs d = NargsOne \<and> atom_typed (opt_type d) v)
      \<or> (case v of AList vs \<Rightarrow> \<forall>x\<in>set vs. atom_typed (opt_type d) x | _ \<Rightarrow> False))"

definition ns_typed :: "(string \<times> argval) list \<Rightarrow> bool" where
  "ns_typed ns \<longleftrightarrow> map fst ns = map dest_of parser_decls \<and>
     (\<forall>d\<in>set parser_decls. case map_of ns (dest_of d) of
        None \<Rightarrow> False
      | Some v \<Rightarrow> val_typed d v \<or> (\<not> opt_required d \<and> v = opt_default d))"

definition state_ok :: "parse_state \<Rightarrow> bool" where
  "state_ok st \<longleftrightarrow> map fst (ps_ns st) = map dest_of parser_decls \<and>
     (\<forall>d\<in>set parser_decls. case map_of (ps_ns st) (dest_of d) of
        None \<Rightarrow> False
      | Some v \<Rightarrow> val_typed d v \<or> (opt_string d \<notin> set (ps_seen st) \<and> v = opt_default d))"

section \<open>Fixtures for the witnesses\<close>

text \<open>The command line of a run over the tables \<open>b\<close> and \<open>c\<close>, and the
  command line giving only the eight required options.\<close>

definition two_tables_args :: cli_args where
  "two_tables_args = fixture_args\<lparr>tables := [''b'', ''c'']\<rparr>"

definition required_only_argv :: "string list" where
  "required_only_argv =
     [opt_eq ''--mysql-host'' ''localhost'', opt_eq ''--mysql-db'' ''shop'',
      opt_eq ''--mysql-user'' ''root'', opt_eq ''--mysql-password'' ''x'',
      opt_eq ''--pg-host'' ''localhost'', opt_eq ''--pg-db'' ''shop'',
      opt_eq ''--pg-user'' ''postgres'', opt_eq ''--pg-password'' ''x'']"

section \<open>Lemmas\<close>

lemma set_nat_str: "c \<in> set (nat_str n) \<Longrightarrow> py_isdigit c"
proof (induction n rule: nat_str.induct)
  case (1 n)
  then show ?case
    by (subst (asm) nat_str.simps) (auto simp: py_isdigit_def split: if_splits)
qed

lemma digit_run_all: "\<forall>c\<in>set cs. py_isdigit c \<Longrightarrow> digit_run cs"
  by (induction cs) (auto simp: py_isdigit_def)

lemma int_digits_nat_str: "int_digits (nat_str n)"
  using set_nat_str [of _ n] nat_str_nonempty [of n]
  by (cases "nat_str n") (auto simp: int_digits_def intro!: digit_run_all)

lemma digits_value_nat_str: "digits_value (nat_str n) = n"
proof -
  have "\<not> py_isdigit (CHR ''_'')" by (simp add: py_isdigit_def)
  then have "\<forall>c\<in>set (nat_str n). c \<noteq> CHR ''_''" using set_nat_str [of _ n] by blast
  then have "filter (\<lambda>c. c \<noteq> CHR ''_'') (nat_str n) = nat_str n" by (simp add: filter_id_conv)
  moreover have "foldl (\<lambda>n c. 10 * n + (of_char c - 48)) 0 (nat_str n) = n"
  proof (induction n rule: nat_str.induct)
    case (1 n)
    show ?case
    proof (cases "n < 10")
      case True
      then show ?thesis by (subst nat_str.simps) simp
    next
      case False
      then show ?thesis using 1 by (subst nat_str.simps) simp
    qed
  qed
  ultimately show ?thesis by (simp add: digits_value_def)
qed

lemma py_isdigit_not_space: "py_isdigit c \<Longrightarrow> \<not> py_isspace c"
  by (simp add: py_isdigit_def py_isspace_def)

lemma py_strip_no_space: "\<forall>c\<in>set s. \<not> py_isspace c \<Longrightarrow> py_strip s = s"
proof (cases "s = []")
  case False
  assume s: "\<forall>c\<in>set s. \<not> py_isspace c"
  then have "dropWhile py_isspace (rev s) = rev s"
    using False last_in_set [of s] by (simp add: dropWhile_eq_self_iff hd_rev)
  moreover have "dropWhile py_isspace s = s"
    using s False by (simp add: dropWhile_eq_self_iff)
  ultimately show ?thesis by (simp add: py_strip_def)
qed (simp add: py_strip_def)

lemma py_str_int_no_space: "\<forall>c\<in>set (py_str_int i). \<not> py_isspace c"
  using set_nat_str py_isdigit_not_space
  by (auto simp: py_str_int_def py_isspace_def)

lemma py_int_unsigned:
  "py_strip t = t \<Longrightarrow> t = c # r \<Longrightarrow> c \<noteq> CHR ''-'' \<Longrightarrow> c \<noteq> CHR ''+''
   \<Longrightarrow> py_int t = (if int_digits t then Some (int (digits_value t)) else None)"
  by (simp add: py_int_def)

lemma py_int_negative:
  "py_strip t = t \<Longrightarrow> t = CHR ''-'' # r
   \<Longrightarrow> py_int t = (if int_digits r then Some (- int (digits_value r)) else None)"
  by (simp add: py_int_def)

lemma py_int_py_str_int: "py_int (py_str_int i) = Some i"
proof -
  have strip: "py_strip (py_str_int i) = py_str_int i"
    by (rule py_strip_no_space [OF py_str_int_no_space])
  show ?thesis
  proof (cases "i < 0")
    case True
    then have "py_str_int i = CHR ''-'' # nat_str (nat (- i))" by (simp add: py_str_int_def)
    from py_int_negative [OF strip this] True show ?thesis
      by (simp add: int_digits_nat_str digits_value_nat_str)
  next
    case False
    obtain c cs where cs: "nat_str (nat i) = c # cs"
      using nat_str_nonempty by (cases "nat_str (nat i)") auto
    then have "py_isdigit c" using set_nat_str [of c "nat i"] by simp
    then have c: "c \<noteq> CHR ''-'' \<and> c \<noteq> CHR ''+''" by (auto simp: py_isdigit_def)
    have e: "py_str_int i = nat_str (nat i)" using False by (simp add: py_str_int_def)
    from py_int_unsigned [OF strip, unfolded e, OF cs] c False show ?thesis
      by (simp add: e int_digits_nat_str digits_value_nat_str)
  qed
qed

lemmas arg_defs = arg_mysql_host_def arg_mysql_db_def arg_mysql_user_def arg_mysql_password_def
  arg_mysql_port_def arg_pg_host_def arg_pg_db_def arg_pg_user_def arg_pg_password_def arg_pg_port_def
  arg_output_dir_def arg_tables_def

lemma option_actions_lookup:
  "map_of option_actions ''--mysql-host'' = Some (StoreAction arg_mysql_host)"
  "map_of option_actions ''--mysql-db'' = Some (StoreAction arg_mysql_db)"
  "map_of option_actions ''--mysql-user'' = Some (StoreAction arg_mysql_user)"
  "map_of option_actions ''--mysql-password'' = Some (StoreAction arg_mysql_password)"
  "map_of option_actions ''--mysql-port'' = Some (StoreAction arg_mysql_port)"
  "map_of option_actions ''--pg-host'' = Some (StoreAction arg_pg_host)"
  "map_of option_actions ''--pg-db'' = Some (StoreAction arg_pg_db)"
  "map_of option_actions ''--pg-user'' = Some (StoreAction arg_pg_user)"
  "map_of option_actions ''--pg-password'' = Some (StoreAction arg_pg_password)"
  "map_of option_actions ''--pg-port'' = Some (StoreAction arg_pg_port)"
  "map_of option_actions ''--output-dir'' = Some (StoreAction arg_output_dir)"
  "map_of option_actions ''--tables'' = Some (StoreAction arg_tables)"
  by (simp_all add: option_actions_def parser_decls_def arg_defs add_argument_def)

lemma option_actions_keys:
  "(os, a) \<in> set option_actions \<Longrightarrow> CHR ''='' \<notin> set os \<and> os \<noteq> [] \<and> hd os = CHR ''-'' \<and> length os \<ge> 2"
  by (auto simp: option_actions_def parser_decls_def arg_defs add_argument_def)

lemma map_of_option_actions_eq:
  "CHR ''='' \<in> set s \<Longrightarrow> map_of option_actions s = None"
  using option_actions_keys by (auto simp: map_of_eq_None_iff)

lemma opt_eq_not_dashdash: "opt_eq os v \<noteq> ''--''"
proof
  assume "opt_eq os v = ''--''"
  then have "CHR ''='' \<in> set ''--''" unfolding opt_eq_def by (metis in_set_conv_decomp)
  then show False by simp
qed

lemma before_eq_opt_eq: "CHR ''='' \<notin> set os \<Longrightarrow> before_eq (opt_eq os v) = os"
  by (induction os) (auto simp: before_eq_def opt_eq_def)

lemma after_eq_opt_eq: "CHR ''='' \<notin> set os \<Longrightarrow> after_eq (opt_eq os v) = v"
  by (induction os) (auto simp: after_eq_def opt_eq_def)

lemma classify_opt_eq_Some:
  assumes "map_of option_actions os = Some a"
  shows "classify (opt_eq os v) = Inr (TOpt a os (Some v))"
proof -
  have k: "CHR ''='' \<notin> set os \<and> os \<noteq> [] \<and> hd os = CHR ''-'' \<and> length os \<ge> 2"
    using option_actions_keys map_of_SomeD [OF assms] by blast
  then have "before_eq (opt_eq os v) = os" and "after_eq (opt_eq os v) = v"
    using before_eq_opt_eq after_eq_opt_eq by blast+
  with k assms show ?thesis
    by (simp add: classify_def opt_eq_def map_of_option_actions_eq)
qed

lemma classify_opt_eq:
  "map_of option_actions os \<noteq> None \<Longrightarrow>
   classify (opt_eq os v) = (case map_of option_actions os of Some a \<Rightarrow> Inr (TOpt a os (Some v)))"
  using classify_opt_eq_Some by fastforce

lemma classify_all_Cons_ok:
  "s \<noteq> ''--'' \<Longrightarrow> classify s = Inr t \<Longrightarrow> classify_all (s # ss) = map_sum id (Cons (s, t)) (classify_all ss)"
  by (cases "classify_all ss") simp_all

lemma classify_all_args:
  "\<forall>t\<in>set ts. t \<noteq> ''--'' \<and> classify t = Inr TArg \<Longrightarrow> classify_all ts = Inr (map (\<lambda>t. (t, TArg)) ts)"
  by (induction ts) (simp_all add: classify_all_Cons_ok)

lemma match_count_args:
  shows "ts \<noteq> [] \<Longrightarrow> match_count NargsPlus (map (\<lambda>t. PA) ts) = Some (length ts)"
proof -
  have tw: "takeWhile (\<lambda>p. p \<noteq> PO) (replicate n PA) = replicate n PA" for n
    by (induction n) simp_all
  show "ts \<noteq> [] \<Longrightarrow> ?thesis"
    by (cases ts) (simp_all add: match_count_def pattern_def comp_def map_replicate_const tw)
qed

lemma classify_tables: "classify ''--tables'' = Inr (TOpt (StoreAction arg_tables) ''--tables'' None)"
  by (simp add: classify_def option_actions_lookup)

lemma py_str_int_not_dashdash: "py_str_int i \<noteq> ''--''"
proof
  assume h: "py_str_int i = ''--''"
  have "\<not> py_isdigit (CHR ''-'')" by (simp add: py_isdigit_def)
  moreover have "CHR ''-'' \<in> set (nat_str (nat \<bar>i\<bar>))"
    using h by (cases "i < 0") (auto simp: py_str_int_def)
  ultimately show False using set_nat_str by blast
qed

lemma classify_all_render:
  assumes "\<forall>t\<in>set (tables a). t \<noteq> ''--'' \<and> classify t = Inr TArg"
  shows "classify_all (render_args a) = Inr ([
     (opt_eq ''--mysql-host'' (mysql_host a), TOpt (StoreAction arg_mysql_host) ''--mysql-host'' (Some (mysql_host a))),
     (opt_eq ''--mysql-db'' (mysql_db a), TOpt (StoreAction arg_mysql_db) ''--mysql-db'' (Some (mysql_db a))),
     (opt_eq ''--mysql-user'' (mysql_user a), TOpt (StoreAction arg_mysql_user) ''--mysql-user'' (Some (mysql_user a))),
     (opt_eq ''--mysql-password'' (mysql_password a), TOpt (StoreAction arg_mysql_password) ''--mysql-password'' (Some (mysql_password a))),
     (opt_eq ''--mysql-port'' (py_str_int (mysql_port a)), TOpt (StoreAction arg_mysql_port) ''--mysql-port'' (Some (py_str_int (mysql_port a)))),
     (opt_eq ''--pg-host'' (pg_host a), TOpt (StoreAction arg_pg_host) ''--pg-host'' (Some (pg_host a))),
     (opt_eq ''--pg-db'' (pg_db a), TOpt (StoreAction arg_pg_db) ''--pg-db'' (Some (pg_db a))),
     (opt_eq ''--pg-user'' (pg_user a), TOpt (StoreAction arg_pg_user) ''--pg-user'' (Some (pg_user a))),
     (opt_eq ''--pg-password'' (pg_password a), TOpt (StoreAction arg_pg_password) ''--pg-password'' (Some (pg_password a))),
     (opt_eq ''--pg-port'' (py_str_int (pg_port a)), TOpt (StoreAction arg_pg_port) ''--pg-port'' (Some (py_str_int (pg_port a)))),
     (opt_eq ''--output-dir'' (output_dir a), TOpt (StoreAction arg_output_dir) ''--output-dir'' (Some (output_dir a)))]
     @ (if tables a = [] then []
        else (''--tables'', TOpt (StoreAction arg_tables) ''--tables'' None) # map (\<lambda>t. (t, TArg)) (tables a)))"
  using assms
  by (simp add: render_args_def classify_opt_eq option_actions_lookup opt_eq_not_dashdash
      classify_tables classify_all_args)

lemma store_str:
  "opt_type d = StrType \<Longrightarrow> opt_nargs d = NargsOne \<Longrightarrow> v \<noteq> ''--'' \<Longrightarrow>
   store d [v] st = Inr (st\<lparr>ps_ns := AList.update (dest_of d) (AStr v) (ps_ns st),
                               ps_seen := ps_seen st @ [opt_string d]\<rparr>)"
  by (simp add: store_def get_values_def get_value_def)

lemma store_int:
  "opt_type d = IntType \<Longrightarrow> opt_nargs d = NargsOne \<Longrightarrow>
   store d [py_str_int i] st = Inr (st\<lparr>ps_ns := AList.update (dest_of d) (AInt i) (ps_ns st),
                                         ps_seen := ps_seen st @ [opt_string d]\<rparr>)"
  by (simp add: store_def get_values_def get_value_def py_str_int_not_dashdash [symmetric] py_int_py_str_int)

lemma arg_fields [simp]:
  "opt_string arg_mysql_host = ''--mysql-host''" "dest_of arg_mysql_host = ''mysql_host''" "opt_required arg_mysql_host"
  "opt_default arg_mysql_host = ANone" "opt_type arg_mysql_host = StrType" "opt_nargs arg_mysql_host = NargsOne"
  "opt_string arg_mysql_db = ''--mysql-db''" "dest_of arg_mysql_db = ''mysql_db''" "opt_required arg_mysql_db"
  "opt_default arg_mysql_db = ANone" "opt_type arg_mysql_db = StrType" "opt_nargs arg_mysql_db = NargsOne"
  "opt_string arg_mysql_user = ''--mysql-user''" "dest_of arg_mysql_user = ''mysql_user''" "opt_required arg_mysql_user"
  "opt_default arg_mysql_user = ANone" "opt_type arg_mysql_user = StrType" "opt_nargs arg_mysql_user = NargsOne"
  "opt_string arg_mysql_password = ''--mysql-password''" "dest_of arg_mysql_password = ''mysql_password''" "opt_required arg_mysql_password"
  "opt_default arg_mysql_password = ANone" "opt_type arg_mysql_password = StrType" "opt_nargs arg_mysql_password = NargsOne"
  "opt_string arg_mysql_port = ''--mysql-port''" "dest_of arg_mysql_port = ''mysql_port''" "\<not> opt_required arg_mysql_port"
  "opt_default arg_mysql_port = AInt 3306" "opt_type arg_mysql_port = IntType" "opt_nargs arg_mysql_port = NargsOne"
  "opt_string arg_pg_host = ''--pg-host''" "dest_of arg_pg_host = ''pg_host''" "opt_required arg_pg_host"
  "opt_default arg_pg_host = ANone" "opt_type arg_pg_host = StrType" "opt_nargs arg_pg_host = NargsOne"
  "opt_string arg_pg_db = ''--pg-db''" "dest_of arg_pg_db = ''pg_db''" "opt_required arg_pg_db"
  "opt_default arg_pg_db = ANone" "opt_type arg_pg_db = StrType" "opt_nargs arg_pg_db = NargsOne"
  "opt_string arg_pg_user = ''--pg-user''" "dest_of arg_pg_user = ''pg_user''" "opt_required arg_pg_user"
  "opt_default arg_pg_user = ANone" "opt_type arg_pg_user = StrType" "opt_nargs arg_pg_user = NargsOne"
  "opt_string arg_pg_password = ''--pg-password''" "dest_of arg_pg_password = ''pg_password''" "opt_required arg_pg_password"
  "opt_default arg_pg_password = ANone" "opt_type arg_pg_password = StrType" "opt_nargs arg_pg_password = NargsOne"
  "opt_string arg_pg_port = ''--pg-port''" "dest_of arg_pg_port = ''pg_port''" "\<not> opt_required arg_pg_port"
  "opt_default arg_pg_port = AInt 5432" "opt_type arg_pg_port = IntType" "opt_nargs arg_pg_port = NargsOne"
  "opt_string arg_output_dir = ''--output-dir''" "dest_of arg_output_dir = ''output_dir''" "\<not> opt_required arg_output_dir"
  "opt_default arg_output_dir = AStr ''./exported_data''" "opt_type arg_output_dir = StrType" "opt_nargs arg_output_dir = NargsOne"
  "opt_string arg_tables = ''--tables''" "dest_of arg_tables = ''tables''" "\<not> opt_required arg_tables"
  "opt_default arg_tables = ANone" "opt_type arg_tables = StrType" "opt_nargs arg_tables = NargsPlus"
  by (simp_all add: arg_defs add_argument_def dest_of_def)

lemma match_count_arg_tokens:
  "ts \<noteq> [] \<Longrightarrow> match_count NargsPlus (map (pattern \<circ> snd \<circ> (\<lambda>t. (t, TArg))) ts) = Some (length ts)"
  using match_count_args [of ts] by (simp add: comp_def pattern_def)

lemma get_value_list_str: "opt_type d = StrType \<Longrightarrow> get_value_list d xs = Inr (map AStr xs)"
  by (induction xs) (simp_all add: get_value_def)

lemma strs_of_map_AStr [simp]: "strs_of (map AStr xs) = Some xs"
  by (induction xs) simp_all

lemma store_tables:
  "ts \<noteq> [] \<Longrightarrow> ''--'' \<notin> set ts \<Longrightarrow>
   consume ((''--tables'', TOpt (StoreAction arg_tables) ''--tables'' None) # map (\<lambda>t. (t, TArg)) ts) st
   = Inr (st\<lparr>ps_ns := AList.update (dest_of arg_tables) (AList (map AStr ts)) (ps_ns st),
              ps_seen := ps_seen st @ [opt_string arg_tables]\<rparr>)"
  by (simp add: match_count_args store_def get_values_def remove1_idem get_value_list_str comp_def pattern_def)

lemma consume_render_base:
  assumes "render_ok a"
  shows "consume ((opt_eq ''--mysql-host'' (mysql_host a), TOpt (StoreAction arg_mysql_host) ''--mysql-host'' (Some (mysql_host a))) #
     (opt_eq ''--mysql-db'' (mysql_db a), TOpt (StoreAction arg_mysql_db) ''--mysql-db'' (Some (mysql_db a))) #
     (opt_eq ''--mysql-user'' (mysql_user a), TOpt (StoreAction arg_mysql_user) ''--mysql-user'' (Some (mysql_user a))) #
     (opt_eq ''--mysql-password'' (mysql_password a), TOpt (StoreAction arg_mysql_password) ''--mysql-password'' (Some (mysql_password a))) #
     (opt_eq ''--mysql-port'' (py_str_int (mysql_port a)), TOpt (StoreAction arg_mysql_port) ''--mysql-port'' (Some (py_str_int (mysql_port a)))) #
     (opt_eq ''--pg-host'' (pg_host a), TOpt (StoreAction arg_pg_host) ''--pg-host'' (Some (pg_host a))) #
     (opt_eq ''--pg-db'' (pg_db a), TOpt (StoreAction arg_pg_db) ''--pg-db'' (Some (pg_db a))) #
     (opt_eq ''--pg-user'' (pg_user a), TOpt (StoreAction arg_pg_user) ''--pg-user'' (Some (pg_user a))) #
     (opt_eq ''--pg-password'' (pg_password a), TOpt (StoreAction arg_pg_password) ''--pg-password'' (Some (pg_password a))) #
     (opt_eq ''--pg-port'' (py_str_int (pg_port a)), TOpt (StoreAction arg_pg_port) ''--pg-port'' (Some (py_str_int (pg_port a)))) #
     (opt_eq ''--output-dir'' (output_dir a), TOpt (StoreAction arg_output_dir) ''--output-dir'' (Some (output_dir a))) # rest) init_state =
    consume rest \<lparr>ps_ns = [(''mysql_host'', AStr (mysql_host a)),
        (''mysql_db'', AStr (mysql_db a)),
        (''mysql_user'', AStr (mysql_user a)),
        (''mysql_password'', AStr (mysql_password a)),
        (''mysql_port'', AInt (mysql_port a)),
        (''pg_host'', AStr (pg_host a)),
        (''pg_db'', AStr (pg_db a)),
        (''pg_user'', AStr (pg_user a)),
        (''pg_password'', AStr (pg_password a)),
        (''pg_port'', AInt (pg_port a)),
        (''output_dir'', AStr (output_dir a)),
        (''tables'', ANone)],
      ps_seen = [''--mysql-host'', ''--mysql-db'', ''--mysql-user'', ''--mysql-password'', ''--mysql-port'', ''--pg-host'', ''--pg-db'', ''--pg-user'', ''--pg-password'', ''--pg-port'', ''--output-dir''],
      ps_extras = []\<rparr>"
  using assms
  by (simp add: render_ok_def store_str store_int init_state_def parser_decls_def)

lemma parse_render_args:
  assumes "render_ok a"
  shows "parse_cli (render_args a) = Some a"
proof (cases "tables a = []")
  case True
  with assms show ?thesis
    by (simp del: consume.simps
        add: consume.simps(1) parse_cli_def parse_args_def classify_all_render consume_render_base [OF assms]
       parser_decls_def cli_of_ns_def ns_str_def ns_int_def ns_tables_def)
next
  case False
  moreover have ok: "\<forall>t\<in>set (tables a). t \<noteq> ''--'' \<and> classify t = Inr TArg"
    using assms by (simp add: render_ok_def)
  moreover have "''--'' \<notin> set (tables a)" using ok by auto
  ultimately show ?thesis
    by (simp del: consume.simps
        add: parse_cli_def parse_args_def classify_all_render [OF ok] consume_render_base [OF assms] store_tables
       parser_decls_def cli_of_ns_def ns_str_def ns_int_def ns_tables_def)
qed

lemma option_actions_decl_ok: "(os, a) \<in> set option_actions \<Longrightarrow> action_decl_ok a"
  by (auto simp: option_actions_def action_decl_ok_def)

lemma option_tuples_mem: "(a, os, e) \<in> set (option_tuples s) \<Longrightarrow> (os, a) \<in> set option_actions"
  by (auto simp: option_tuples_def split: if_splits prod.splits)

lemma option_tuples_single_ok: "option_tuples s = [(a, os, e)] \<Longrightarrow> action_decl_ok a"
  using option_tuples_mem [of a os e s] option_actions_decl_ok by auto

lemma classify_decl_ok: "classify s = Inr t \<Longrightarrow> tok_decl_ok t"
  by (auto simp: classify_def tok_decl_ok_def option_actions_decl_ok option_tuples_single_ok
      dest!: map_of_SomeD split: if_splits option.splits list.splits)

lemma tok_decl_ok_simps [simp]: "tok_decl_ok TArg" "tok_decl_ok TDash" "tok_decl_ok TUnknown"
  by (simp_all add: tok_decl_ok_def)

lemma classify_all_decl_ok: "classify_all ss = Inr toks \<Longrightarrow> \<forall>(s, t)\<in>set toks. tok_decl_ok t"
proof (induction ss arbitrary: toks)
  case (Cons s ss)
  then show ?case
    by (auto simp: classify_decl_ok split: if_splits sum.splits)
qed simp

lemma get_value_list_typed: "get_value_list d xs = Inr vs \<Longrightarrow> \<forall>x\<in>set vs. atom_typed (opt_type d) x"
proof (induction xs arbitrary: vs)
  case (Cons x xs)
  then show ?case
    by (auto simp: get_value_def atom_typed_def split: sum.splits argtype.splits option.splits)
qed simp

lemma get_value_typed: "get_value d x = Inr v \<Longrightarrow> atom_typed (opt_type d) v"
  by (auto simp: get_value_def atom_typed_def split: argtype.splits option.splits)

lemma get_values_typed:
  assumes "get_values d strs = Inr v"
  shows "val_typed d v"
proof (cases "opt_nargs d = NargsOne \<and> length (remove1 ''--'' strs) = 1")
  case True
  then obtain x where x: "remove1 ''--'' strs = [x]" by (auto simp: length_Suc_conv)
  with True assms have "get_value d x = Inr v" by (simp add: get_values_def)
  then show ?thesis using True by (simp add: val_typed_def get_value_typed)
next
  case False
  then have "get_values d strs =
      (case get_value_list d (remove1 ''--'' strs) of Inl e \<Rightarrow> Inl e | Inr xs \<Rightarrow> Inr (AList xs))"
    by (cases "opt_nargs d"; cases "remove1 ''--'' strs" rule: remdups_adj.cases)
       (simp_all add: get_values_def del: get_value_list.simps)
  with assms obtain xs where "get_value_list d (remove1 ''--'' strs) = Inr xs" "v = AList xs"
    by (auto split: sum.splits)
  then show ?thesis using get_value_list_typed by (simp add: val_typed_def)
qed

lemma map_fst_update: "k \<in> set (map fst al) \<Longrightarrow> map fst (AList.update k v al) = map fst al"
  by (induction al) auto

lemma parser_decls_distinct:
  "distinct (map dest_of parser_decls)" "distinct (map opt_string parser_decls)"
  by (simp_all add: parser_decls_def)

lemma dest_of_inj: "d \<in> set parser_decls \<Longrightarrow> d' \<in> set parser_decls \<Longrightarrow> dest_of d = dest_of d' \<Longrightarrow> d = d'"
  using parser_decls_distinct(1) by (simp add: distinct_map inj_on_def)

lemma opt_string_inj:
  "d \<in> set parser_decls \<Longrightarrow> d' \<in> set parser_decls \<Longrightarrow> opt_string d = opt_string d' \<Longrightarrow> d = d'"
  using parser_decls_distinct(2) by (simp add: distinct_map inj_on_def)

lemma store_ok:
  assumes "state_ok st" "d \<in> set parser_decls" "store d strs st = Inr st'"
  shows "state_ok st'"
proof -
  obtain v where v: "get_values d strs = Inr v"
    and st': "st' = st\<lparr>ps_ns := AList.update (dest_of d) v (ps_ns st), ps_seen := ps_seen st @ [opt_string d]\<rparr>"
    using assms(3) by (auto simp: store_def split: sum.splits)
  have k: "dest_of d \<in> set (map fst (ps_ns st))"
    using assms(1,2) by (simp add: state_ok_def)
  have typed: "val_typed d v" by (rule get_values_typed [OF v])
  show ?thesis unfolding state_ok_def
  proof (intro conjI ballI)
    show "map fst (ps_ns st') = map dest_of parser_decls"
      using assms(1) k by (simp add: state_ok_def st' map_fst_update)
  next
    fix d' assume d': "d' \<in> set parser_decls"
    show "case map_of (ps_ns st') (dest_of d') of None \<Rightarrow> False
      | Some v \<Rightarrow> val_typed d' v \<or> (opt_string d' \<notin> set (ps_seen st') \<and> v = opt_default d')"
    proof (cases "d' = d")
      case True
      then show ?thesis using typed by (simp add: st' update_conv')
    next
      case False
      then have "dest_of d' \<noteq> dest_of d" "opt_string d' \<noteq> opt_string d"
        using d' assms(2) dest_of_inj opt_string_inj by blast+
      moreover have "case map_of (ps_ns st) (dest_of d') of None \<Rightarrow> False
        | Some v \<Rightarrow> val_typed d' v \<or> (opt_string d' \<notin> set (ps_seen st) \<and> v = opt_default d')"
        using assms(1) d' by (simp add: state_ok_def)
      ultimately show ?thesis by (simp add: st' update_conv' split: option.splits)
    qed
  qed
qed

lemma state_ok_extras [simp]: "state_ok (st\<lparr>ps_extras := x\<rparr>) = state_ok st"
  by (simp add: state_ok_def split: option.splits)

lemma consume_ok:
  "state_ok st \<Longrightarrow> \<forall>(s, t)\<in>set toks. tok_decl_ok t \<Longrightarrow> consume toks st = Inr st' \<Longrightarrow> state_ok st'"
proof (induction toks st rule: consume.induct)
  case (6 s d os v ts st)
  then show ?case
    by (auto simp: tok_decl_ok_def action_decl_ok_def intro: store_ok split: sum.splits)
next
  case (7 s d os ts st)
  from 7(4) obtain k st1 where m: "match_count (opt_nargs d) (map (pattern \<circ> snd) ts) = Some k"
    and s1: "store d (map fst (take k ts)) st = Inr st1" and c: "consume (drop k ts) st1 = Inr st'"
    by (auto split: option.splits sum.splits)
  have "d \<in> set parser_decls" using 7(3) by (simp add: tok_decl_ok_def action_decl_ok_def)
  then have "state_ok st1" using store_ok 7(2) s1 by blast
  moreover have "\<forall>(s, t)\<in>set (drop k ts). tok_decl_ok t" using 7(3) by (auto dest: in_set_dropD)
  ultimately show ?case using 7(1) m s1 c by blast
qed simp_all

lemma init_state_ok: "state_ok init_state"
  by (simp add: state_ok_def init_state_def parser_decls_def)

lemma consume_Inl: "consume toks st = Inl r \<Longrightarrow> r = ArgsHelp \<or> (\<exists>e. r = ArgsError e)"
  by (induction toks st rule: consume.induct) (auto split: if_splits sum.splits option.splits)

lemma parse_args_typed:
  assumes "parse_args argv = ArgsOk ns"
  shows "ns_typed ns"
proof -
  obtain toks st where toks: "classify_all argv = Inr toks" and st: "consume toks init_state = Inr st"
    and req: "\<forall>d\<in>set parser_decls. opt_required d \<longrightarrow> opt_string d \<in> set (ps_seen st)"
    and ns: "ns = ps_ns st"
    using assms by (auto simp: parse_args_def Let_def filter_empty_conv dest: consume_Inl
        split: sum.splits if_splits)
  have "state_ok st"
    using consume_ok [OF init_state_ok classify_all_decl_ok [OF toks] st] .
  with req show ?thesis
    by (fastforce simp: state_ok_def ns_typed_def ns split: option.splits)
qed

lemma ns_typed_value:
  assumes "ns_typed ns" "d \<in> set parser_decls"
  shows "\<exists>v. map_of ns (dest_of d) = Some v \<and> (val_typed d v \<or> (\<not> opt_required d \<and> v = opt_default d))"
  using assms by (auto simp: ns_typed_def split: option.splits)

lemma strs_of_strings: "\<forall>x\<in>set vs. atom_typed StrType x \<Longrightarrow> strs_of vs \<noteq> None"
  by (induction vs rule: strs_of.induct) (auto simp: atom_typed_def)

lemma parse_required_only:
  "parse_args required_only_argv = ArgsOk
     [(''mysql_host'', AStr ''localhost''), (''mysql_db'', AStr ''shop''), (''mysql_user'', AStr ''root''),
      (''mysql_password'', AStr ''x''), (''mysql_port'', AInt 3306), (''pg_host'', AStr ''localhost''),
      (''pg_db'', AStr ''shop''), (''pg_user'', AStr ''postgres''), (''pg_password'', AStr ''x''),
      (''pg_port'', AInt 5432), (''output_dir'', AStr ''./exported_data''), (''tables'', ANone)]"
  by (simp add: required_only_argv_def parse_args_def classify_opt_eq option_actions_lookup
      opt_eq_not_dashdash store_str init_state_def parser_decls_def)

section \<open>Properties\<close>

text \<open>
  Run from a command line that gives every option as
  \<open>--option=value\<close> and the tables after \<open>--tables\<close>, \<open>main\<close> parses
  exactly the values written and runs the migration on them: the command line
  and the run of \<open>MainEntry\<close> agree.
\<close>

theorem main_cli_render:
  assumes "render_ok a"
  shows "main_cli mc pc eng (render_args a) fsys tfs s1 s2 s3 = map_sum id CliRan (main mc pc eng a fsys tfs s1 s2 s3)"
proof -
  obtain ns where "parse_args (render_args a) = ArgsOk ns" and "cli_of_ns ns = Some a"
    using parse_render_args [OF assms] by (auto simp: parse_cli_def split: arg_outcome.splits)
  then show ?thesis by (simp add: main_cli_def)
qed

theorem main_cli_render_witness:
  "main_cli fixture_mysql_connect fixture_pg_connect b_refused_engine (render_args two_tables_args)
     out_fs writable_dir ''s'' ''e'' ''d''
   = map_sum id CliRan (main fixture_mysql_connect fixture_pg_connect b_refused_engine two_tables_args
       out_fs writable_dir ''s'' ''e'' ''d'')"
proof -
  have h: "render_ok two_tables_args"
    by (simp add: render_ok_def two_tables_args_def fixture_args_def classify_def)
  show ?thesis by (rule main_cli_render [OF h])
qed

text \<open>
  C14. Round trip of the command line: writing the arguments of a run as
  \<open>--option=value\<close> words, tables after \<open>--tables\<close>, and parsing them with
  the declarations of lines 531--546 gives back the same arguments, ports
  through \<open>str()\<close> and \<open>int()\<close>.
\<close>

theorem parse_render_roundtrip:
  assumes "render_ok a"
  shows "parse_cli (render_args a) = Some a"
  using assms by (rule parse_render_args)

theorem parse_render_roundtrip_witness:
  "parse_cli (render_args two_tables_args) = Some two_tables_args"
proof -
  have h: "render_ok two_tables_args"
    by (simp add: render_ok_def two_tables_args_def fixture_args_def classify_def)
  show ?thesis by (rule parse_render_roundtrip [OF h])
qed

text \<open>
  C15. The declarations fit what \<open>main\<close> reads: whenever
  \<open>parse_args\<close> succeeds, the namespace holds a string for each of the host,
  database, user, password and output-directory options, an integer for each
  port (\<open>type=int\<close>) and \<open>None\<close> or a list of strings for the tables
  (\<open>nargs='+'\<close>), so that \<open>args.mysql_host\<close> \<dots> \<open>args.tables\<close> give a
  complete \<open>cli_args\<close>; the one exception is a single-argument option stored
  as a list (\<open>--opt=--\<close>).
\<close>

theorem parse_args_gives_cli_args:
  assumes "parse_args argv = ArgsOk ns"
    and "\<forall>d\<in>set parser_decls. opt_nargs d = NargsOne \<longrightarrow> (\<forall>xs. map_of ns (dest_of d) \<noteq> Some (AList xs))"
  shows "\<exists>a. cli_of_ns ns = Some a"
proof -
  have typed: "ns_typed ns" by (rule parse_args_typed [OF assms(1)])
  have str: "\<exists>s. map_of ns (dest_of d) = Some (AStr s)"
    if "d \<in> set parser_decls" "opt_type d = StrType" "opt_nargs d = NargsOne"
       "opt_required d \<or> (\<exists>s. opt_default d = AStr s)" for d
    using ns_typed_value [OF typed that(1)] assms(2) that
    by (auto simp: val_typed_def atom_typed_def split: argval.splits)
  have int: "\<exists>i. map_of ns (dest_of d) = Some (AInt i)"
    if "d \<in> set parser_decls" "opt_type d = IntType" "opt_nargs d = NargsOne"
       "\<exists>i. opt_default d = AInt i" for d
    using ns_typed_value [OF typed that(1)] assms(2) that
    by (auto simp: val_typed_def atom_typed_def split: argval.splits)
  have tab: "ns_tables ns \<noteq> None"
  proof -
    obtain v where v: "map_of ns ''tables'' = Some v"
      and t: "val_typed arg_tables v \<or> v = ANone"
      using ns_typed_value [OF typed, of arg_tables] by (auto simp: parser_decls_def)
    then show ?thesis
      by (cases v) (auto simp: ns_tables_def val_typed_def dest: strs_of_strings)
  qed
  show ?thesis
    using str [of arg_mysql_host] str [of arg_mysql_db] str [of arg_mysql_user] str [of arg_mysql_password]
      str [of arg_pg_host] str [of arg_pg_db] str [of arg_pg_user] str [of arg_pg_password]
      str [of arg_output_dir] int [of arg_mysql_port] int [of arg_pg_port] tab
    by (auto simp: parser_decls_def cli_of_ns_def ns_str_def ns_int_def)
qed

theorem parse_args_gives_cli_args_witness:
  "parse_args required_only_argv = ArgsOk
     [(''mysql_host'', AStr ''localhost''), (''mysql_db'', AStr ''shop''), (''mysql_user'', AStr ''root''),
      (''mysql_password'', AStr ''x''), (''mysql_port'', AInt 3306), (''pg_host'', AStr ''localhost''),
      (''pg_db'', AStr ''shop''), (''pg_user'', AStr ''postgres''), (''pg_password'', AStr ''x''),
      (''pg_port'', AInt 5432), (''output_dir'', AStr ''./exported_data''), (''tables'', ANone)]
   \<and> (\<exists>a. cli_of_ns
     [(''mysql_host'', AStr ''localhost''), (''mysql_db'', AStr ''shop''), (''mysql_user'', AStr ''root''),
      (''mysql_password'', AStr ''x''), (''mysql_port'', AInt 3306), (''pg_host'', AStr ''localhost''),
      (''pg_db'', AStr ''shop''), (''pg_user'', AStr ''postgres''), (''pg_password'', AStr ''x''),
      (''pg_port'', AInt 5432), (''output_dir'', AStr ''./exported_data''), (''tables'', ANone)] = Some a)"
proof -
  have h2: "\<forall>d\<in>set parser_decls. opt_nargs d = NargsOne \<longrightarrow> (\<forall>xs. map_of
     [(''mysql_host'', AStr ''localhost''), (''mysql_db'', AStr ''shop''), (''mysql_user'', AStr ''root''),
      (''mysql_password'', AStr ''x''), (''mysql_port'', AInt 3306), (''pg_host'', AStr ''localhost''),
      (''pg_db'', AStr ''shop''), (''pg_user'', AStr ''postgres''), (''pg_password'', AStr ''x''),
      (''pg_port'', AInt 5432), (''output_dir'', AStr ''./exported_data''), (''tables'', ANone)] (dest_of d) \<noteq> Some (AList xs))"
    by (simp add: parser_decls_def)
  show ?thesis using parse_required_only parse_args_gives_cli_args [OF parse_required_only h2] by simp
qed

text \<open>
  A value that reads as an option cannot follow its option as a
  separate word: \<open>--mysql-password -s3cret\<close> ends the program with the
  error \<open>expected one argument\<close> (exit status 2) before any connection; such a
  value has to be written \<open>--mysql-password=-s3cret\<close>.
\<close>

theorem dash_value_rejected:
  assumes "map_of option_actions os = Some (StoreAction d)" "opt_nargs d = NargsOne"
    and "classify_all (v # rest) = Inr ((v, t) # toks)" "pattern t = PO"
  shows "parse_args (os # v # rest) = ArgsError (ExpectedOne os)"
proof -
  have "map_of option_actions ''--'' = None"
    by (simp add: option_actions_def parser_decls_def)
  then have k: "os \<noteq> [] \<and> hd os = CHR ''-'' \<and> os \<noteq> ''--''"
    using option_actions_keys [OF map_of_SomeD [OF assms(1)]] assms(1) by auto
  then have "classify_all (os # v # rest) = Inr ((os, TOpt (StoreAction d) os None) # (v, t) # toks)"
    using assms(1,3) by (simp add: classify_def)
  with assms(2,4) show ?thesis
    by (simp add: parse_args_def match_count_def)
qed

theorem dash_value_rejected_witness:
  "parse_args [''--mysql-password'', ''-s3cret''] = ArgsError (ExpectedOne ''--mysql-password'')"
proof -
  have "classify_all [''-s3cret''] = Inr [(''-s3cret'', TUnknown)]"
    by code_simp
  moreover have "map_of option_actions ''--mysql-password'' = Some (StoreAction arg_mysql_password)"
    by (rule option_actions_lookup(4))
  ultimately show ?thesis
    using dash_value_rejected [of "''--mysql-password''" arg_mysql_password "''-s3cret''" "[]" TUnknown "[]"]
    by (simp add: pattern_def)
qed

text \<open>
  C16. With only the eight required options given, the ports are 3306 and
  5432, the output directory \<open>./exported_data\<close> and the table list empty
  (so every table of the database is migrated).
\<close>

theorem parse_required_defaults:
  assumes "\<forall>v\<in>set [h1, d1, u1, p1, h2, d2, u2, p2]. v \<noteq> ''--''"
  shows "parse_cli [opt_eq ''--mysql-host'' h1, opt_eq ''--mysql-db'' d1,
                    opt_eq ''--mysql-user'' u1, opt_eq ''--mysql-password'' p1,
                    opt_eq ''--pg-host'' h2, opt_eq ''--pg-db'' d2,
                    opt_eq ''--pg-user'' u2, opt_eq ''--pg-password'' p2]
         = Some \<lparr>mysql_host = h1, mysql_db = d1, mysql_user = u1, mysql_password = p1, mysql_port = 3306,
                 pg_host = h2, pg_db = d2, pg_user = u2, pg_password = p2, pg_port = 5432,
                 output_dir = ''./exported_data'', tables = []\<rparr>"
  using assms
  by (simp add: parse_cli_def parse_args_def classify_opt_eq option_actions_lookup opt_eq_not_dashdash
      store_str init_state_def parser_decls_def cli_of_ns_def ns_str_def ns_int_def ns_tables_def)

theorem parse_required_defaults_witness:
  "parse_cli required_only_argv
   = Some (fixture_args\<lparr>output_dir := ''./exported_data''\<rparr>)"
proof -
  have h: "\<forall>v\<in>set [''localhost'', ''shop'', ''root'', ''x'', ''localhost'', ''shop'', ''postgres'', ''x'']. v \<noteq> ''--''"
    by simp
  show ?thesis
    using parse_required_defaults [OF h] by (simp add: required_only_argv_def fixture_args_def)
qed

end
