(* ===== verification/ExportLoop.thy ===== *)
theory ExportLoop
  imports DataTransfer "HOL-Library.While_Combinator"
begin

text \<open>
  The export loop of \<open>export_table_data\<close> (lines 169--187) written as the
  source writes it, a \<open>while\<close> statement: \<open>rows = cursor.fetchmany(1000)\<close>
  before the loop and at the end of every iteration, \<open>while rows:\<close> as the
  condition.  The loop state is the rest of the cursor, the records written so
  far and the last batch fetched.  \<open>while_option\<close> gives \<open>None\<close> for a loop
  that does not stop, so the theorem below is a termination proof by a
  measure (the rows not yet written) as well as the equivalence with the
  recursive \<open>export_rows\<close> that \<open>export_table_data\<close> uses.
\<close>

type_synonym export_state = "sqlval list list \<times> string list list \<times> sqlval list list"

definition export_step :: "export_state \<Rightarrow> export_state" where
  "export_step st =
     (case st of (cursor, written, rows) \<Rightarrow>
        (drop 1000 cursor, written @ map (\<lambda>row. map csv_field (clean_row row)) rows,
         take 1000 cursor))"

definition export_loop :: "sqlval list list \<Rightarrow> string list list \<Rightarrow> string list list option" where
  "export_loop cursor written =
     map_option (\<lambda>(_, w, _). w)
       (while_option (\<lambda>(_, _, rows). rows \<noteq> []) export_step
          (drop 1000 cursor, written, take 1000 cursor))"

section \<open>Lemmas\<close>

text \<open>The loop invariant: what is written, followed by the cleaned last batch
  and the rest of the cursor, is what the whole cursor gives; an empty batch
  means an exhausted cursor.\<close>

definition export_inv :: "sqlval list list \<Rightarrow> string list list \<Rightarrow> export_state \<Rightarrow> bool" where
  "export_inv cursor written st \<longleftrightarrow>
     (case st of (cur, w, rows) \<Rightarrow>
        w @ map (\<lambda>row. map csv_field (clean_row row)) (rows @ cur)
          = written @ map (\<lambda>row. map csv_field (clean_row row)) cursor
        \<and> (rows = [] \<longrightarrow> cur = []))"

lemma map_take_drop: "map f (take n xs) @ map f (drop n xs) = map f xs"
  by (metis append_take_drop_id map_append)

lemma export_inv_init: "export_inv cursor written (drop 1000 cursor, written, take 1000 cursor)"
  by (simp add: export_inv_def map_take_drop)

lemma export_inv_step:
  "export_inv cursor written st \<Longrightarrow> export_inv cursor written (export_step st)"
  by (auto simp: export_inv_def export_step_def map_take_drop split: prod.splits)

lemma export_loop_halts:
  "\<exists>st. while_option (\<lambda>(_, _, rows). rows \<noteq> []) export_step
          (drop 1000 cursor, written, take 1000 cursor) = Some st"
proof (rule measure_while_option_Some [where P = "\<lambda>_. True" and f = "\<lambda>(cur, _, rows). length cur + length rows"])
  fix st :: export_state
  assume "(case st of (_, _, rows) \<Rightarrow> rows \<noteq> [])"
  then show "True \<and> (case export_step st of (cur, _, rows) \<Rightarrow> length cur + length rows)
                   < (case st of (cur, _, rows) \<Rightarrow> length cur + length rows)"
    by (auto simp: export_step_def min_def split: prod.splits)
qed simp

section \<open>Properties\<close>

text \<open>
  C13. The \<open>while rows:\<close> loop of the export always stops, and what it has
  written when it stops is what the recursive model \<open>export_rows\<close> writes:
  the header and every row of the cursor, cleaned, in order.
\<close>

theorem export_loop_terminates:
  "export_loop cursor written = Some (export_rows cursor written)"
proof -
  obtain st where st: "while_option (\<lambda>(_, _, rows). rows \<noteq> []) export_step
      (drop 1000 cursor, written, take 1000 cursor) = Some st"
    using export_loop_halts by blast
  have inv: "export_inv cursor written st"
    by (rule while_option_rule [OF _ st]) (auto intro: export_inv_step export_inv_init)
  have stop: "(case st of (_, _, rows) \<Rightarrow> rows = [])"
    using while_option_stop [OF st] by (auto split: prod.splits)
  obtain cur w rows where s: "st = (cur, w, rows)" by (cases st) auto
  have "w = written @ map (\<lambda>row. map csv_field (clean_row row)) cursor"
    using inv stop by (auto simp: s export_inv_def)
  then show ?thesis using st s by (simp add: export_loop_def export_rows_eq)
qed

end
