(* ===== verification/Spec2Isabelle.thy ===== *)
theory Spec2Isabelle
  imports CommandLine ExportLoop
begin

text \<open>
  A verification development of the MySQL-to-PostgreSQL migration script
  \<open>src/main.py\<close> (one Python file).  The script reads a MySQL schema and its
  rows, creates the tables in PostgreSQL, moves the data through one CSV file
  per table, then adds primary keys, indexes, sequence settings and, in one
  final pass, the foreign keys.  Both databases are reached through one
  connection each, held for the whole run; the PostgreSQL connection is not in
  autocommit mode, so every function of the script ends its statements with
  \<open>commit()\<close> or \<open>rollback()\<close>.

  Theories, leaf first:
  \<^item> \<open>Prelude\<close>: the Python exceptions and string primitives the script uses
    (\<open>str.join\<close>, \<open>str.replace\<close>, \<open>str.strip\<close>, \<open>str.split\<close>,
    \<open>str.lower\<close>, \<open>s[-n:]\<close>, \<open>str(int)\<close>), insertion-ordered
    dictionaries as association lists, and their lemmas, e.g. that
    \<open>str.replace\<close> leaves no occurrence of the replaced text.
  \<^item> \<open>TypeMapper\<close>: \<open>mysql_to_postgresql_type\<close> (lines 67--107), its
    dictionary kept in source order.  Lemmas: the result is always one of the
    specification's target types; the \<open>tinyint\<close> rules; the fallback to
    \<open>TEXT\<close>; the whole table evaluated entry by entry.
  \<^item> \<open>Introspect\<close>: the MySQL side.  The connection is the record
    \<open>mysql_src\<close> with one field per catalog query of the script, each giving
    the rows in the query's \<open>ORDER BY\<close> order or an exception.
    \<open>get_tables\<close>, \<open>get_table_schema\<close>, \<open>get_primary_keys\<close>,
    \<open>get_foreign_keys\<close>, \<open>get_indexes\<close> (lines 40--65, 268--347,
    387--418).  The grouping loops are proved equal to a declarative grouping
    by key in order of first appearance.
  \<^item> \<open>DDL\<close>: the SQL text the script builds, character for character:
    column clauses and \<open>CREATE TABLE\<close> (lines 113--131), the primary key
    (293--295), foreign keys (359--371), indexes (430--438).  Lemmas: the shape
    of each clause, that \<open>NOW()\<close> never survives the default rewriting, that
    the statement splits back into its column clauses, and the name clash of
    foreign keys.
  \<^item> \<open>Target\<close>: the PostgreSQL connection as the environment the script
    runs in (modelled from PostgreSQL's documented behaviour, not code of the
    repository): an arbitrary deterministic server \<open>'db engine\<close>, the
    transaction status with the aborted state, commit and rollback, and a log of
    committed statements.  A step relation and its invariant (the committed
    state is the replay of the committed log) proved by rule induction.
  \<^item> \<open>Schema\<close>: \<open>create_postgresql_table\<close>, \<open>migrate_constraints\<close>,
    \<open>migrate_foreign_keys\<close>, \<open>migrate_indexes\<close> as runs on the connection.
    The foreign-key and index passes are proved to be best effort: from an idle
    connection they commit exactly the statements the server accepts, in order,
    one refused statement not preventing the later ones.
  \<^item> \<open>DataTransfer\<close>: \<open>export_table_data\<close> and \<open>import_table_data\<close>
    (lines 146--266) over a file system record in which a CSV file is the list
    of its records.  Lemmas: the exported file holds every row cleaned; the
    1000-row export loop equals a single map; the fallback loses no record,
    commits whole batches of 100 when it fails, and always finishes; the three
    possible committed logs of an import; on any file, a failed row count after
    a committed \<open>COPY\<close> loads every record twice; PostgreSQL's
    \<open>bytea\<close> input does not restore the field the export writes for a
    binary value (\<open>bytes_hex\<close> has no \<open>\x\<close> prefix).
  \<^item> \<open>Sequences\<close>: \<open>reset_sequences\<close> (lines 454--492), its catalog
    query, the sequence name taken between the first two quotes and one
    \<open>setval\<close> per serial column.  The \<open>setval\<close> arguments are evaluated
    with SQL's \<open>MAX\<close>/\<open>COALESCE\<close>, and \<open>setval\<close>/\<open>nextval\<close> on a
    bounded sequence are modelled from PostgreSQL's documentation.  Lemmas:
    the next value exceeds every value of the column; the name round trip;
    the refusal below the sequence's minimum; failure leaves the transaction
    aborted (there is no rollback).
  \<^item> \<open>Orchestrator\<close>: \<open>main\<close> after the connections are open (lines
    562--609) and the report text (494--517).  The state is the record
    \<open>run_state\<close> (connection, file system, the two lists).  The
    specification's orchestrator (section 4.6) is the abstract run
    \<open>spec_run\<close> over the pair of lists; the loop is proved to refine it,
    and one iteration on any table is proved to append it to exactly one list,
    to the success list exactly when its \<open>CREATE TABLE\<close>, export and
    import all succeed (the resilience of section 4.6).  Further lemmas: every
    completed run accounts for each table once and keeps the connection
    invariant of \<open>Target\<close>.  The divergences proved are the uncaught
    column-query exception (no report) and the aborted transaction a failed
    sequence reset passes on to the next table and to the foreign-key pass.
  \<^item> \<open>ExportLoop\<close>: the export loop as the source's \<open>while rows:\<close>
    statement over \<open>fetchmany(1000)\<close>, as a \<open>while_option\<close>; its
    termination by the measure of unwritten rows and its equality with the
    recursive \<open>export_rows\<close> through a loop invariant.
  \<^item> \<open>MainEntry\<close>: \<open>connect_to_mysql\<close>, \<open>connect_to_postgresql\<close>
    (lines 8--38), the write of \<open>migration_report.txt\<close> (519--525) and
    \<open>main\<close> (527--615) with the parsed command line as the record
    \<open>cli_args\<close>.  Lemmas: a failed connection returns before any table;
    a completed run leaves the report of that run in the working directory
    and closes the connection with no open transaction.
  \<^item> \<open>CommandLine\<close>: the \<open>argparse\<close> declarations of \<open>main\<close> (lines
    528--546), one definition per \<open>add_argument\<close>, and
    \<open>parser.parse_args()\<close> (line 548) as the environment: a model of CPython
    3.11's \<open>argparse\<close> for this parser (each word classified as argument,
    option or \<open>--\<close>; \<open>--opt=value\<close>; unique prefixes; \<open>-h\<close>; the
    \<open>nargs\<close> patterns; \<open>type=int\<close> as Python's \<open>int()\<close>; required options;
    unrecognised words), the reads \<open>args.*\<close> into \<open>cli_args\<close>, and
    \<open>main_cli\<close>, \<open>main\<close> from the command line.  Lemmas: the command line
    round trip and its composition with \<open>main\<close>; every parsed namespace is
    typed against the declarations (an invariant of the parsing loop), so
    that the reads of \<open>main\<close> (lines 554--555, 562, 581, 606) always give a
    complete \<open>cli_args\<close>; the defaults; a value beginning with \<open>-\<close> is
    refused after its option; \<open>int(str(i)) = i\<close>.

  Loops are structural recursion or \<open>function\<close> with a measure on the
  remaining rows (the 1000-row export loop, \<open>str.replace\<close>), so every
  operation is total and no fuel is needed.  Claims about concrete runs use
  small fixture servers and catalogs defined beside them (a server refusing
  one statement, a catalog listing one serial column) and are evaluated by
  \<open>simp\<close>.
  Exceptions are the \<open>Inl\<close> branch of a sum type, and the Python
  \<open>try\<close>/\<open>except\<close> blocks are case distinctions on it.

  Not modelled: the help and error texts \<open>argparse\<close> prints, and the one
  command line whose value the record of arguments cannot hold
  (\<open>--opt=--\<close>, which \<open>argparse\<close> 3.11 stores as an empty list; it is the
  outcome \<open>CliListArgument\<close> of \<open>main_cli\<close>), the drivers themselves (the
  MySQL source is a record of query answers, the PostgreSQL server an
  arbitrary deterministic engine), the text layer of the \<open>csv\<close> module
  (quoting and line breaks), \<open>print\<close> output, and the wall-clock times of
  the report, which are parameters.
\<close>

end
